(* ===== verification/Prelude.thy ===== *)
theory Prelude
  imports Complex_Main "HOL-Library.AList"
begin

text \<open>
  Shared vocabulary of the development: the lemma collections the component
  theories feed to the simplifier, the index-aware \<open>map\<close> of JavaScript arrays,
  and insertion-ordered objects as association lists.

  \<^item> \<open>mapi f xs\<close> is \<^verbatim>\<open>xs.map((x, i) => f(i, x))\<close>; \<open>mapi_update\<close> is the
    bridge to HOL's \<open>xs[i := v]\<close> that every "edit row i" proof goes through.
  \<^item> An object is a list of key/value pairs in property-creation order.
    \<open>obj_get\<close> reads a property, \<open>obj_set\<close> assigns one (in place when the key
    exists, appended otherwise), \<open>obj_spread\<close> is \<^verbatim>\<open>{...a, ...b}\<close>, \<open>obj_keys\<close>
    is \<^verbatim>\<open>Object.keys\<close>.
\<close>

section \<open>Lemma collections\<close>

named_theorems js_defs "definitions unfolded to evaluate the model on concrete values"
named_theorems frame "fields and rows an operation leaves unchanged"
named_theorems shape "facts about the keys and lengths an operation preserves"

section \<open>Arrays: map with an index\<close>

fun mapi_from :: "nat \<Rightarrow> (nat \<Rightarrow> 'a \<Rightarrow> 'b) \<Rightarrow> 'a list \<Rightarrow> 'b list" where
  "mapi_from k f [] = []"
| "mapi_from k f (x # xs) = f k x # mapi_from (Suc k) f xs"

definition mapi :: "(nat \<Rightarrow> 'a \<Rightarrow> 'b) \<Rightarrow> 'a list \<Rightarrow> 'b list" where
  "mapi f xs = mapi_from 0 f xs"

lemma length_mapi_from [simp, shape]: "length (mapi_from k f xs) = length xs"
  by (induction xs arbitrary: k) auto

lemma nth_mapi_from [simp]:
  "i < length xs \<Longrightarrow> mapi_from k f xs ! i = f (k + i) (xs ! i)"
proof (induction xs arbitrary: k i)
  case Nil
  then show ?case by simp
next
  case (Cons x xs)
  then show ?case by (cases i) auto
qed

lemma length_mapi [simp, shape]: "length (mapi f xs) = length xs"
  by (simp add: mapi_def)

lemma nth_mapi [simp]: "i < length xs \<Longrightarrow> mapi f xs ! i = f i (xs ! i)"
  by (simp add: mapi_def)

lemma mapi_Nil [simp]: "mapi f [] = []"
  by (simp add: mapi_def)

lemma mapi_Cons [simp]: "mapi f (x # xs) = f 0 x # mapi (\<lambda>i. f (Suc i)) xs"
proof -
  have "mapi_from (Suc k) f ys = mapi_from k (\<lambda>i. f (Suc i)) ys" for k ys
    by (induction ys arbitrary: k) auto
  then show ?thesis by (simp add: mapi_def)
qed

lemma mapi_eq_map_enumerate: "mapi f xs = map (\<lambda>(i, x). f i x) (enumerate 0 xs)"
proof -
  have "mapi_from k f xs = map (\<lambda>(i, x). f i x) (enumerate k xs)" for k
    by (induction xs arbitrary: k) auto
  then show ?thesis by (simp add: mapi_def)
qed

text \<open>
  Replacing the element at one position through \<open>mapi\<close> is \<open>list_update\<close> when
  the position exists and the identity when it does not: JavaScript's \<open>map\<close>
  never extends the array.
\<close>

lemma mapi_update:
  "mapi (\<lambda>j x. if j = i then g x else x) xs =
     (if i < length xs then xs[i := g (xs ! i)] else xs)"
  by (rule nth_equalityI) (auto simp: nth_list_update)

lemma mapi_update_outside [frame]:
  "length xs \<le> i \<Longrightarrow> mapi (\<lambda>j x. if j = i then g x else x) xs = xs"
  by (simp add: mapi_update)

section \<open>Objects: insertion-ordered association lists\<close>

type_synonym 'v obj = "(string \<times> 'v) list"

definition obj_keys :: "'v obj \<Rightarrow> string list" where
  "obj_keys ps = map fst ps"

definition obj_get :: "'v obj \<Rightarrow> string \<Rightarrow> 'v option" where
  "obj_get ps k = map_of ps k"

definition obj_set :: "string \<Rightarrow> 'v \<Rightarrow> 'v obj \<Rightarrow> 'v obj" where
  "obj_set k v ps = AList.update k v ps"

definition obj_spread :: "'v obj \<Rightarrow> 'v obj \<Rightarrow> 'v obj" where
  "obj_spread a b = foldl (\<lambda>acc (k, v). obj_set k v acc) a b"

lemma obj_get_Nil [simp]: "obj_get [] k = None"
  by (simp add: obj_get_def)

lemma obj_get_Cons [simp]:
  "obj_get ((k', v) # ps) k = (if k = k' then Some v else obj_get ps k)"
  by (simp add: obj_get_def)

lemma obj_set_Nil [simp]: "obj_set k v [] = [(k, v)]"
  by (simp add: obj_set_def)

lemma obj_set_Cons [simp]:
  "obj_set k v (p # ps) = (if fst p = k then (k, v) # ps else p # obj_set k v ps)"
  by (simp add: obj_set_def)

lemma obj_keys_simps [simp]:
  "obj_keys [] = []" "obj_keys (p # ps) = fst p # obj_keys ps"
  by (simp_all add: obj_keys_def)

lemma obj_spread_simps [simp]:
  "obj_spread a [] = a"
  "obj_spread a ((k, v) # b) = obj_spread (obj_set k v a) b"
  by (simp_all add: obj_spread_def)

lemma obj_get_set [simp]: "obj_get (obj_set k v ps) k' = (if k' = k then Some v else obj_get ps k')"
  by (simp add: obj_get_def obj_set_def update_conv')

lemma obj_keys_set:
  "obj_keys (obj_set k v ps) = (if k \<in> set (obj_keys ps) then obj_keys ps else obj_keys ps @ [k])"
  by (simp add: obj_keys_def obj_set_def update_keys)

lemma obj_keys_set_present [simp, shape]:
  "k \<in> set (obj_keys ps) \<Longrightarrow> obj_keys (obj_set k v ps) = obj_keys ps"
  by (simp add: obj_keys_set)

lemma obj_keys_set_absent [simp]:
  "k \<notin> set (obj_keys ps) \<Longrightarrow> obj_keys (obj_set k v ps) = obj_keys ps @ [k]"
  by (simp add: obj_keys_set)

lemma length_obj_set_present [shape]:
  "k \<in> set (obj_keys ps) \<Longrightarrow> length (obj_set k v ps) = length ps"
  by (induction ps) auto

lemma distinct_obj_set [simp]:
  "distinct (obj_keys ps) \<Longrightarrow> distinct (obj_keys (obj_set k v ps))"
  by (simp add: obj_keys_def obj_set_def distinct_update)

lemma obj_get_None_iff: "obj_get ps k = None \<longleftrightarrow> k \<notin> set (obj_keys ps)"
  by (simp add: obj_get_def obj_keys_def map_of_eq_None_iff)

lemma obj_get_Some_key: "obj_get ps k = Some v \<Longrightarrow> k \<in> set (obj_keys ps)"
  using obj_get_None_iff [of ps k] by auto

lemma obj_set_idem [simp]: "obj_set k v (obj_set k v' ps) = obj_set k v ps"
  by (simp add: obj_set_def)

lemma obj_set_same: "obj_get ps k = Some v \<Longrightarrow> obj_set k v ps = ps"
  by (simp add: obj_get_def obj_set_def update_triv)

text \<open>
  A property assignment touches one entry: every other entry keeps its value
  and, when the key was already there, its place.
\<close>

lemma obj_set_other_entry [frame]:
  "k' \<noteq> k \<Longrightarrow> (k', v') \<in> set ps \<Longrightarrow> (k', v') \<in> set (obj_set k v ps)"
  by (induction ps) auto

lemma obj_set_nth_other [frame]:
  "i < length ps \<Longrightarrow> fst (ps ! i) \<noteq> k \<Longrightarrow> obj_set k v ps ! i = ps ! i"
proof (induction ps arbitrary: i)
  case Nil
  then show ?case by simp
next
  case (Cons p ps)
  then show ?case by (cases i) auto
qed

lemma obj_get_append:
  "obj_get (xs @ ys) k = (case obj_get xs k of Some v \<Rightarrow> Some v | None \<Rightarrow> obj_get ys k)"
  by (induction xs) auto

lemma obj_get_spread:
  "obj_get (obj_spread a b) k = (case obj_get (rev b) k of Some v \<Rightarrow> Some v | None \<Rightarrow> obj_get a k)"
proof (induction b arbitrary: a)
  case Nil
  then show ?case by simp
next
  case (Cons p b)
  obtain k' v' where p: "p = (k', v')" by (cases p)
  show ?case
    by (simp add: p Cons.IH obj_get_append split: option.splits)
qed

lemma obj_keys_spread_subset [shape]:
  "set (obj_keys b) \<subseteq> set (obj_keys a) \<Longrightarrow> obj_keys (obj_spread a b) = obj_keys a"
proof (induction b arbitrary: a)
  case Nil
  then show ?case by simp
next
  case (Cons p b)
  obtain k v where p: "p = (k, v)" by (cases p)
  with Cons.prems have "k \<in> set (obj_keys a)" "set (obj_keys b) \<subseteq> set (obj_keys (obj_set k v a))"
    by auto
  with Cons.IH [of "obj_set k v a"] show ?case by (simp add: p)
qed

lemma obj_spread_single [simp]: "obj_spread a [(k, v)] = obj_set k v a"
  by simp

section \<open>Lists of optional results\<close>

lemma those_map_Some:
  "(\<And>x. x \<in> set xs \<Longrightarrow> f x = Some (g x)) \<Longrightarrow> those (map f xs) = Some (map g xs)"
  by (induction xs) auto

lemma those_map_inverse:
  "(\<And>x. f (g x) = Some x) \<Longrightarrow> those (map (f \<circ> g) xs) = Some xs"
  by (induction xs) auto

lemma those_eq_Some_length: "those xs = Some ys \<Longrightarrow> length ys = length xs"
  by (induction xs arbitrary: ys) (auto split: option.splits)

lemma those_eq_Some_nth:
  "those xs = Some ys \<Longrightarrow> i < length xs \<Longrightarrow> xs ! i = Some (ys ! i)"
proof (induction xs arbitrary: ys i)
  case Nil
  then show ?case by simp
next
  case (Cons x xs)
  then show ?case by (cases i) (auto split: option.splits)
qed

lemma those_append:
  "those (xs @ zs) =
     (case those xs of None \<Rightarrow> None
      | Some a \<Rightarrow> (case those zs of None \<Rightarrow> None | Some b \<Rightarrow> Some (a @ b)))"
  by (induction xs) (auto split: option.splits)

lemma those_list_update:
  "those xs = Some ys \<Longrightarrow> those (xs[i := Some y]) = Some (ys[i := y])"
proof (induction xs arbitrary: ys i)
  case Nil
  then show ?case by simp
next
  case (Cons x xs)
  then show ?case by (cases i) (auto split: option.splits)
qed

lemma those_eq_Some_all: "those xs = Some ys \<Longrightarrow> list_all (\<lambda>x. x \<noteq> None) xs"
  by (induction xs arbitrary: ys) (auto split: option.splits)

lemma those_all_Some: "list_all (\<lambda>x. x \<noteq> None) xs \<Longrightarrow> \<exists>ys. those xs = Some ys"
  by (induction xs) auto

end
