(* ===== verification/Shell.thy ===== *)
theory Shell
  imports Prelude
begin

text \<open>
  The shell: the route table of \<^verbatim>\<open>src/web/src/App.tsx\<close> and the navigation bar
  of \<^verbatim>\<open>src/web/src/components/Layout.tsx\<close>.

  A location is matched against the table by its exact path (the router's
  tolerance for letter case and a trailing slash is library behaviour and is
  not modelled). The catch-all route answers with a redirect, after which the
  router matches again; \<open>settle_location\<close> follows redirects until a page is
  shown, and \<open>every_location_settles\<close> proves that it always returns.

  \<open>Layout\<close> is the frame every page is shown in: the title, the navigation bar
  for the current path (\<open>layout_links\<close>, the link of the current path
  highlighted by \<open>link_class\<close>) and the outlet, which holds what the matched
  route renders.
\<close>

section \<open>Routes\<close>

datatype page = Dashboard | LogSession | Metrics | Analytics | Profile

datatype route_result = Show page | Redirect string

definition routes :: "(string \<times> page) list" where
  "routes =
     [(''/'', Dashboard), (''/log-session'', LogSession), (''/metrics'', Metrics),
      (''/analytics'', Analytics), (''/profile'', Profile)]"

definition route :: "string \<Rightarrow> route_result" where
  "route path = (case map_of routes path of Some p \<Rightarrow> Show p | None \<Rightarrow> Redirect ''/'')"

partial_function (option) settle_location :: "string \<Rightarrow> (string \<times> page) option" where
  "settle_location path =
     (case route path of Show p \<Rightarrow> Some (path, p) | Redirect to \<Rightarrow> settle_location to)"

section \<open>Navigation bar\<close>

record nav_link =
  nl_href :: string
  nl_label :: string
  nl_active :: bool

definition links :: "(string \<times> string) list" where
  "links =
     [(''/'', ''Dashboard''), (''/log-session'', ''Log Session''), (''/metrics'', ''Metrics''),
      (''/analytics'', ''Analytics''), (''/profile'', ''Profile'')]"

definition layout_links :: "string \<Rightarrow> nav_link list" where
  "layout_links pathname =
     map (\<lambda>(href, label). \<lparr>nl_href = href, nl_label = label, nl_active = (pathname = href)\<rparr>)
       links"

definition link_class :: "bool \<Rightarrow> string" where
  "link_class active =
     ''rounded px-3 py-1 text-sm '' @
     (if active then ''bg-blue-500 text-white'' else ''bg-slate-800 text-slate-300'')"

record 'a layout_view =
  ly_title :: string
  ly_nav :: "nav_link list"
  ly_main :: 'a

definition Layout :: "string \<Rightarrow> 'a \<Rightarrow> 'a layout_view" where
  "Layout pathname outlet =
     \<lparr>ly_title = ''Gymyo Adaptive Training'', ly_nav = layout_links pathname, ly_main = outlet\<rparr>"

definition href_of :: "page \<Rightarrow> string" where
  "href_of p =
     (case p of Dashboard \<Rightarrow> ''/'' | LogSession \<Rightarrow> ''/log-session'' | Metrics \<Rightarrow> ''/metrics''
      | Analytics \<Rightarrow> ''/analytics'' | Profile \<Rightarrow> ''/profile'')"

lemmas shell_defs [js_defs] =
  routes_def route_def links_def layout_links_def href_of_def link_class_def Layout_def

section \<open>Lemmas\<close>

lemma route_known [simp]: "route (href_of p) = Show p"
  by (cases p) (simp_all add: route_def routes_def href_of_def)

lemma route_Show_iff: "route path = Show p \<longleftrightarrow> path = href_of p"
proof
  assume "route path = Show p"
  then have "map_of routes path = Some p"
    by (simp add: route_def split: option.splits)
  then have "(path, p) \<in> set routes" by (rule map_of_SomeD)
  then show "path = href_of p"
    by (auto simp: routes_def href_of_def)
qed simp

lemma route_total: "(\<exists>p. route path = Show p \<and> path = href_of p) \<or> route path = Redirect ''/''"
proof (cases "map_of routes path")
  case None
  then show ?thesis by (simp add: route_def)
next
  case (Some p)
  then have "route path = Show p" by (simp add: route_def)
  then show ?thesis by (auto simp: route_Show_iff)
qed

lemma settle_known [simp]: "settle_location (href_of p) = Some (href_of p, p)"
  by (subst settle_location.simps) simp

lemma settle_unknown:
  "route path = Redirect ''/'' \<Longrightarrow> settle_location path = Some (''/'', Dashboard)"
  using settle_known [of Dashboard]
  by (subst settle_location.simps) (simp add: href_of_def)

lemma settle_location_routes [simp]:
  "settle_location ''/'' = Some (''/'', Dashboard)"
  "settle_location ''/log-session'' = Some (''/log-session'', LogSession)"
  "settle_location ''/metrics'' = Some (''/metrics'', Metrics)"
  "settle_location ''/analytics'' = Some (''/analytics'', Analytics)"
  "settle_location ''/profile'' = Some (''/profile'', Profile)"
  using settle_known [of Dashboard] settle_known [of LogSession] settle_known [of Metrics]
    settle_known [of Analytics] settle_known [of Profile]
  by (simp_all add: href_of_def)

lemma active_link_of_page:
  "map nl_href (filter nl_active (layout_links (href_of p))) = [href_of p]"
  by (cases p) (simp_all add: layout_links_def links_def href_of_def)

lemma link_class_inj [simp]: "link_class a = link_class b \<longleftrightarrow> a = b"
  by (cases a; cases b) (simp_all add: link_class_def)

lemma href_of_inj [simp]: "href_of p = href_of q \<longleftrightarrow> p = q"
  by (cases p; cases q) (simp_all add: href_of_def)

section \<open>Properties\<close>

text \<open>
  C32. Every location settles on a page: following the route table and its
  redirects from any path always ends, after at most one redirect, at one of
  the five pages: at the page of the path when the path is one of the five
  routes, and at the dashboard under \<^verbatim>\<open>/\<close> for every other path.
\<close>

theorem every_location_settles:
  "\<exists>loc p. settle_location path = Some (loc, p) \<and> route loc = Show p
     \<and> (if path \<in> set (map fst routes) then loc = path else loc = ''/'' \<and> p = Dashboard)"
proof -
  from route_total [of path] show ?thesis
  proof
    assume "\<exists>p. route path = Show p \<and> path = href_of p"
    then obtain p where p: "path = href_of p" by blast
    have "href_of p \<in> set (map fst routes)"
      by (cases p) (simp_all add: href_of_def routes_def)
    with p show ?thesis by simp
  next
    assume r: "route path = Redirect ''/''"
    then have "path \<notin> set (map fst routes)"
      by (auto simp: route_def map_of_eq_None_iff split: option.splits)
    moreover have "route ''/'' = Show Dashboard" by (simp add: route_def routes_def)
    ultimately show ?thesis using settle_unknown [OF r] by simp
  qed
qed

text \<open>
  The navigation bar and the route table agree: the bar has one link per
  route, in the order of the table and with distinct targets; every link
  leads to a page without a redirect; and at the location of a page exactly
  one link is highlighted, the link of that page.
\<close>

theorem navigation_matches_routes:
  "map fst links = map fst routes \<and> distinct (map fst links)
   \<and> list_all (\<lambda>l. route (nl_href l) \<noteq> Redirect ''/'') (layout_links pathname)
   \<and> map nl_href (filter nl_active (layout_links (href_of p))) = [href_of p]"
proof -
  have "list_all (\<lambda>l. route (nl_href l) \<noteq> Redirect ''/'') (layout_links pathname)"
    by (simp add: layout_links_def links_def route_def routes_def)
  moreover have "map nl_href (filter nl_active (layout_links (href_of p))) = [href_of p]"
    by (cases p) (simp_all add: layout_links_def links_def href_of_def)
  ultimately show ?thesis by (simp add: links_def routes_def)
qed

end
