(* ===== verification/JsNumber.thy ===== *)
theory JsNumber
  imports Prelude
begin

text \<open>
  The numbers of the JavaScript runtime, as far as the front end observes
  them. The program never computes with a number: it reads one from a form
  field (\<^verbatim>\<open>Number(event.target.value)\<close>), carries it in a draft, prints it
  into a message or a URL (\<^verbatim>\<open>`${n}`\<close>) and hands it to \<^verbatim>\<open>JSON.stringify\<close>.
  So a number is modelled by its exact value: a rational, or one of the three
  non-finite values.

  \<^item> \<open>number_to_string\<close> is \<^verbatim>\<open>Number::toString\<close> in plain decimal notation.
  \<^item> \<open>js_Number\<close> is \<^verbatim>\<open>Number(s)\<close> on a string: the \<^verbatim>\<open>StringNumericLiteral\<close>
    grammar (white space, sign, \<^verbatim>\<open>Infinity\<close>, decimal literal with fraction
    and exponent, \<^verbatim>\<open>0x\<close>/\<^verbatim>\<open>0o\<close>/\<^verbatim>\<open>0b\<close> integers), \<open>NaN\<close> for everything else.

  Bounds of the model: binary64 rounding is not modelled, so the value of a
  literal is exact where JavaScript rounds to the nearest double, and a
  literal beyond the binary64 range is finite here. The two agree on every
  integer below \<open>2^53\<close> in magnitude and on every decimal of at most 15
  significant digits between \<open>1e-6\<close> and \<open>1e21\<close>, which covers what the forms
  of this program produce. Only the ASCII white space characters are trimmed.
\<close>

section \<open>Numbers\<close>

datatype number = Fin rat | NaN | PosInf | NegInf

definition is_finite :: "number \<Rightarrow> bool" where
  "is_finite n = (case n of Fin _ \<Rightarrow> True | _ \<Rightarrow> False)"

lemma is_finite_simps [simp]:
  "is_finite (Fin r)" "\<not> is_finite NaN" "\<not> is_finite PosInf" "\<not> is_finite NegInf"
  by (simp_all add: is_finite_def)

section \<open>Printing\<close>

definition digit_char :: "nat \<Rightarrow> char" where
  "digit_char d = ''0123456789'' ! d"

fun nat_digits :: "nat \<Rightarrow> string" where
  "nat_digits n =
     (if n < 10 then [digit_char n] else nat_digits (n div 10) @ [digit_char (n mod 10)])"

declare nat_digits.simps [simp del]

fun frac_digits :: "nat \<Rightarrow> rat \<Rightarrow> string" where
  "frac_digits 0 r = []"
| "frac_digits (Suc k) r =
     (if r = 0 then []
      else (let d = nat \<lfloor>r * 10\<rfloor> in digit_char d # frac_digits k (r * 10 - of_nat d)))"

definition rat_to_string :: "rat \<Rightarrow> string" where
  "rat_to_string r =
     (let a = \<bar>r\<bar>; n = nat \<lfloor>a\<rfloor>; f = a - of_nat n
      in (if r < 0 then ''-'' else []) @ nat_digits n @
         (if f = 0 then [] else ''.'' @ frac_digits 20 f))"

fun number_to_string :: "number \<Rightarrow> string" where
  "number_to_string (Fin r) = rat_to_string r"
| "number_to_string NaN = ''NaN''"
| "number_to_string PosInf = ''Infinity''"
| "number_to_string NegInf = ''-Infinity''"

section \<open>Parsing\<close>

definition is_digit :: "char \<Rightarrow> bool" where
  "is_digit c = (c \<in> set ''0123456789'')"

definition digit_val :: "char \<Rightarrow> nat" where
  "digit_val c = of_char c - 48"

definition digits_val :: "string \<Rightarrow> nat" where
  "digits_val s = foldl (\<lambda>a c. 10 * a + digit_val c) 0 s"

definition is_ws :: "char \<Rightarrow> bool" where
  "is_ws c = (c \<in> set [CHR 0x09, CHR 0x0A, CHR 0x0B, CHR 0x0C, CHR 0x0D, CHR '' ''])"

definition trim :: "string \<Rightarrow> string" where
  "trim s = rev (dropWhile is_ws (rev (dropWhile is_ws s)))"

definition radix_digit :: "char \<Rightarrow> nat option" where
  "radix_digit c =
     (if is_digit c then Some (digit_val c)
      else if c \<in> set ''abcdef'' then Some (of_char c - 87)
      else if c \<in> set ''ABCDEF'' then Some (of_char c - 55)
      else None)"

fun radix_val :: "nat \<Rightarrow> nat \<Rightarrow> string \<Rightarrow> nat option" where
  "radix_val b acc [] = Some acc"
| "radix_val b acc (c # cs) =
     (case radix_digit c of
        None \<Rightarrow> None
      | Some d \<Rightarrow> if d < b then radix_val b (b * acc + d) cs else None)"

definition parse_radix :: "nat \<Rightarrow> string \<Rightarrow> number" where
  "parse_radix b s =
     (if s = [] then NaN
      else case radix_val b 0 s of None \<Rightarrow> NaN | Some n \<Rightarrow> Fin (of_nat n))"

definition parse_exponent :: "string \<Rightarrow> int option" where
  "parse_exponent s =
     (if s = [] then Some 0
      else if hd s \<noteq> CHR ''e'' \<and> hd s \<noteq> CHR ''E'' then None
      else (let t = tl s;
                neg = (t \<noteq> [] \<and> hd t = CHR ''-'');
                ds = (if t \<noteq> [] \<and> (hd t = CHR ''-'' \<or> hd t = CHR ''+'') then tl t else t)
            in if ds = [] \<or> \<not> list_all is_digit ds then None
               else Some (if neg then - int (digits_val ds) else int (digits_val ds))))"

definition parse_unsigned :: "string \<Rightarrow> number" where
  "parse_unsigned s =
     (if s = ''Infinity'' then PosInf
      else (let ip = takeWhile is_digit s;
                r1 = dropWhile is_digit s;
                dot = (r1 \<noteq> [] \<and> hd r1 = CHR ''.'');
                fp = (if dot then takeWhile is_digit (tl r1) else []);
                r2 = (if dot then dropWhile is_digit (tl r1) else r1)
            in if ip = [] \<and> fp = [] then NaN
               else case parse_exponent r2 of
                      None \<Rightarrow> NaN
                    | Some e \<Rightarrow>
                        Fin ((of_nat (digits_val ip) + of_nat (digits_val fp) / 10 ^ length fp)
                             * (if e < 0 then 1 / 10 ^ nat (- e) else 10 ^ nat e))))"

definition negate :: "number \<Rightarrow> number" where
  "negate n = (case n of Fin r \<Rightarrow> Fin (- r) | NaN \<Rightarrow> NaN | PosInf \<Rightarrow> NegInf | NegInf \<Rightarrow> PosInf)"

definition js_Number :: "string \<Rightarrow> number" where
  "js_Number s =
     (let t = trim s
      in if t = [] then Fin 0
         else if take 2 t \<in> set [''0x'', ''0X''] then parse_radix 16 (drop 2 t)
         else if take 2 t \<in> set [''0o'', ''0O''] then parse_radix 8 (drop 2 t)
         else if take 2 t \<in> set [''0b'', ''0B''] then parse_radix 2 (drop 2 t)
         else if hd t = CHR ''+'' then parse_unsigned (tl t)
         else if hd t = CHR ''-'' then negate (parse_unsigned (tl t))
         else parse_unsigned t)"

lemmas number_defs [js_defs] =
  digit_char_def rat_to_string_def is_digit_def digit_val_def digits_val_def is_ws_def
  trim_def radix_digit_def parse_radix_def parse_exponent_def parse_unsigned_def negate_def
  js_Number_def Let_def

section \<open>Digits\<close>

lemma small_digit_cases: "d < 10 \<Longrightarrow> d \<in> {0, 1, 2, 3, 4, 5, 6, 7, 8, 9 :: nat}"
  by auto

lemma digit_char_is_digit [simp]: "d < 10 \<Longrightarrow> is_digit (digit_char d)"
  by (drule small_digit_cases) (auto simp: is_digit_def digit_char_def)

lemma digit_val_digit_char [simp]: "d < 10 \<Longrightarrow> digit_val (digit_char d) = d"
  by (drule small_digit_cases) (auto simp: digit_val_def digit_char_def)

lemma is_digit_not_ws [simp]: "is_digit c \<Longrightarrow> \<not> is_ws c"
  by (auto simp: is_digit_def is_ws_def)

lemma nat_digits_all_digits [simp]: "list_all is_digit (nat_digits n)"
proof (induction n rule: nat_digits.induct)
  case (1 n)
  then show ?case by (subst nat_digits.simps) simp
qed

lemma nat_digits_nonempty [simp]: "nat_digits n \<noteq> []"
  by (subst nat_digits.simps) simp

lemma digits_val_snoc [simp]: "digits_val (s @ [c]) = 10 * digits_val s + digit_val c"
  by (simp add: digits_val_def)

lemma digits_val_nat_digits [simp]: "digits_val (nat_digits n) = n"
proof (induction n rule: nat_digits.induct)
  case (1 n)
  show ?case
  proof (cases "n < 10")
    case True
    then show ?thesis by (subst nat_digits.simps) (simp add: digits_val_def)
  next
    case False
    with "1.IH" show ?thesis by (subst nat_digits.simps) simp
  qed
qed

lemma takeWhile_all: "list_all P xs \<Longrightarrow> takeWhile P xs = xs"
  by (induction xs) auto

lemma dropWhile_all: "list_all P xs \<Longrightarrow> dropWhile P xs = []"
  by (induction xs) auto

lemma dropWhile_none: "list_all (\<lambda>x. \<not> P x) xs \<Longrightarrow> dropWhile P xs = xs"
  by (cases xs) auto

lemma trim_no_ws: "list_all (\<lambda>c. \<not> is_ws c) s \<Longrightarrow> trim s = s"
  by (simp add: trim_def dropWhile_none list_all_iff)

lemma trim_digits [simp]: "list_all is_digit s \<Longrightarrow> trim s = s"
  by (rule trim_no_ws) (auto simp: list_all_iff)

section \<open>Integers print as their digits and read back\<close>

lemma rat_to_string_of_nat [simp]: "rat_to_string (of_nat n) = nat_digits n"
  by (simp add: rat_to_string_def)

lemma hd_nat_digits_digit: "is_digit (hd (nat_digits n))"
  using nat_digits_all_digits [of n] nat_digits_nonempty [of n]
  by (cases "nat_digits n") auto

lemma parse_unsigned_digits:
  assumes "list_all is_digit s" "s \<noteq> []"
  shows "parse_unsigned s = Fin (of_nat (digits_val s))"
proof -
  have "s \<noteq> ''Infinity''" using assms(1) by (auto simp: is_digit_def)
  then show ?thesis using assms
    by (simp add: parse_unsigned_def takeWhile_all dropWhile_all parse_exponent_def Let_def
        digits_val_def)
qed

lemma js_Number_digits:
  assumes "list_all is_digit s" "s \<noteq> []"
  shows "js_Number s = Fin (of_nat (digits_val s))"
proof -
  from assms(1) have "list_all is_digit (take 2 s)"
    by (auto simp: list_all_iff dest: in_set_takeD)
  then have prefix: "take 2 s \<notin> set [''0x'', ''0X'', ''0o'', ''0O'', ''0b'', ''0B'']"
    by (auto simp: is_digit_def)
  from assms have "is_digit (hd s)" by (cases s) auto
  then have sign: "hd s \<noteq> CHR ''+''" "hd s \<noteq> CHR ''-''"
    by (auto simp: is_digit_def)
  from assms prefix sign show ?thesis
    by (simp add: js_Number_def parse_unsigned_digits)
qed

lemma js_Number_nat_digits: "js_Number (nat_digits n) = Fin (of_nat n)"
  by (simp add: js_Number_digits)

lemma js_Number_empty [simp]: "js_Number [] = Fin 0"
  by (simp add: js_Number_def trim_def)

lemma number_roundtrip_nat: "js_Number (number_to_string (Fin (of_nat n))) = Fin (of_nat n)"
  by (simp add: js_Number_nat_digits)

section \<open>Evaluation on numerals\<close>

lemma nat_digits_0 [simp]: "nat_digits 0 = ''0''"
  by (simp add: nat_digits.simps digit_char_def)

lemma nat_digits_1 [simp]: "nat_digits (Suc 0) = ''1''"
  by (simp add: nat_digits.simps digit_char_def)

lemma nat_digits_numeral [simp]:
  "nat_digits (numeral k) =
     (if numeral k < (10 :: nat) then [digit_char (numeral k)]
      else nat_digits (numeral k div 10) @ [digit_char (numeral k mod 10)])"
  by (rule nat_digits.simps)

lemma rat_to_string_numeral [simp]: "rat_to_string (numeral k) = nat_digits (numeral k)"
  using rat_to_string_of_nat [of "numeral k"] by simp

lemma rat_to_string_0 [simp]: "rat_to_string 0 = ''0''"
  using rat_to_string_of_nat [of 0] by simp

lemma rat_to_string_1 [simp]: "rat_to_string 1 = ''1''"
  using rat_to_string_of_nat [of 1] by simp

end
