(* ===== verification/JsValue.thy ===== *)
theory JsValue
  imports JsNumber
begin

text \<open>
  The values the front end holds at run time. TypeScript's types are erased
  when the program runs, so a draft, a decoded response or a request payload
  is a plain JavaScript value, and the operators of the source act on it by
  the rules of the language, whatever type the source declares:

  \<^item> \<open>truthy\<close>: the test of \<^verbatim>\<open>if (error)\<close>, \<^verbatim>\<open>!data\<close> and \<^verbatim>\<open>message && ...\<close>;
  \<^item> \<open>coalesce\<close>: the operator \<^verbatim>\<open>??\<close>;
  \<^item> \<open>js_get\<close>: a property read \<^verbatim>\<open>v.k\<close>, which throws on \<^verbatim>\<open>null\<close> and
    \<^verbatim>\<open>undefined\<close> and gives \<^verbatim>\<open>undefined\<close> for a missing key;
  \<^item> \<open>js_to_string\<close>: the conversion of template literals and of the \<^verbatim>\<open>Error\<close>
    constructor;
  \<^item> \<open>react_text\<close>: what React puts on the screen for a child \<^verbatim>\<open>{v}\<close>;
  \<^item> \<open>json_value\<close>: the JSON document \<^verbatim>\<open>JSON.stringify\<close> writes for a value
    (\<open>None\<close>: nothing is written), and \<open>is_json\<close>: the values that are JSON
    documents, which \<open>json_value\<close> leaves as they are.

  Strings are byte strings. Properties that strings and arrays inherit
  (\<^verbatim>\<open>length\<close>, indices) are not modelled: the program reads schema fields only.
\<close>

section \<open>Values\<close>

datatype jsval =
    JUndefined
  | JNull
  | JBool bool
  | JNum number
  | JStr string
  | JArr "jsval list"
  | JObj "(string \<times> jsval) list"

type_synonym jsobj = "jsval obj"

abbreviation JNat :: "nat \<Rightarrow> jsval" where
  "JNat n \<equiv> JNum (Fin (of_nat n))"

datatype js_error = TypeError | SyntaxError | RenderError

section \<open>Operators\<close>

fun truthy :: "jsval \<Rightarrow> bool" where
  "truthy JUndefined = False"
| "truthy JNull = False"
| "truthy (JBool b) = b"
| "truthy (JNum n) = (n \<noteq> NaN \<and> n \<noteq> Fin 0)"
| "truthy (JStr s) = (s \<noteq> [])"
| "truthy (JArr xs) = True"
| "truthy (JObj ps) = True"

definition nullish :: "jsval \<Rightarrow> bool" where
  "nullish v = (v = JUndefined \<or> v = JNull)"

definition coalesce :: "jsval \<Rightarrow> jsval \<Rightarrow> jsval" where
  "coalesce a b = (if nullish a then b else a)"

fun js_get :: "jsval \<Rightarrow> string \<Rightarrow> js_error + jsval" where
  "js_get JUndefined k = Inl TypeError"
| "js_get JNull k = Inl TypeError"
| "js_get (JObj ps) k = Inr (case obj_get ps k of None \<Rightarrow> JUndefined | Some v \<Rightarrow> v)"
| "js_get v k = Inr JUndefined"

definition intercalate :: "string \<Rightarrow> string list \<Rightarrow> string" where
  "intercalate sep xs = (case xs of [] \<Rightarrow> [] | y # ys \<Rightarrow> y @ concat (map (\<lambda>z. sep @ z) ys))"

fun js_to_string :: "jsval \<Rightarrow> string" where
  "js_to_string JUndefined = ''undefined''"
| "js_to_string JNull = ''null''"
| "js_to_string (JBool b) = (if b then ''true'' else ''false'')"
| "js_to_string (JNum n) = number_to_string n"
| "js_to_string (JStr s) = s"
| "js_to_string (JArr xs) =
     intercalate '','' (map (\<lambda>v. if v = JUndefined \<or> v = JNull then [] else js_to_string v) xs)"
| "js_to_string (JObj ps) = ''[object Object]''"

fun react_text :: "jsval \<Rightarrow> js_error + string" where
  "react_text JUndefined = Inr []"
| "react_text JNull = Inr []"
| "react_text (JBool b) = Inr []"
| "react_text (JNum n) = Inr (number_to_string n)"
| "react_text (JStr s) = Inr s"
| "react_text (JArr xs) =
     (if list_all (\<lambda>v. \<not> isl (react_text v)) xs
      then Inr (concat (map (\<lambda>v. projr (react_text v)) xs))
      else Inl RenderError)"
| "react_text (JObj ps) = Inl RenderError"

section \<open>JSON documents\<close>

fun json_value :: "jsval \<Rightarrow> jsval option" where
  "json_value JUndefined = None"
| "json_value JNull = Some JNull"
| "json_value (JBool b) = Some (JBool b)"
| "json_value (JNum n) = Some (if is_finite n then JNum n else JNull)"
| "json_value (JStr s) = Some (JStr s)"
| "json_value (JArr xs) =
     Some (JArr (map (\<lambda>v. case json_value v of None \<Rightarrow> JNull | Some j \<Rightarrow> j) xs))"
| "json_value (JObj ps) =
     Some (JObj (concat (map (\<lambda>p. case json_value (snd p) of
                                      None \<Rightarrow> [] | Some j \<Rightarrow> [(fst p, j)]) ps)))"

fun is_json :: "jsval \<Rightarrow> bool" where
  "is_json JUndefined = False"
| "is_json JNull = True"
| "is_json (JBool b) = True"
| "is_json (JNum n) = is_finite n"
| "is_json (JStr s) = True"
| "is_json (JArr xs) = list_all is_json xs"
| "is_json (JObj ps) = list_all (\<lambda>p. is_json (snd p)) ps"

lemmas value_defs [js_defs] = nullish_def coalesce_def intercalate_def

section \<open>Facts\<close>

lemma nullish_simps [simp]:
  "nullish JUndefined" "nullish JNull" "\<not> nullish (JBool b)" "\<not> nullish (JNum n)"
  "\<not> nullish (JStr s)" "\<not> nullish (JArr xs)" "\<not> nullish (JObj ps)"
  by (simp_all add: nullish_def)

lemma coalesce_simps [simp]:
  "nullish a \<Longrightarrow> coalesce a b = b" "\<not> nullish a \<Longrightarrow> coalesce a b = a"
  by (simp_all add: coalesce_def)

lemma truthy_not_nullish: "truthy v \<Longrightarrow> \<not> nullish v"
  by (cases v) simp_all

lemma js_get_total_on_truthy: "truthy v \<Longrightarrow> \<not> isl (js_get v k)"
  by (cases v) simp_all

lemma js_get_obj_present [simp]: "obj_get ps k = Some v \<Longrightarrow> js_get (JObj ps) k = Inr v"
  by simp

lemma is_json_not_undefined [simp]: "is_json v \<Longrightarrow> v \<noteq> JUndefined"
  by auto

text \<open>
  \<^verbatim>\<open>JSON.stringify\<close> writes a JSON document unchanged, and whatever it writes
  is a JSON document: the transformation is a projection onto \<open>is_json\<close>.
\<close>

lemma json_value_id: "is_json v \<Longrightarrow> json_value v = Some v"
proof (induction v rule: json_value.induct)
  case (6 xs)
  then have "map (\<lambda>v. case json_value v of None \<Rightarrow> JNull | Some j \<Rightarrow> j) xs = xs"
    by (auto simp: list_all_iff intro: map_idI)
  then show ?case by simp
next
  case (7 ps)
  then have "\<And>p. p \<in> set ps \<Longrightarrow> json_value (snd p) = Some (snd p)"
    by (auto simp: list_all_iff)
  then have "concat (map (\<lambda>p. case json_value (snd p) of
                               None \<Rightarrow> [] | Some j \<Rightarrow> [(fst p, j)]) ps) = ps"
    by (induction ps) auto
  then show ?case by simp
qed simp_all

lemma json_value_is_json: "json_value v = Some j \<Longrightarrow> is_json j"
proof (induction v arbitrary: j rule: json_value.induct)
  case (6 xs)
  then show ?case
    by (auto simp: list_all_iff split: option.splits)
next
  case (7 ps)
  then show ?case
    by (auto simp: list_all_iff split: option.splits)
qed (auto split: if_splits)

lemma json_value_idem: "json_value v = Some j \<Longrightarrow> json_value j = Some j"
  by (rule json_value_id) (rule json_value_is_json)

lemma json_value_None_iff: "json_value v = None \<longleftrightarrow> v = JUndefined"
  by (cases v) simp_all

end
