(* ===== verification/Schema.thy ===== *)
theory Schema
  imports JsValue "HOL-Library.Monad_Syntax"
begin

text \<open>
  The data contract of \<^verbatim>\<open>src/web/src/api/types.ts\<close>: one record per exported
  type, with the fields in the order of the source (prefixed by the type's
  initials, since Isabelle field names are global).

  A TypeScript type says which run-time values a variable may hold. The
  record is the typed reading; \<open>T_to_js\<close> is the object a literal of that
  type builds (fields in declaration order), and \<open>T_of_js\<close> reads a run-time
  value at the type: \<open>Some\<close> exactly when every declared field is present with
  a value of the declared kind (extra fields and any field order are allowed,
  as structural typing allows them). A value \<^emph>\<open>conforms\<close> to \<open>T\<close> when
  \<open>T_of_js\<close> succeeds on it. Nothing in the program performs this check: it is
  the specification against which the untyped operations are verified.
\<close>

section \<open>Field readers\<close>

definition as_obj :: "jsval \<Rightarrow> jsobj option" where
  "as_obj v = (case v of JObj ps \<Rightarrow> Some ps | _ \<Rightarrow> None)"

definition num_at :: "jsobj \<Rightarrow> string \<Rightarrow> number option" where
  "num_at ps k = (case obj_get ps k of Some (JNum n) \<Rightarrow> Some n | _ \<Rightarrow> None)"

definition str_at :: "jsobj \<Rightarrow> string \<Rightarrow> string option" where
  "str_at ps k = (case obj_get ps k of Some (JStr s) \<Rightarrow> Some s | _ \<Rightarrow> None)"

definition bool_at :: "jsobj \<Rightarrow> string \<Rightarrow> bool option" where
  "bool_at ps k = (case obj_get ps k of Some (JBool b) \<Rightarrow> Some b | _ \<Rightarrow> None)"

definition arr_at :: "jsobj \<Rightarrow> string \<Rightarrow> jsval list option" where
  "arr_at ps k = (case obj_get ps k of Some (JArr xs) \<Rightarrow> Some xs | _ \<Rightarrow> None)"

definition val_at :: "jsobj \<Rightarrow> string \<Rightarrow> jsval option" where
  "val_at ps k = obj_get ps k"

definition is_str_or_num :: "jsval \<Rightarrow> bool" where
  "is_str_or_num v = (case v of JStr _ \<Rightarrow> True | JNum _ \<Rightarrow> True | _ \<Rightarrow> False)"

definition dict_at :: "jsobj \<Rightarrow> string \<Rightarrow> jsobj option" where
  "dict_at ps k =
     (case obj_get ps k of
        Some (JObj qs) \<Rightarrow> if list_all (\<lambda>q. is_str_or_num (snd q)) qs then Some qs else None
      | _ \<Rightarrow> None)"

lemmas reader_defs =
  as_obj_def num_at_def str_at_def bool_at_def arr_at_def val_at_def dict_at_def

section \<open>The exported types\<close>

record UserProfile =
  up_user_id :: number
  up_age :: number
  up_bodyweight_kg :: number
  up_training_age_years :: number
  up_goal :: string
  up_mrv_baseline_sets :: number

record ProfileUpdate =
  pu_age :: number
  pu_bodyweight_kg :: number
  pu_training_age_years :: number
  pu_goal :: string
  pu_mrv_baseline_sets :: number

record ExerciseLog =
  el_exercise :: string
  el_sets :: number
  el_reps :: number
  el_load_kg :: number
  el_rir :: number

record SessionMetrics =
  sm_date :: string
  sm_sleep_hours :: number
  sm_resting_hr :: number
  sm_hrv_rmssd :: number
  sm_soreness :: number
  sm_motivation :: number
  sm_rpe_session :: number
  sm_duration_min :: number

record SessionInput =
  si_user_id :: number
  si_metrics :: SessionMetrics
  si_exercises :: "ExerciseLog list"

record DailyMetricsUpdate =
  dm_user_id :: number
  dm_metrics :: SessionMetrics

record TrainingPrescription =
  tp_target_date :: string
  tp_exercise :: string
  tp_sets :: number
  tp_reps :: number
  tp_load_kg :: number
  tp_deload :: bool
  tp_rationale :: jsobj

record SessionSummary =
  ss_date :: string
  ss_exercise_count :: number
  ss_tonnage :: number
  ss_avg_rir :: number

record DashboardResponse =
  dr_next_workout :: TrainingPrescription
  dr_latest_metrics :: SessionMetrics
  dr_recent_sessions :: "SessionSummary list"

record WeeklyVolumePoint =
  wv_week_start :: string
  wv_muscle :: string
  wv_volume :: number

record E1RMPoint =
  ep_date :: string
  ep_exercise :: string
  ep_e1rm :: number

record AnalyticsResponse =
  ar_sessions :: number
  ar_fatigue_mean :: number
  ar_stimulus_mean :: number
  ar_readiness_mean :: number
  ar_weekly_volume :: "WeeklyVolumePoint list"
  ar_e1rm_trend :: "E1RMPoint list"

section \<open>Typed value to run-time object\<close>

definition UserProfile_to_js :: "UserProfile \<Rightarrow> jsval" where
  "UserProfile_to_js p = JObj
     [(''user_id'', JNum (up_user_id p)), (''age'', JNum (up_age p)),
      (''bodyweight_kg'', JNum (up_bodyweight_kg p)),
      (''training_age_years'', JNum (up_training_age_years p)),
      (''goal'', JStr (up_goal p)), (''mrv_baseline_sets'', JNum (up_mrv_baseline_sets p))]"

definition ProfileUpdate_to_js :: "ProfileUpdate \<Rightarrow> jsval" where
  "ProfileUpdate_to_js p = JObj
     [(''age'', JNum (pu_age p)), (''bodyweight_kg'', JNum (pu_bodyweight_kg p)),
      (''training_age_years'', JNum (pu_training_age_years p)),
      (''goal'', JStr (pu_goal p)), (''mrv_baseline_sets'', JNum (pu_mrv_baseline_sets p))]"

definition ExerciseLog_to_js :: "ExerciseLog \<Rightarrow> jsval" where
  "ExerciseLog_to_js e = JObj
     [(''exercise'', JStr (el_exercise e)), (''sets'', JNum (el_sets e)),
      (''reps'', JNum (el_reps e)), (''load_kg'', JNum (el_load_kg e)),
      (''rir'', JNum (el_rir e))]"

definition SessionMetrics_to_js :: "SessionMetrics \<Rightarrow> jsval" where
  "SessionMetrics_to_js m = JObj
     [(''date'', JStr (sm_date m)), (''sleep_hours'', JNum (sm_sleep_hours m)),
      (''resting_hr'', JNum (sm_resting_hr m)), (''hrv_rmssd'', JNum (sm_hrv_rmssd m)),
      (''soreness'', JNum (sm_soreness m)), (''motivation'', JNum (sm_motivation m)),
      (''rpe_session'', JNum (sm_rpe_session m)), (''duration_min'', JNum (sm_duration_min m))]"

definition SessionInput_to_js :: "SessionInput \<Rightarrow> jsval" where
  "SessionInput_to_js i = JObj
     [(''user_id'', JNum (si_user_id i)), (''metrics'', SessionMetrics_to_js (si_metrics i)),
      (''exercises'', JArr (map ExerciseLog_to_js (si_exercises i)))]"

definition DailyMetricsUpdate_to_js :: "DailyMetricsUpdate \<Rightarrow> jsval" where
  "DailyMetricsUpdate_to_js u = JObj
     [(''user_id'', JNum (dm_user_id u)), (''metrics'', SessionMetrics_to_js (dm_metrics u))]"

definition TrainingPrescription_to_js :: "TrainingPrescription \<Rightarrow> jsval" where
  "TrainingPrescription_to_js t = JObj
     [(''target_date'', JStr (tp_target_date t)), (''exercise'', JStr (tp_exercise t)),
      (''sets'', JNum (tp_sets t)), (''reps'', JNum (tp_reps t)),
      (''load_kg'', JNum (tp_load_kg t)), (''deload'', JBool (tp_deload t)),
      (''rationale'', JObj (tp_rationale t))]"

definition SessionSummary_to_js :: "SessionSummary \<Rightarrow> jsval" where
  "SessionSummary_to_js s = JObj
     [(''date'', JStr (ss_date s)), (''exercise_count'', JNum (ss_exercise_count s)),
      (''tonnage'', JNum (ss_tonnage s)), (''avg_rir'', JNum (ss_avg_rir s))]"

definition DashboardResponse_to_js :: "DashboardResponse \<Rightarrow> jsval" where
  "DashboardResponse_to_js d = JObj
     [(''next_workout'', TrainingPrescription_to_js (dr_next_workout d)),
      (''latest_metrics'', SessionMetrics_to_js (dr_latest_metrics d)),
      (''recent_sessions'', JArr (map SessionSummary_to_js (dr_recent_sessions d)))]"

definition WeeklyVolumePoint_to_js :: "WeeklyVolumePoint \<Rightarrow> jsval" where
  "WeeklyVolumePoint_to_js w = JObj
     [(''week_start'', JStr (wv_week_start w)), (''muscle'', JStr (wv_muscle w)),
      (''volume'', JNum (wv_volume w))]"

definition E1RMPoint_to_js :: "E1RMPoint \<Rightarrow> jsval" where
  "E1RMPoint_to_js e = JObj
     [(''date'', JStr (ep_date e)), (''exercise'', JStr (ep_exercise e)),
      (''e1rm'', JNum (ep_e1rm e))]"

definition AnalyticsResponse_to_js :: "AnalyticsResponse \<Rightarrow> jsval" where
  "AnalyticsResponse_to_js a = JObj
     [(''sessions'', JNum (ar_sessions a)), (''fatigue_mean'', JNum (ar_fatigue_mean a)),
      (''stimulus_mean'', JNum (ar_stimulus_mean a)),
      (''readiness_mean'', JNum (ar_readiness_mean a)),
      (''weekly_volume'', JArr (map WeeklyVolumePoint_to_js (ar_weekly_volume a))),
      (''e1rm_trend'', JArr (map E1RMPoint_to_js (ar_e1rm_trend a)))]"

lemmas to_js_defs =
  UserProfile_to_js_def ProfileUpdate_to_js_def ExerciseLog_to_js_def SessionMetrics_to_js_def
  SessionInput_to_js_def DailyMetricsUpdate_to_js_def TrainingPrescription_to_js_def
  SessionSummary_to_js_def DashboardResponse_to_js_def WeeklyVolumePoint_to_js_def
  E1RMPoint_to_js_def AnalyticsResponse_to_js_def

section \<open>Run-time value read at a type\<close>

definition UserProfile_of_js :: "jsval \<Rightarrow> UserProfile option" where
  "UserProfile_of_js v = do {
     ps \<leftarrow> as_obj v;
     user_id \<leftarrow> num_at ps ''user_id'';
     age \<leftarrow> num_at ps ''age'';
     bodyweight_kg \<leftarrow> num_at ps ''bodyweight_kg'';
     training_age_years \<leftarrow> num_at ps ''training_age_years'';
     goal \<leftarrow> str_at ps ''goal'';
     mrv_baseline_sets \<leftarrow> num_at ps ''mrv_baseline_sets'';
     Some \<lparr>up_user_id = user_id, up_age = age, up_bodyweight_kg = bodyweight_kg,
           up_training_age_years = training_age_years, up_goal = goal,
           up_mrv_baseline_sets = mrv_baseline_sets\<rparr> }"

definition ProfileUpdate_of_js :: "jsval \<Rightarrow> ProfileUpdate option" where
  "ProfileUpdate_of_js v = do {
     ps \<leftarrow> as_obj v;
     age \<leftarrow> num_at ps ''age'';
     bodyweight_kg \<leftarrow> num_at ps ''bodyweight_kg'';
     training_age_years \<leftarrow> num_at ps ''training_age_years'';
     goal \<leftarrow> str_at ps ''goal'';
     mrv_baseline_sets \<leftarrow> num_at ps ''mrv_baseline_sets'';
     Some \<lparr>pu_age = age, pu_bodyweight_kg = bodyweight_kg,
           pu_training_age_years = training_age_years, pu_goal = goal,
           pu_mrv_baseline_sets = mrv_baseline_sets\<rparr> }"

definition ExerciseLog_of_js :: "jsval \<Rightarrow> ExerciseLog option" where
  "ExerciseLog_of_js v = do {
     ps \<leftarrow> as_obj v;
     exercise \<leftarrow> str_at ps ''exercise'';
     sets \<leftarrow> num_at ps ''sets'';
     reps \<leftarrow> num_at ps ''reps'';
     load_kg \<leftarrow> num_at ps ''load_kg'';
     rir \<leftarrow> num_at ps ''rir'';
     Some \<lparr>el_exercise = exercise, el_sets = sets, el_reps = reps, el_load_kg = load_kg,
           el_rir = rir\<rparr> }"

definition SessionMetrics_of_js :: "jsval \<Rightarrow> SessionMetrics option" where
  "SessionMetrics_of_js v = do {
     ps \<leftarrow> as_obj v;
     date \<leftarrow> str_at ps ''date'';
     sleep_hours \<leftarrow> num_at ps ''sleep_hours'';
     resting_hr \<leftarrow> num_at ps ''resting_hr'';
     hrv_rmssd \<leftarrow> num_at ps ''hrv_rmssd'';
     soreness \<leftarrow> num_at ps ''soreness'';
     motivation \<leftarrow> num_at ps ''motivation'';
     rpe_session \<leftarrow> num_at ps ''rpe_session'';
     duration_min \<leftarrow> num_at ps ''duration_min'';
     Some \<lparr>sm_date = date, sm_sleep_hours = sleep_hours, sm_resting_hr = resting_hr,
           sm_hrv_rmssd = hrv_rmssd, sm_soreness = soreness, sm_motivation = motivation,
           sm_rpe_session = rpe_session, sm_duration_min = duration_min\<rparr> }"

definition SessionInput_of_js :: "jsval \<Rightarrow> SessionInput option" where
  "SessionInput_of_js v = do {
     ps \<leftarrow> as_obj v;
     user_id \<leftarrow> num_at ps ''user_id'';
     m \<leftarrow> val_at ps ''metrics'';
     metrics \<leftarrow> SessionMetrics_of_js m;
     xs \<leftarrow> arr_at ps ''exercises'';
     exercises \<leftarrow> those (map ExerciseLog_of_js xs);
     Some \<lparr>si_user_id = user_id, si_metrics = metrics, si_exercises = exercises\<rparr> }"

definition DailyMetricsUpdate_of_js :: "jsval \<Rightarrow> DailyMetricsUpdate option" where
  "DailyMetricsUpdate_of_js v = do {
     ps \<leftarrow> as_obj v;
     user_id \<leftarrow> num_at ps ''user_id'';
     m \<leftarrow> val_at ps ''metrics'';
     metrics \<leftarrow> SessionMetrics_of_js m;
     Some \<lparr>dm_user_id = user_id, dm_metrics = metrics\<rparr> }"

definition TrainingPrescription_of_js :: "jsval \<Rightarrow> TrainingPrescription option" where
  "TrainingPrescription_of_js v = do {
     ps \<leftarrow> as_obj v;
     target_date \<leftarrow> str_at ps ''target_date'';
     exercise \<leftarrow> str_at ps ''exercise'';
     sets \<leftarrow> num_at ps ''sets'';
     reps \<leftarrow> num_at ps ''reps'';
     load_kg \<leftarrow> num_at ps ''load_kg'';
     deload \<leftarrow> bool_at ps ''deload'';
     rationale \<leftarrow> dict_at ps ''rationale'';
     Some \<lparr>tp_target_date = target_date, tp_exercise = exercise, tp_sets = sets,
           tp_reps = reps, tp_load_kg = load_kg, tp_deload = deload,
           tp_rationale = rationale\<rparr> }"

definition SessionSummary_of_js :: "jsval \<Rightarrow> SessionSummary option" where
  "SessionSummary_of_js v = do {
     ps \<leftarrow> as_obj v;
     date \<leftarrow> str_at ps ''date'';
     exercise_count \<leftarrow> num_at ps ''exercise_count'';
     tonnage \<leftarrow> num_at ps ''tonnage'';
     avg_rir \<leftarrow> num_at ps ''avg_rir'';
     Some \<lparr>ss_date = date, ss_exercise_count = exercise_count, ss_tonnage = tonnage,
           ss_avg_rir = avg_rir\<rparr> }"

definition DashboardResponse_of_js :: "jsval \<Rightarrow> DashboardResponse option" where
  "DashboardResponse_of_js v = do {
     ps \<leftarrow> as_obj v;
     w \<leftarrow> val_at ps ''next_workout'';
     next_workout \<leftarrow> TrainingPrescription_of_js w;
     m \<leftarrow> val_at ps ''latest_metrics'';
     latest_metrics \<leftarrow> SessionMetrics_of_js m;
     xs \<leftarrow> arr_at ps ''recent_sessions'';
     recent_sessions \<leftarrow> those (map SessionSummary_of_js xs);
     Some \<lparr>dr_next_workout = next_workout, dr_latest_metrics = latest_metrics,
           dr_recent_sessions = recent_sessions\<rparr> }"

definition WeeklyVolumePoint_of_js :: "jsval \<Rightarrow> WeeklyVolumePoint option" where
  "WeeklyVolumePoint_of_js v = do {
     ps \<leftarrow> as_obj v;
     week_start \<leftarrow> str_at ps ''week_start'';
     muscle \<leftarrow> str_at ps ''muscle'';
     volume \<leftarrow> num_at ps ''volume'';
     Some \<lparr>wv_week_start = week_start, wv_muscle = muscle, wv_volume = volume\<rparr> }"

definition E1RMPoint_of_js :: "jsval \<Rightarrow> E1RMPoint option" where
  "E1RMPoint_of_js v = do {
     ps \<leftarrow> as_obj v;
     date \<leftarrow> str_at ps ''date'';
     exercise \<leftarrow> str_at ps ''exercise'';
     e1rm \<leftarrow> num_at ps ''e1rm'';
     Some \<lparr>ep_date = date, ep_exercise = exercise, ep_e1rm = e1rm\<rparr> }"

definition AnalyticsResponse_of_js :: "jsval \<Rightarrow> AnalyticsResponse option" where
  "AnalyticsResponse_of_js v = do {
     ps \<leftarrow> as_obj v;
     sessions \<leftarrow> num_at ps ''sessions'';
     fatigue_mean \<leftarrow> num_at ps ''fatigue_mean'';
     stimulus_mean \<leftarrow> num_at ps ''stimulus_mean'';
     readiness_mean \<leftarrow> num_at ps ''readiness_mean'';
     ws \<leftarrow> arr_at ps ''weekly_volume'';
     weekly_volume \<leftarrow> those (map WeeklyVolumePoint_of_js ws);
     es \<leftarrow> arr_at ps ''e1rm_trend'';
     e1rm_trend \<leftarrow> those (map E1RMPoint_of_js es);
     Some \<lparr>ar_sessions = sessions, ar_fatigue_mean = fatigue_mean,
           ar_stimulus_mean = stimulus_mean, ar_readiness_mean = readiness_mean,
           ar_weekly_volume = weekly_volume, ar_e1rm_trend = e1rm_trend\<rparr> }"

lemmas of_js_defs =
  UserProfile_of_js_def ProfileUpdate_of_js_def ExerciseLog_of_js_def SessionMetrics_of_js_def
  SessionInput_of_js_def DailyMetricsUpdate_of_js_def TrainingPrescription_of_js_def
  SessionSummary_of_js_def DashboardResponse_of_js_def WeeklyVolumePoint_of_js_def
  E1RMPoint_of_js_def AnalyticsResponse_of_js_def

section \<open>Reading back what a literal builds\<close>

lemma ExerciseLog_roundtrip [simp]: "ExerciseLog_of_js (ExerciseLog_to_js e) = Some e"
  by (simp add: ExerciseLog_of_js_def ExerciseLog_to_js_def reader_defs)

lemma SessionMetrics_roundtrip [simp]: "SessionMetrics_of_js (SessionMetrics_to_js m) = Some m"
  by (simp add: SessionMetrics_of_js_def SessionMetrics_to_js_def reader_defs)

lemma UserProfile_roundtrip [simp]: "UserProfile_of_js (UserProfile_to_js p) = Some p"
  by (simp add: UserProfile_of_js_def UserProfile_to_js_def reader_defs)

lemma ProfileUpdate_roundtrip [simp]: "ProfileUpdate_of_js (ProfileUpdate_to_js p) = Some p"
  by (simp add: ProfileUpdate_of_js_def ProfileUpdate_to_js_def reader_defs)

lemma SessionSummary_roundtrip [simp]: "SessionSummary_of_js (SessionSummary_to_js s) = Some s"
  by (simp add: SessionSummary_of_js_def SessionSummary_to_js_def reader_defs)

lemma WeeklyVolumePoint_roundtrip [simp]:
  "WeeklyVolumePoint_of_js (WeeklyVolumePoint_to_js w) = Some w"
  by (simp add: WeeklyVolumePoint_of_js_def WeeklyVolumePoint_to_js_def reader_defs)

lemma E1RMPoint_roundtrip [simp]: "E1RMPoint_of_js (E1RMPoint_to_js e) = Some e"
  by (simp add: E1RMPoint_of_js_def E1RMPoint_to_js_def reader_defs)

lemma SessionInput_roundtrip [simp]: "SessionInput_of_js (SessionInput_to_js i) = Some i"
  by (simp add: SessionInput_of_js_def SessionInput_to_js_def reader_defs those_map_inverse)

lemma DailyMetricsUpdate_roundtrip [simp]:
  "DailyMetricsUpdate_of_js (DailyMetricsUpdate_to_js u) = Some u"
  by (simp add: DailyMetricsUpdate_of_js_def DailyMetricsUpdate_to_js_def reader_defs)

lemma AnalyticsResponse_roundtrip [simp]:
  "AnalyticsResponse_of_js (AnalyticsResponse_to_js a) = Some a"
  by (simp add: AnalyticsResponse_of_js_def AnalyticsResponse_to_js_def reader_defs
      those_map_inverse)

text \<open>
  A \<^verbatim>\<open>rationale\<close> is a \<^verbatim>\<open>Record<string, string | number>\<close>: the round trip of
  the two types that contain one holds for the records whose rationale has
  only strings and numbers as values.
\<close>

lemma TrainingPrescription_roundtrip:
  "list_all (\<lambda>q. is_str_or_num (snd q)) (tp_rationale t) \<Longrightarrow>
     TrainingPrescription_of_js (TrainingPrescription_to_js t) = Some t"
  by (simp add: TrainingPrescription_of_js_def TrainingPrescription_to_js_def reader_defs)

lemma DashboardResponse_roundtrip:
  "list_all (\<lambda>q. is_str_or_num (snd q)) (tp_rationale (dr_next_workout d)) \<Longrightarrow>
     DashboardResponse_of_js (DashboardResponse_to_js d) = Some d"
  by (simp add: DashboardResponse_of_js_def DashboardResponse_to_js_def as_obj_def val_at_def
      arr_at_def TrainingPrescription_roundtrip those_map_inverse)

section \<open>Readers and property assignment\<close>

lemma num_at_obj_set:
  "num_at (obj_set k v ps) k' =
     (if k' = k then (case v of JNum n \<Rightarrow> Some n | _ \<Rightarrow> None) else num_at ps k')"
  by (simp add: num_at_def)

lemma str_at_obj_set:
  "str_at (obj_set k v ps) k' =
     (if k' = k then (case v of JStr s \<Rightarrow> Some s | _ \<Rightarrow> None) else str_at ps k')"
  by (simp add: str_at_def)

lemma num_at_SomeD: "num_at ps k = Some n \<Longrightarrow> obj_get ps k = Some (JNum n)"
  by (auto simp: num_at_def split: option.splits jsval.splits)

lemma str_at_SomeD: "str_at ps k = Some s \<Longrightarrow> obj_get ps k = Some (JStr s)"
  by (auto simp: str_at_def split: option.splits jsval.splits)

lemma bool_at_SomeD: "bool_at ps k = Some b \<Longrightarrow> obj_get ps k = Some (JBool b)"
  by (auto simp: bool_at_def split: option.splits jsval.splits)

lemma arr_at_SomeD: "arr_at ps k = Some xs \<Longrightarrow> obj_get ps k = Some (JArr xs)"
  by (auto simp: arr_at_def split: option.splits jsval.splits)

lemma dict_at_SomeD: "dict_at ps k = Some qs \<Longrightarrow> obj_get ps k = Some (JObj qs)"
  by (auto simp: dict_at_def split: option.splits jsval.splits if_splits)

lemma as_obj_Some_iff [simp]: "as_obj v = Some ps \<longleftrightarrow> v = JObj ps"
  by (cases v) (auto simp: as_obj_def)

lemma SessionMetrics_of_js_iff:
  "SessionMetrics_of_js (JObj ps) = Some m \<longleftrightarrow>
     str_at ps ''date'' = Some (sm_date m) \<and>
     num_at ps ''sleep_hours'' = Some (sm_sleep_hours m) \<and>
     num_at ps ''resting_hr'' = Some (sm_resting_hr m) \<and>
     num_at ps ''hrv_rmssd'' = Some (sm_hrv_rmssd m) \<and>
     num_at ps ''soreness'' = Some (sm_soreness m) \<and>
     num_at ps ''motivation'' = Some (sm_motivation m) \<and>
     num_at ps ''rpe_session'' = Some (sm_rpe_session m) \<and>
     num_at ps ''duration_min'' = Some (sm_duration_min m)"
  by (cases m) (auto simp: SessionMetrics_of_js_def bind_eq_Some_conv)

lemma ExerciseLog_of_js_iff:
  "ExerciseLog_of_js (JObj ps) = Some e \<longleftrightarrow>
     str_at ps ''exercise'' = Some (el_exercise e) \<and>
     num_at ps ''sets'' = Some (el_sets e) \<and>
     num_at ps ''reps'' = Some (el_reps e) \<and>
     num_at ps ''load_kg'' = Some (el_load_kg e) \<and>
     num_at ps ''rir'' = Some (el_rir e)"
  by (cases e) (auto simp: ExerciseLog_of_js_def bind_eq_Some_conv)

lemma ProfileUpdate_of_js_iff:
  "ProfileUpdate_of_js (JObj ps) = Some p \<longleftrightarrow>
     num_at ps ''age'' = Some (pu_age p) \<and>
     num_at ps ''bodyweight_kg'' = Some (pu_bodyweight_kg p) \<and>
     num_at ps ''training_age_years'' = Some (pu_training_age_years p) \<and>
     str_at ps ''goal'' = Some (pu_goal p) \<and>
     num_at ps ''mrv_baseline_sets'' = Some (pu_mrv_baseline_sets p)"
  by (cases p) (auto simp: ProfileUpdate_of_js_def bind_eq_Some_conv)

lemma UserProfile_of_js_iff:
  "UserProfile_of_js (JObj ps) = Some u \<longleftrightarrow>
     num_at ps ''user_id'' = Some (up_user_id u) \<and>
     num_at ps ''age'' = Some (up_age u) \<and>
     num_at ps ''bodyweight_kg'' = Some (up_bodyweight_kg u) \<and>
     num_at ps ''training_age_years'' = Some (up_training_age_years u) \<and>
     str_at ps ''goal'' = Some (up_goal u) \<and>
     num_at ps ''mrv_baseline_sets'' = Some (up_mrv_baseline_sets u)"
  by (cases u) (auto simp: UserProfile_of_js_def bind_eq_Some_conv)

lemma SessionSummary_of_js_iff:
  "SessionSummary_of_js (JObj ps) = Some x \<longleftrightarrow>
     str_at ps ''date'' = Some (ss_date x) \<and>
     num_at ps ''exercise_count'' = Some (ss_exercise_count x) \<and>
     num_at ps ''tonnage'' = Some (ss_tonnage x) \<and>
     num_at ps ''avg_rir'' = Some (ss_avg_rir x)"
  by (cases x) (auto simp: SessionSummary_of_js_def bind_eq_Some_conv)

lemma WeeklyVolumePoint_of_js_iff:
  "WeeklyVolumePoint_of_js (JObj ps) = Some w \<longleftrightarrow>
     str_at ps ''week_start'' = Some (wv_week_start w) \<and>
     str_at ps ''muscle'' = Some (wv_muscle w) \<and>
     num_at ps ''volume'' = Some (wv_volume w)"
  by (cases w) (auto simp: WeeklyVolumePoint_of_js_def bind_eq_Some_conv)

lemma TrainingPrescription_of_js_SomeD:
  "TrainingPrescription_of_js (JObj ps) = Some t \<Longrightarrow>
     str_at ps ''target_date'' = Some (tp_target_date t) \<and>
     str_at ps ''exercise'' = Some (tp_exercise t) \<and>
     num_at ps ''sets'' = Some (tp_sets t) \<and>
     num_at ps ''reps'' = Some (tp_reps t) \<and>
     num_at ps ''load_kg'' = Some (tp_load_kg t)"
  by (cases t) (auto simp: TrainingPrescription_of_js_def bind_eq_Some_conv)

lemma DashboardResponse_of_js_SomeD:
  "DashboardResponse_of_js v = Some d \<Longrightarrow>
     \<exists>ps w m xs. v = JObj ps \<and>
       obj_get ps ''next_workout'' = Some (JObj w) \<and>
       TrainingPrescription_of_js (JObj w) = Some (dr_next_workout d) \<and>
       obj_get ps ''latest_metrics'' = Some (JObj m) \<and>
       SessionMetrics_of_js (JObj m) = Some (dr_latest_metrics d) \<and>
       obj_get ps ''recent_sessions'' = Some (JArr xs) \<and>
       those (map SessionSummary_of_js xs) = Some (dr_recent_sessions d)"
  by (cases d)
    (auto simp: DashboardResponse_of_js_def TrainingPrescription_of_js_def
      SessionMetrics_of_js_def bind_eq_Some_conv val_at_def dest!: arr_at_SomeD)

lemma AnalyticsResponse_of_js_SomeD:
  "AnalyticsResponse_of_js v = Some a \<Longrightarrow>
     \<exists>ps ws es. v = JObj ps \<and>
       obj_get ps ''weekly_volume'' = Some (JArr ws) \<and>
       those (map WeeklyVolumePoint_of_js ws) = Some (ar_weekly_volume a) \<and>
       obj_get ps ''e1rm_trend'' = Some (JArr es) \<and>
       those (map E1RMPoint_of_js es) = Some (ar_e1rm_trend a)"
  by (cases a)
    (auto simp: AnalyticsResponse_of_js_def bind_eq_Some_conv dest!: arr_at_SomeD)

lemma of_js_is_object:
  "UserProfile_of_js v = Some u \<Longrightarrow> \<exists>ps. v = JObj ps"
  "SessionSummary_of_js v = Some x \<Longrightarrow> \<exists>ps. v = JObj ps"
  "WeeklyVolumePoint_of_js v = Some w \<Longrightarrow> \<exists>ps. v = JObj ps"
  "E1RMPoint_of_js v = Some e \<Longrightarrow> \<exists>ps. v = JObj ps"
  by (auto simp: UserProfile_of_js_def SessionSummary_of_js_def WeeklyVolumePoint_of_js_def
      E1RMPoint_of_js_def bind_eq_Some_conv)

end
