(* ===== verification/Uri.thy ===== *)
theory Uri
  imports Prelude
begin

text \<open>
  \<^verbatim>\<open>encodeURIComponent\<close>, which \<^verbatim>\<open>api.getAnalytics\<close> applies to the exercise name
  before it goes into the query string. On a byte string the function keeps
  the unreserved characters (letters, digits and \<^verbatim>\<open>- _ . ! ~ * ' ( )\<close>) and
  writes every other byte as \<^verbatim>\<open>%XX\<close> with upper-case hexadecimal digits.

  \<open>percent_decode\<close> is the inverse a server applies to a query component. The
  lemmas show that decoding gives the name back, and that the encoded name
  cannot contain a character that would end or split the query parameter.
\<close>

section \<open>Encoding\<close>

definition unreserved :: "char \<Rightarrow> bool" where
  "unreserved c =
     (c \<in> set ''ABCDEFGHIJKLMNOPQRSTUVWXYZabcdefghijklmnopqrstuvwxyz0123456789-_.!~*'()'')"

definition hex_char :: "nat \<Rightarrow> char" where
  "hex_char n = ''0123456789ABCDEF'' ! n"

definition percent_encode :: "char \<Rightarrow> string" where
  "percent_encode c =
     (if unreserved c then [c]
      else [CHR ''%'', hex_char (of_char c div 16), hex_char (of_char c mod 16)])"

definition encodeURIComponent :: "string \<Rightarrow> string" where
  "encodeURIComponent s = concat (map percent_encode s)"

section \<open>Decoding\<close>

definition hex_val :: "char \<Rightarrow> nat option" where
  "hex_val c =
     (if c \<in> set ''0123456789'' then Some (of_char c - 48)
      else if c \<in> set ''ABCDEF'' then Some (of_char c - 55)
      else if c \<in> set ''abcdef'' then Some (of_char c - 87)
      else None)"

fun percent_decode :: "string \<Rightarrow> string option" where
  "percent_decode [] = Some []"
| "percent_decode (c # cs) =
     (if c = CHR ''%'' then
        (case cs of
           a # b # rest \<Rightarrow>
             (case (hex_val a, hex_val b) of
                (Some x, Some y) \<Rightarrow> map_option ((#) (char_of (16 * x + y))) (percent_decode rest)
              | _ \<Rightarrow> None)
         | _ \<Rightarrow> None)
      else map_option ((#) c) (percent_decode cs))"

lemmas uri_defs [js_defs] =
  unreserved_def hex_char_def percent_encode_def encodeURIComponent_def hex_val_def

section \<open>Facts\<close>

lemma encodeURIComponent_simps [simp]:
  "encodeURIComponent [] = []"
  "encodeURIComponent (c # cs) = percent_encode c @ encodeURIComponent cs"
  by (simp_all add: encodeURIComponent_def)

lemma encodeURIComponent_append [simp]:
  "encodeURIComponent (s @ t) = encodeURIComponent s @ encodeURIComponent t"
  by (simp add: encodeURIComponent_def)

lemma nibble_cases:
  "n < 16 \<Longrightarrow> n \<in> {0, 1, 2, 3, 4, 5, 6, 7, 8, 9, 10, 11, 12, 13, 14, 15 :: nat}"
  by simp arith

lemma hex_val_hex_char [simp]: "n < 16 \<Longrightarrow> hex_val (hex_char n) = Some n"
  by (drule nibble_cases) (elim insertE emptyE; simp add: hex_val_def hex_char_def)

lemma hex_char_safe: "n < 16 \<Longrightarrow> hex_char n \<in> set ''0123456789ABCDEF''"
  by (drule nibble_cases) (elim insertE emptyE; simp add: hex_char_def)

lemma char_nibbles [simp]: "char_of (16 * (of_char c div 16) + of_char c mod 16 :: nat) = c"
  by simp

lemma high_nibble_less [simp]: "(of_char c :: nat) div 16 < 16"
proof -
  have "(of_char c :: nat) < 256" by simp
  then show ?thesis by arith
qed

lemma percent_reserved [simp]: "\<not> unreserved CHR ''%''"
  by (simp add: unreserved_def)

lemma unreserved_not_percent [simp]: "unreserved c \<Longrightarrow> c \<noteq> CHR ''%''"
  by auto

lemma percent_decode_encode_char:
  "percent_decode (percent_encode c @ rest) = map_option ((#) c) (percent_decode rest)"
  by (simp add: percent_encode_def)

lemma percent_decode_encode [simp]: "percent_decode (encodeURIComponent s) = Some s"
  by (induction s) (simp_all add: percent_decode_encode_char)

lemma hex_digits_unreserved: "list_all unreserved ''0123456789ABCDEF''"
  by (simp add: unreserved_def)

lemmas hex_digit_unreserved = hex_digits_unreserved [unfolded list_all_iff, rule_format]

lemma percent_encode_chars:
  "x \<in> set (percent_encode c) \<Longrightarrow> unreserved x \<or> x = CHR ''%''"
proof (cases "unreserved c")
  case True
  assume "x \<in> set (percent_encode c)"
  with True show ?thesis by (simp add: percent_encode_def)
next
  case False
  assume "x \<in> set (percent_encode c)"
  with False have "x = CHR ''%'' \<or> x = hex_char (of_char c div 16) \<or> x = hex_char (of_char c mod 16)"
    by (auto simp: percent_encode_def)
  moreover have "unreserved (hex_char (of_char c div 16))" "unreserved (hex_char (of_char c mod 16))"
    by (rule hex_digit_unreserved, rule hex_char_safe, simp)+
  ultimately show ?thesis by auto
qed

lemma encodeURIComponent_chars:
  "x \<in> set (encodeURIComponent s) \<Longrightarrow> unreserved x \<or> x = CHR ''%''"
  by (auto simp: encodeURIComponent_def dest: percent_encode_chars)

lemma delimiters_reserved:
  "list_all (\<lambda>c. \<not> unreserved c \<and> c \<noteq> CHR ''%'') ''&=#?/+ ''"
  by (simp add: unreserved_def)

lemma encodeURIComponent_no_delimiter:
  "set (encodeURIComponent s) \<inter> set ''&=#?/+ '' = {}"
  using delimiters_reserved [unfolded list_all_iff] encodeURIComponent_chars [of _ s]
  by blast

lemma length_percent_encode: "1 \<le> length (percent_encode c) \<and> length (percent_encode c) \<le> 3"
  by (simp add: percent_encode_def)

lemma length_encodeURIComponent:
  "length s \<le> length (encodeURIComponent s)" "length (encodeURIComponent s) \<le> 3 * length s"
proof (induction s)
  case Nil
  show "length [] \<le> length (encodeURIComponent [])"
    "length (encodeURIComponent []) \<le> 3 * length []"
    by simp_all
next
  case (Cons c s)
  show "length (c # s) \<le> length (encodeURIComponent (c # s))"
    "length (encodeURIComponent (c # s)) \<le> 3 * length (c # s)"
    using Cons length_percent_encode [of c] by simp_all
qed

lemma length_encodeURIComponent_unreserved:
  "list_all unreserved s \<Longrightarrow> encodeURIComponent s = s"
  by (induction s) (simp_all add: percent_encode_def)

end
