(* ===== verification/ApiClient.thy ===== *)
theory ApiClient
  imports Schema Uri
begin

text \<open>
  The API client of \<^verbatim>\<open>src/web/src/api/client.ts\<close>: the class \<^verbatim>\<open>ApiError\<close>, the
  function \<^verbatim>\<open>request\<close> and the seven operations of the object \<^verbatim>\<open>api\<close>, one
  definition each; \<open>api_call\<close> and \<open>api\<close> are the object as a whole.

  The network is outside the program. A call of \<^verbatim>\<open>fetch\<close> either rejects
  (\<open>NetworkFailure\<close>) or resolves to a response, of which the client reads
  \<^verbatim>\<open>ok\<close>, \<^verbatim>\<open>status\<close>, \<^verbatim>\<open>statusText\<close> and \<^verbatim>\<open>json()\<close>; the response record holds
  exactly these (\<open>rs_json = None\<close>: the body is not JSON and \<^verbatim>\<open>json()\<close> rejects).
  A request or response body is represented by the JSON document it carries.

  An asynchronous call is a \<^emph>\<open>promise\<close>: the request that goes out, paired
  with the function that turns the eventual result of \<^verbatim>\<open>fetch\<close> into the value
  or the exception the caller's \<^verbatim>\<open>await\<close> sees. \<open>request\<close> is written in two
  parts accordingly: \<open>build_request\<close> (up to \<^verbatim>\<open>await fetch\<close>) and \<open>settle\<close>
  (after it). \<open>await_with net p\<close> runs a promise against a network \<open>net\<close>.
\<close>

section \<open>Errors, requests, responses\<close>

datatype thrown = ApiError nat string | Thrown js_error

record RequestInit =
  ri_method :: "string option"
  ri_headers :: "string obj option"
  ri_body :: "jsval option"

record http_request =
  rq_url :: string
  rq_method :: string
  rq_headers :: "string obj"
  rq_body :: "jsval option"

record http_response =
  rs_status :: nat
  rs_statusText :: string
  rs_json :: "jsval option"

datatype fetch_result = NetworkFailure | Responded http_response

type_synonym 'a promise = "http_request \<times> (fetch_result \<Rightarrow> 'a)"

type_synonym network = "http_request \<Rightarrow> fetch_result"

definition await_with :: "network \<Rightarrow> 'a promise \<Rightarrow> 'a" where
  "await_with net p = snd p (net (fst p))"

section \<open>request\<close>

definition rs_ok :: "http_response \<Rightarrow> bool" where
  "rs_ok r = (200 \<le> rs_status r \<and> rs_status r \<le> 299)"

definition default_headers :: "string obj" where
  "default_headers = [(''Content-Type'', ''application/json'')]"

definition fetch_init :: "RequestInit option \<Rightarrow> RequestInit" where
  "fetch_init init =
     (let merged = obj_spread default_headers
                     (case Option.bind init ri_headers of None \<Rightarrow> [] | Some h \<Rightarrow> h)
      in case init of
           None \<Rightarrow> \<lparr>ri_method = None, ri_headers = Some merged, ri_body = None\<rparr>
         | Some i \<Rightarrow>
             \<lparr>ri_method = ri_method i,
              ri_headers = (case ri_headers i of None \<Rightarrow> Some merged | Some h \<Rightarrow> Some h),
              ri_body = ri_body i\<rparr>)"

definition build_request :: "string \<Rightarrow> RequestInit option \<Rightarrow> http_request" where
  "build_request path init =
     (let i = fetch_init init
      in \<lparr>rq_url = ''/api'' @ path,
          rq_method = (case ri_method i of None \<Rightarrow> ''GET'' | Some m \<Rightarrow> m),
          rq_headers = (case ri_headers i of None \<Rightarrow> [] | Some h \<Rightarrow> h),
          rq_body = ri_body i\<rparr>)"

definition error_detail :: "http_response \<Rightarrow> jsval" where
  "error_detail r =
     (case rs_json r of
        None \<Rightarrow> JStr (rs_statusText r)
      | Some body \<Rightarrow>
          (case js_get body ''detail'' of
             Inl e \<Rightarrow> JStr (rs_statusText r)
           | Inr d \<Rightarrow> coalesce d (JStr (rs_statusText r))))"

definition settle :: "fetch_result \<Rightarrow> thrown + jsval" where
  "settle fr =
     (case fr of
        NetworkFailure \<Rightarrow> Inl (Thrown TypeError)
      | Responded r \<Rightarrow>
          if \<not> rs_ok r then Inl (ApiError (rs_status r) (js_to_string (error_detail r)))
          else (case rs_json r of None \<Rightarrow> Inl (Thrown SyntaxError) | Some v \<Rightarrow> Inr v))"

definition request :: "string \<Rightarrow> RequestInit option \<Rightarrow> (thrown + jsval) promise" where
  "request path init = (build_request path init, settle)"

section \<open>The operations of api\<close>

definition json_init :: "string \<Rightarrow> jsval \<Rightarrow> RequestInit option" where
  "json_init m payload = Some \<lparr>ri_method = Some m, ri_headers = None, ri_body = json_value payload\<rparr>"

definition getProfile :: "(thrown + jsval) promise" where
  "getProfile = request ''/profile'' None"

definition updateProfile :: "jsval \<Rightarrow> (thrown + jsval) promise" where
  "updateProfile payload = request ''/profile'' (json_init ''PUT'' payload)"

definition logSession :: "jsval \<Rightarrow> (thrown + jsval) promise" where
  "logSession payload = request ''/log-session'' (json_init ''POST'' payload)"

definition updateMetrics :: "jsval \<Rightarrow> (thrown + jsval) promise" where
  "updateMetrics payload = request ''/update-metrics'' (json_init ''POST'' payload)"

definition getNextWorkout :: "jsval \<Rightarrow> (thrown + jsval) promise" where
  "getNextWorkout userId = request (''/next-workout?user_id='' @ js_to_string userId) None"

definition getAnalytics :: "jsval \<Rightarrow> string \<Rightarrow> (thrown + jsval) promise" where
  "getAnalytics userId exercise =
     request (''/analytics?user_id='' @ js_to_string userId @ ''&exercise='' @
              encodeURIComponent exercise) None"

definition getDashboard :: "jsval \<Rightarrow> (thrown + jsval) promise" where
  "getDashboard userId = request (''/dashboard?user_id='' @ js_to_string userId) None"

text \<open>
  The object \<^verbatim>\<open>api\<close> itself: its seven members as a datatype of calls, and
  \<open>api\<close>, which gives the promise of a call.
\<close>

datatype api_call =
    Call_getProfile
  | Call_updateProfile jsval
  | Call_logSession jsval
  | Call_updateMetrics jsval
  | Call_getNextWorkout jsval
  | Call_getAnalytics jsval string
  | Call_getDashboard jsval

fun api :: "api_call \<Rightarrow> (thrown + jsval) promise" where
  "api Call_getProfile = getProfile"
| "api (Call_updateProfile payload) = updateProfile payload"
| "api (Call_logSession payload) = logSession payload"
| "api (Call_updateMetrics payload) = updateMetrics payload"
| "api (Call_getNextWorkout userId) = getNextWorkout userId"
| "api (Call_getAnalytics userId exercise) = getAnalytics userId exercise"
| "api (Call_getDashboard userId) = getDashboard userId"

fun is_write :: "api_call \<Rightarrow> bool" where
  "is_write (Call_updateProfile payload) = True"
| "is_write (Call_logSession payload) = True"
| "is_write (Call_updateMetrics payload) = True"
| "is_write c = False"

lemmas api_defs =
  getProfile_def updateProfile_def logSession_def updateMetrics_def getNextWorkout_def
  getAnalytics_def getDashboard_def

lemmas client_defs [js_defs] =
  api_defs request_def build_request_def fetch_init_def default_headers_def json_init_def
  settle_def error_detail_def rs_ok_def await_with_def

section \<open>What goes out\<close>

lemma fetch_init_no_headers:
  "Option.bind init ri_headers = None \<Longrightarrow> ri_headers (fetch_init init) = Some default_headers"
  by (cases init) (auto simp: fetch_init_def)

lemma fetch_init_headers_override:
  "ri_headers i = Some h \<Longrightarrow> ri_headers (fetch_init (Some i)) = Some h"
  by (simp add: fetch_init_def)

lemma build_request_url [simp]: "rq_url (build_request path init) = ''/api'' @ path"
  by (simp add: build_request_def Let_def)

lemma build_request_json [simp]:
  "build_request path (json_init m payload) =
     \<lparr>rq_url = ''/api'' @ path, rq_method = m, rq_headers = default_headers,
      rq_body = json_value payload\<rparr>"
  by (simp add: build_request_def fetch_init_def json_init_def)

lemma build_request_get [simp]:
  "build_request path None =
     \<lparr>rq_url = ''/api'' @ path, rq_method = ''GET'', rq_headers = default_headers,
      rq_body = None\<rparr>"
  by (simp add: build_request_def fetch_init_def)

section \<open>What comes back\<close>

lemma settle_network_failure [simp]: "settle NetworkFailure = Inl (Thrown TypeError)"
  by (simp add: settle_def)

lemma settle_ok [simp]:
  "rs_ok r \<Longrightarrow> settle (Responded r) =
     (case rs_json r of None \<Rightarrow> Inl (Thrown SyntaxError) | Some v \<Rightarrow> Inr v)"
  by (simp add: settle_def)

lemma settle_not_ok [simp]:
  "\<not> rs_ok r \<Longrightarrow>
     settle (Responded r) = Inl (ApiError (rs_status r) (js_to_string (error_detail r)))"
  by (simp add: settle_def)

lemma error_detail_string:
  "rs_json r = Some (JObj ps) \<Longrightarrow> obj_get ps ''detail'' = Some (JStr d) \<Longrightarrow>
     error_detail r = JStr d"
  by (simp add: error_detail_def)

lemma error_detail_no_json: "rs_json r = None \<Longrightarrow> error_detail r = JStr (rs_statusText r)"
  by (simp add: error_detail_def)

lemma error_detail_fallback:
  "rs_json r = Some body \<Longrightarrow> js_get body ''detail'' \<in> {Inl e, Inr JUndefined, Inr JNull} \<Longrightarrow>
     error_detail r = JStr (rs_statusText r)"
  by (auto simp: error_detail_def)

lemma error_detail_is_string_or_json:
  "error_detail r = JStr (rs_statusText r) \<or>
   (\<exists>body d. rs_json r = Some body \<and> js_get body ''detail'' = Inr d \<and> \<not> nullish d \<and>
      error_detail r = d)"
  by (auto simp: error_detail_def coalesce_def split: option.splits sum.splits)

section \<open>The operations, uniformly\<close>

lemma api_is_request: "\<exists>path init. api c = request path init"
  by (cases c) (auto simp: api_defs)

lemma api_settles [simp]: "snd (api c) = settle"
  using api_is_request [of c] by (auto simp: request_def)

lemma api_url_prefix: "take 5 (rq_url (fst (api c))) = ''/api/''"
  by (cases c) (simp_all add: api_defs request_def)

lemma api_headers [simp]: "rq_headers (fst (api c)) = default_headers"
  by (cases c) (simp_all add: api_defs request_def json_init_def build_request_def fetch_init_def)

lemma api_reads_have_no_body:
  "\<not> is_write c \<Longrightarrow> rq_body (fst (api c)) = None \<and> rq_method (fst (api c)) = ''GET''"
  by (cases c) (simp_all add: api_defs request_def build_request_def fetch_init_def)

lemma api_writes_carry_payload:
  "is_write c \<Longrightarrow>
     \<exists>p. rq_body (fst (api c)) = json_value p \<and> rq_method (fst (api c)) \<in> {''PUT'', ''POST''}"
  by (cases c)
    (auto simp: api_defs request_def build_request_def fetch_init_def json_init_def)

section \<open>Properties\<close>

text \<open>
  C1. Error channel, body with a message: when the server answers a request
  with a status outside 200--299 and a JSON object whose \<^verbatim>\<open>detail\<close> field is a
  string, the caller's \<^verbatim>\<open>await\<close> throws an \<^verbatim>\<open>ApiError\<close> that carries the
  response's status code and exactly that string as its message, whatever
  the path, method and payload of the request were.
\<close>

theorem api_error_carries_detail:
  assumes "net (build_request path init) = Responded r"
    and "\<not> rs_ok r"
    and "rs_json r = Some (JObj ps)"
    and "obj_get ps ''detail'' = Some (JStr d)"
  shows "await_with net (request path init) = Inl (ApiError (rs_status r) d)"
  using assms by (simp add: await_with_def request_def error_detail_string)

theorem api_error_carries_detail_witness:
  "(\<lambda>_. Responded \<lparr>rs_status = 404, rs_statusText = ''Not Found'',
        rs_json = Some (JObj [(''detail'', JStr ''no data'')])\<rparr>)
     (build_request ''/analytics?user_id=1&exercise=Squat'' None)
     = Responded \<lparr>rs_status = 404, rs_statusText = ''Not Found'',
        rs_json = Some (JObj [(''detail'', JStr ''no data'')])\<rparr>
   \<and> \<not> rs_ok \<lparr>rs_status = 404, rs_statusText = ''Not Found'',
        rs_json = Some (JObj [(''detail'', JStr ''no data'')])\<rparr>
   \<and> obj_get [(''detail'', JStr ''no data'')] ''detail'' = Some (JStr ''no data'')
   \<and> await_with (\<lambda>_. Responded \<lparr>rs_status = 404, rs_statusText = ''Not Found'',
        rs_json = Some (JObj [(''detail'', JStr ''no data'')])\<rparr>)
       (request ''/analytics?user_id=1&exercise=Squat'' None) = Inl (ApiError 404 ''no data'')"
  using api_error_carries_detail
    [of "\<lambda>_. Responded \<lparr>rs_status = 404, rs_statusText = ''Not Found'',
        rs_json = Some (JObj [(''detail'', JStr ''no data'')])\<rparr>"
      "''/analytics?user_id=1&exercise=Squat''" None
      "\<lparr>rs_status = 404, rs_statusText = ''Not Found'',
        rs_json = Some (JObj [(''detail'', JStr ''no data'')])\<rparr>"
      "[(''detail'', JStr ''no data'')]" "''no data''"]
  by (simp add: rs_ok_def)

text \<open>
  C7. Error channel, no usable message: when the status is outside 200--299
  and the body is not JSON, or is JSON \<^verbatim>\<open>null\<close>, or has no \<^verbatim>\<open>detail\<close> field, or
  has a \<^verbatim>\<open>detail\<close> that is \<^verbatim>\<open>null\<close>, the \<^verbatim>\<open>ApiError\<close> carries the status code and
  the transport's status text.
\<close>

theorem api_error_falls_back_to_status_text:
  assumes "net (build_request path init) = Responded r"
    and "\<not> rs_ok r"
    and "rs_json r = None \<or> rs_json r = Some JNull
         \<or> (\<exists>ps. rs_json r = Some (JObj ps) \<and> obj_get ps ''detail'' \<in> {None, Some JNull})"
  shows "await_with net (request path init) = Inl (ApiError (rs_status r) (rs_statusText r))"
  using assms by (auto simp: await_with_def request_def error_detail_def)

theorem api_error_falls_back_to_status_text_witness:
  "(\<lambda>_. Responded \<lparr>rs_status = 502, rs_statusText = ''Bad Gateway'', rs_json = None\<rparr>)
     (build_request ''/profile'' None)
     = Responded \<lparr>rs_status = 502, rs_statusText = ''Bad Gateway'', rs_json = None\<rparr>
   \<and> \<not> rs_ok \<lparr>rs_status = 502, rs_statusText = ''Bad Gateway'', rs_json = None\<rparr>
   \<and> await_with (\<lambda>_. Responded \<lparr>rs_status = 502, rs_statusText = ''Bad Gateway'',
         rs_json = None\<rparr>) (request ''/profile'' None) = Inl (ApiError 502 ''Bad Gateway'')"
  using api_error_falls_back_to_status_text
    [of "\<lambda>_. Responded \<lparr>rs_status = 502, rs_statusText = ''Bad Gateway'', rs_json = None\<rparr>"
      "''/profile''" None
      "\<lparr>rs_status = 502, rs_statusText = ''Bad Gateway'', rs_json = None\<rparr>"]
  by (simp add: rs_ok_def)

text \<open>
  C2. Success path: when the status is in 200--299 and the body is JSON, the
  caller receives the decoded document itself: no field is renamed, coerced,
  checked or dropped, whether or not the document has the shape the
  operation's TypeScript type announces.
\<close>

theorem success_returns_body_unmodified:
  assumes "net (build_request path init) = Responded r"
    and "rs_ok r"
    and "rs_json r = Some v"
  shows "await_with net (request path init) = Inr v"
  using assms by (simp add: await_with_def request_def)

theorem success_returns_body_unmodified_witness:
  "(\<lambda>_. Responded \<lparr>rs_status = 200, rs_statusText = ''OK'',
        rs_json = Some (JObj [(''session_id'', JNat 42)])\<rparr>)
     (build_request ''/log-session'' (json_init ''POST'' JNull))
     = Responded \<lparr>rs_status = 200, rs_statusText = ''OK'',
        rs_json = Some (JObj [(''session_id'', JNat 42)])\<rparr>
   \<and> rs_ok \<lparr>rs_status = 200, rs_statusText = ''OK'',
        rs_json = Some (JObj [(''session_id'', JNat 42)])\<rparr>
   \<and> await_with (\<lambda>_. Responded \<lparr>rs_status = 200, rs_statusText = ''OK'',
        rs_json = Some (JObj [(''session_id'', JNat 42)])\<rparr>)
       (request ''/log-session'' (json_init ''POST'' JNull)) = Inr (JObj [(''session_id'', JNat 42)])"
  using success_returns_body_unmodified
    [of "\<lambda>_. Responded \<lparr>rs_status = 200, rs_statusText = ''OK'',
        rs_json = Some (JObj [(''session_id'', JNat 42)])\<rparr>"
      "''/log-session''" "json_init ''POST'' JNull"
      "\<lparr>rs_status = 200, rs_statusText = ''OK'',
        rs_json = Some (JObj [(''session_id'', JNat 42)])\<rparr>"
      "JObj [(''session_id'', JNat 42)]"]
  by (simp add: rs_ok_def)

text \<open>
  C15. Single error channel: a response with a status outside 200--299 always
  surfaces as an \<^verbatim>\<open>ApiError\<close> with that status, never as another exception,
  even when reading the body fails (the \<^verbatim>\<open>try\<close>/\<^verbatim>\<open>catch\<close> around \<^verbatim>\<open>json()\<close> and
  \<^verbatim>\<open>body.detail\<close> absorbs both the parse error and the \<^verbatim>\<open>TypeError\<close> of a
  \<^verbatim>\<open>null\<close> body); and the only other exceptions a call can throw are the
  \<^verbatim>\<open>TypeError\<close> of a failed \<^verbatim>\<open>fetch\<close> and the \<^verbatim>\<open>SyntaxError\<close> of a successful
  response whose body is not JSON.
\<close>

theorem server_failure_is_always_ApiError:
  "(case net (build_request path init) of
      NetworkFailure \<Rightarrow> await_with net (request path init) = Inl (Thrown TypeError)
    | Responded r \<Rightarrow>
        (if rs_ok r
         then await_with net (request path init) \<in> {Inl (Thrown SyntaxError)} \<union> range Inr
         else \<exists>m. await_with net (request path init) = Inl (ApiError (rs_status r) m)))"
  by (auto simp: await_with_def request_def settle_def split: fetch_result.splits option.splits)

text \<open>
  C33. Headers: a request made without caller-supplied headers carries exactly
  the header \<^verbatim>\<open>Content-Type: application/json\<close>; but when the caller supplies
  headers, the object spread \<^verbatim>\<open>...init\<close> that follows the merged \<^verbatim>\<open>headers\<close>
  entry replaces it, so the request carries the caller's headers alone and
  the JSON content type is lost unless the caller repeats it.
\<close>

theorem caller_headers_replace_default:
  "rq_headers (build_request path init) =
     (case Option.bind init ri_headers of
        None \<Rightarrow> [(''Content-Type'', ''application/json'')]
      | Some h \<Rightarrow> h)"
  by (cases init) (auto simp: build_request_def fetch_init_def default_headers_def
      split: option.splits)

text \<open>
  C16. The interface table: each of the seven operations issues one request
  with the method, the path under \<^verbatim>\<open>/api\<close> and the body of the interface
  (reads are \<^verbatim>\<open>GET\<close> without a body and with the identifiers in the query;
  writes are \<^verbatim>\<open>PUT\<close>/\<^verbatim>\<open>POST\<close> with the JSON document of the payload as body), and
  every one of them carries the JSON content type.
\<close>

theorem api_requests_match_interface:
  "fst getProfile = \<lparr>rq_url = ''/api/profile'', rq_method = ''GET'',
      rq_headers = [(''Content-Type'', ''application/json'')], rq_body = None\<rparr>
   \<and> fst (updateProfile p) = \<lparr>rq_url = ''/api/profile'', rq_method = ''PUT'',
      rq_headers = [(''Content-Type'', ''application/json'')], rq_body = json_value p\<rparr>
   \<and> fst (logSession p) = \<lparr>rq_url = ''/api/log-session'', rq_method = ''POST'',
      rq_headers = [(''Content-Type'', ''application/json'')], rq_body = json_value p\<rparr>
   \<and> fst (updateMetrics p) = \<lparr>rq_url = ''/api/update-metrics'', rq_method = ''POST'',
      rq_headers = [(''Content-Type'', ''application/json'')], rq_body = json_value p\<rparr>
   \<and> fst (getNextWorkout (JNat n)) = \<lparr>rq_url = ''/api/next-workout?user_id='' @ nat_digits n,
      rq_method = ''GET'', rq_headers = [(''Content-Type'', ''application/json'')],
      rq_body = None\<rparr>
   \<and> fst (getDashboard (JNat n)) = \<lparr>rq_url = ''/api/dashboard?user_id='' @ nat_digits n,
      rq_method = ''GET'', rq_headers = [(''Content-Type'', ''application/json'')],
      rq_body = None\<rparr>
   \<and> fst (getAnalytics (JNat n) ex) = \<lparr>rq_url = ''/api/analytics?user_id='' @ nat_digits n @
        ''&exercise='' @ encodeURIComponent ex,
      rq_method = ''GET'', rq_headers = [(''Content-Type'', ''application/json'')],
      rq_body = None\<rparr>"
  by (simp add: api_defs request_def default_headers_def)

text \<open>
  C17. Query safety of \<^verbatim>\<open>getAnalytics\<close>: whatever the user types as exercise
  name, the URL ends in one \<^verbatim>\<open>exercise\<close> parameter whose value contains none of
  the characters that delimit a query (\<^verbatim>\<open>& = # ? / +\<close> and space) and from
  which percent-decoding recovers the name exactly.
\<close>

theorem getAnalytics_query_safe:
  "\<exists>e. rq_url (fst (getAnalytics (JNat n) ex)) =
          ''/api/analytics?user_id='' @ nat_digits n @ ''&exercise='' @ e
     \<and> percent_decode e = Some ex
     \<and> set e \<inter> set ''&=#?/+ '' = {}"
proof (intro exI [of _ "encodeURIComponent ex"] conjI)
  show "rq_url (fst (getAnalytics (JNat n) ex)) =
          ''/api/analytics?user_id='' @ nat_digits n @ ''&exercise='' @ encodeURIComponent ex"
    by (simp add: getAnalytics_def request_def)
  show "percent_decode (encodeURIComponent ex) = Some ex"
    by simp
  show "set (encodeURIComponent ex) \<inter> set ''&=#?/+ '' = {}"
    by (rule encodeURIComponent_no_delimiter)
qed

text \<open>
  Length of the analytics URL: the URL of \<^verbatim>\<open>getAnalytics\<close> for user 1 is the
  34 characters of \<^verbatim>\<open>/api/analytics?user_id=1&exercise=\<close> followed by the encoded
  exercise name, which is at least as long as the name and at most three
  times as long. The client puts no bound of its own on the URL: its length
  grows with what the user typed.
\<close>

theorem getAnalytics_url_length:
  "34 + length ex \<le> length (rq_url (fst (getAnalytics (JNat 1) ex)))
   \<and> length (rq_url (fst (getAnalytics (JNat 1) ex))) \<le> 34 + 3 * length ex
   \<and> (list_all unreserved ex \<longrightarrow>
        length (rq_url (fst (getAnalytics (JNat 1) ex))) = 34 + length ex)"
  using length_encodeURIComponent [of ex] length_encodeURIComponent_unreserved [of ex]
  by (auto simp: getAnalytics_def request_def digit_char_def)

theorem getAnalytics_url_length_witness:
  "list_all unreserved ''Squat''
   \<and> length (rq_url (fst (getAnalytics (JNat 1) ''Squat''))) = 39
   \<and> length (rq_url (fst (getAnalytics (JNat 1) ''Bench Press''))) = 47
   \<and> 47 \<le> 34 + 3 * length ''Bench Press''"
proof -
  have u: "list_all unreserved ''Squat''" by (simp add: unreserved_def)
  have b: "length (rq_url (fst (getAnalytics (JNat 1) ''Bench Press''))) = 47"
    by (simp add: getAnalytics_def request_def digit_char_def percent_encode_def unreserved_def)
  from getAnalytics_url_length [of "''Squat''"] u b show ?thesis by simp
qed

end
