(* ===== verification/PageKit.thy ===== *)
theory PageKit
  imports ApiClient
begin

text \<open>
  What the page controllers share.

  \<^item> \<open>catch_message\<close>: the expression every \<^verbatim>\<open>catch\<close> of the pages evaluates,
    \<^verbatim>\<open>err instanceof ApiError ? err.message : fallback\<close>.
  \<^item> \<open>remove_nth\<close>: bookkeeping of the requests in flight. A page state carries
    the list of requests it has issued and not yet seen settled; the network
    may settle any of them next.
  \<^item> \<open>js_bind\<close>, \<open>sequence\<close>, \<open>js_map\<close>: evaluation of a render in source order,
    where a property read from \<^verbatim>\<open>undefined\<close> or \<^verbatim>\<open>null\<close> throws and ends the
    render; \<open>js_map\<close> is \<^verbatim>\<open>xs.map(f)\<close>, which throws when \<^verbatim>\<open>xs\<close> is not an array.
    \<open>field_of\<close> is a property read from an object, \<^verbatim>\<open>undefined\<close> when absent.
  \<^item> The generic metrics form of \<^verbatim>\<open>LogSessionPage\<close> and \<^verbatim>\<open>MetricsPage\<close> (the two
    files hold the same code): \<open>metric_inputs\<close> renders one input per entry of
    the draft object and \<open>setMetric\<close> is the \<^verbatim>\<open>onChange\<close> handler of such an
    input. \<open>typed_setMetric\<close> is the field-by-field update of a
    \<open>SessionMetrics\<close> record that the reflective code is meant to implement;
    \<open>setMetric_refines\<close> proves that it does.
\<close>

section \<open>Definitions\<close>

definition USER_ID :: jsval where
  "USER_ID = JNat 1"

definition catch_message :: "string \<Rightarrow> thrown \<Rightarrow> string" where
  "catch_message fallback err = (case err of ApiError st msg \<Rightarrow> msg | Thrown e \<Rightarrow> fallback)"

definition remove_nth :: "nat \<Rightarrow> 'a list \<Rightarrow> 'a list" where
  "remove_nth k xs = take k xs @ drop (Suc k) xs"

definition js_bind :: "js_error + 'a \<Rightarrow> ('a \<Rightarrow> js_error + 'b) \<Rightarrow> js_error + 'b" where
  "js_bind m f = (case m of Inl e \<Rightarrow> Inl e | Inr v \<Rightarrow> f v)"

definition field_of :: "jsobj \<Rightarrow> string \<Rightarrow> jsval" where
  "field_of row k = (case obj_get row k of None \<Rightarrow> JUndefined | Some v \<Rightarrow> v)"

fun sequence :: "(js_error + 'a) list \<Rightarrow> js_error + 'a list" where
  "sequence [] = Inr []"
| "sequence (m # ms) = js_bind m (\<lambda>x. js_bind (sequence ms) (\<lambda>xs. Inr (x # xs)))"

definition js_map :: "jsval \<Rightarrow> (jsval \<Rightarrow> js_error + 'a) \<Rightarrow> js_error + 'a list" where
  "js_map v f = (case v of JArr xs \<Rightarrow> sequence (map f xs) | _ \<Rightarrow> Inl TypeError)"

record form_input =
  in_label :: string
  in_type :: string
  in_value :: jsval

definition metric_inputs :: "jsobj \<Rightarrow> form_input list" where
  "metric_inputs metrics =
     map (\<lambda>(key, value).
            \<lparr>in_label = key, in_type = (if key = ''date'' then ''date'' else ''number''),
             in_value = value\<rparr>) metrics"

definition metric_value :: "string \<Rightarrow> string \<Rightarrow> jsval" where
  "metric_value key raw = (if key = ''date'' then JStr raw else JNum (js_Number raw))"

definition setMetric :: "string \<Rightarrow> string \<Rightarrow> jsobj \<Rightarrow> jsobj" where
  "setMetric key raw prev = obj_set key (metric_value key raw) (obj_spread [] prev)"

definition metric_keys :: "string list" where
  "metric_keys = [''date'', ''sleep_hours'', ''resting_hr'', ''hrv_rmssd'', ''soreness'',
     ''motivation'', ''rpe_session'', ''duration_min'']"

definition typed_setMetric :: "string \<Rightarrow> string \<Rightarrow> SessionMetrics \<Rightarrow> SessionMetrics" where
  "typed_setMetric key raw m =
     (if key = ''date'' then m\<lparr>sm_date := raw\<rparr>
      else if key = ''sleep_hours'' then m\<lparr>sm_sleep_hours := js_Number raw\<rparr>
      else if key = ''resting_hr'' then m\<lparr>sm_resting_hr := js_Number raw\<rparr>
      else if key = ''hrv_rmssd'' then m\<lparr>sm_hrv_rmssd := js_Number raw\<rparr>
      else if key = ''soreness'' then m\<lparr>sm_soreness := js_Number raw\<rparr>
      else if key = ''motivation'' then m\<lparr>sm_motivation := js_Number raw\<rparr>
      else if key = ''rpe_session'' then m\<lparr>sm_rpe_session := js_Number raw\<rparr>
      else if key = ''duration_min'' then m\<lparr>sm_duration_min := js_Number raw\<rparr>
      else m)"

definition metrics_ok :: "jsobj \<Rightarrow> bool" where
  "metrics_ok ps = (obj_keys ps = metric_keys \<and> SessionMetrics_of_js (JObj ps) \<noteq> None)"

lemmas kit_defs [js_defs] =
  USER_ID_def catch_message_def remove_nth_def metric_inputs_def metric_value_def
  setMetric_def metric_keys_def field_of_def

section \<open>Sequencing reads that may throw\<close>

lemma js_bind_simps [simp]:
  "js_bind (Inl e) f = Inl e" "js_bind (Inr v) f = f v"
  by (simp_all add: js_bind_def)

lemma js_bind_eq_Inr_iff: "js_bind m f = Inr y \<longleftrightarrow> (\<exists>v. m = Inr v \<and> f v = Inr y)"
  by (cases m) auto

lemma sequence_map_Inr [simp]: "sequence (map Inr xs) = Inr xs"
  by (induction xs) simp_all

lemma sequence_eq_Inr_length: "sequence ms = Inr xs \<Longrightarrow> length xs = length ms"
  by (induction ms arbitrary: xs) (auto simp: js_bind_eq_Inr_iff)

lemma js_map_array [simp]: "js_map (JArr xs) f = sequence (map f xs)"
  by (simp add: js_map_def)

lemma js_map_conforming:
  "those (map of_js xs) = Some ys \<Longrightarrow>
   (\<And>x y. of_js x = Some y \<Longrightarrow> f x = Inr (g y)) \<Longrightarrow>
     sequence (map f xs) = Inr (map g ys)"
proof (induction xs arbitrary: ys)
  case Nil
  then show ?case by simp
next
  case (Cons x xs)
  from Cons.prems(1) obtain y rest where "of_js x = Some y"
    "those (map of_js xs) = Some rest" "ys = y # rest"
    by (auto split: option.splits)
  with Cons.IH [of rest] Cons.prems(2) show ?case by simp
qed

lemma js_get_obj [simp]: "js_get (JObj ps) k = Inr (field_of ps k)"
  by (simp add: field_of_def)

declare js_get.simps(3) [simp del]

lemma js_get_Inl_iff: "js_get v k = Inl e \<longleftrightarrow> nullish v \<and> e = TypeError"
  by (cases v) (auto simp: nullish_def)

lemma js_get_not_nullish: "\<not> nullish v \<Longrightarrow> \<exists>w. js_get v k = Inr w"
  by (cases v) (auto simp: nullish_def)

lemma field_of_simps [simp]:
  "field_of [] k = JUndefined"
  "field_of ((k', v) # ps) k = (if k = k' then v else field_of ps k)"
  by (simp_all add: field_of_def)

lemma field_of_Some: "obj_get ps k = Some v \<Longrightarrow> field_of ps k = v"
  by (simp add: field_of_def)

lemma field_of_num: "num_at ps k = Some n \<Longrightarrow> field_of ps k = JNum n"
  by (simp add: field_of_Some num_at_SomeD)

lemma field_of_str: "str_at ps k = Some s \<Longrightarrow> field_of ps k = JStr s"
  by (simp add: field_of_Some str_at_SomeD)

lemma num_at_field_of: "num_at ps k = (case field_of ps k of JNum n \<Rightarrow> Some n | _ \<Rightarrow> None)"
  by (simp add: num_at_def field_of_def split: option.splits)

lemma str_at_field_of: "str_at ps k = (case field_of ps k of JStr s \<Rightarrow> Some s | _ \<Rightarrow> None)"
  by (simp add: str_at_def field_of_def split: option.splits)

lemma remove_nth_keeps_earlier: "j < k \<Longrightarrow> k \<le> length xs \<Longrightarrow> remove_nth k xs ! j = xs ! j"
  by (simp add: remove_nth_def nth_append)

lemma remove_nth_beyond [simp]: "length xs \<le> k \<Longrightarrow> remove_nth k xs = xs"
  by (simp add: remove_nth_def)

lemma filter_remove_nth_le:
  "length (filter P (remove_nth k xs)) \<le> length (filter P xs)"
proof -
  have "xs = take k xs @ drop k xs" by simp
  then have "length (filter P xs) = length (filter P (take k xs)) + length (filter P (drop k xs))"
    by (metis filter_append length_append)
  moreover have "length (filter P (drop (Suc k) xs)) \<le> length (filter P (drop k xs))"
    by (cases "k < length xs") (simp_all add: Cons_nth_drop_Suc [symmetric])
  ultimately show ?thesis by (simp add: remove_nth_def)
qed

section \<open>Requests in flight\<close>

lemma length_remove_nth [simp]:
  "k < length xs \<Longrightarrow> length (remove_nth k xs) = length xs - 1"
  by (simp add: remove_nth_def)

lemma set_remove_nth_subset: "set (remove_nth k xs) \<subseteq> set xs"
  by (auto simp: remove_nth_def dest: in_set_takeD in_set_dropD)

lemma remove_nth_append_last [simp]: "remove_nth (length xs) (xs @ [x]) = xs"
  by (simp add: remove_nth_def)

lemma remove_nth_0 [simp]: "remove_nth 0 (x # xs) = xs"
  by (simp add: remove_nth_def)

lemma catch_message_simps [simp]:
  "catch_message fb (ApiError st msg) = msg" "catch_message fb (Thrown e) = fb"
  by (simp_all add: catch_message_def)

section \<open>The metrics form\<close>

lemma obj_spread_into_empty: "distinct (obj_keys ps) \<Longrightarrow> obj_spread [] ps = ps"
proof -
  have "distinct (obj_keys (acc @ ps)) \<Longrightarrow> obj_spread acc ps = acc @ ps" for acc :: "'a obj"
  proof (induction ps arbitrary: acc)
    case Nil
    then show ?case by simp
  next
    case (Cons p ps)
    obtain k v where p: "p = (k, v)" by (cases p)
    from Cons.prems have "k \<notin> set (obj_keys acc)"
      by (auto simp: p obj_keys_def)
    then have "obj_set k v acc = acc @ [(k, v)]"
      by (induction acc) auto
    with Cons.IH [of "acc @ [(k, v)]"] Cons.prems show ?case
      by (simp add: p)
  qed
  from this [of "[]"] show "distinct (obj_keys ps) \<Longrightarrow> obj_spread [] ps = ps"
    by simp
qed

lemma distinct_metric_keys [simp]: "distinct metric_keys"
  by (simp add: metric_keys_def)

lemma length_metric_inputs [simp, shape]: "length (metric_inputs ps) = length ps"
  by (simp add: metric_inputs_def)

lemma map_label_metric_inputs [simp, shape]: "map in_label (metric_inputs ps) = obj_keys ps"
  by (simp add: metric_inputs_def obj_keys_def case_prod_unfold)

lemma metric_input_type:
  "i < length ps \<Longrightarrow>
     in_type (metric_inputs ps ! i) = (if fst (ps ! i) = ''date'' then ''date'' else ''number'')"
  by (simp add: metric_inputs_def case_prod_unfold)

lemma setMetric_plain:
  "distinct (obj_keys ps) \<Longrightarrow> setMetric key raw ps = obj_set key (metric_value key raw) ps"
  by (simp add: setMetric_def obj_spread_into_empty)

lemma setMetric_keys [shape]:
  "obj_keys ps = metric_keys \<Longrightarrow> key \<in> set metric_keys \<Longrightarrow>
     obj_keys (setMetric key raw ps) = metric_keys"
  by (simp add: setMetric_plain)

lemma setMetric_other [frame]:
  "distinct (obj_keys ps) \<Longrightarrow> k \<noteq> key \<Longrightarrow>
     obj_get (setMetric key raw ps) k = obj_get ps k"
  by (simp add: setMetric_plain)

lemma setMetric_same:
  "distinct (obj_keys ps) \<Longrightarrow> obj_get (setMetric key raw ps) key = Some (metric_value key raw)"
  by (simp add: setMetric_plain)

lemma metric_key_cases:
  "key \<in> set metric_keys \<Longrightarrow>
     key = ''date'' \<or> key = ''sleep_hours'' \<or> key = ''resting_hr'' \<or> key = ''hrv_rmssd'' \<or>
     key = ''soreness'' \<or> key = ''motivation'' \<or> key = ''rpe_session'' \<or> key = ''duration_min''"
  by (simp add: metric_keys_def)

lemma setMetric_refines:
  assumes "SessionMetrics_of_js (JObj ps) = Some m"
    and "distinct (obj_keys ps)"
    and "key \<in> set metric_keys"
  shows "SessionMetrics_of_js (JObj (setMetric key raw ps)) = Some (typed_setMetric key raw m)"
proof -
  note rw = setMetric_plain [OF assms(2)] SessionMetrics_of_js_iff num_at_obj_set str_at_obj_set
    metric_value_def typed_setMetric_def
  from metric_key_cases [OF assms(3)] assms(1) show ?thesis
    by (elim disjE; simp add: rw)
qed

lemma metrics_ok_setMetric:
  assumes "metrics_ok ps" and "key \<in> set metric_keys"
  shows "metrics_ok (setMetric key raw ps)"
proof -
  from assms(1) obtain m where m: "SessionMetrics_of_js (JObj ps) = Some m"
    and keys: "obj_keys ps = metric_keys"
    by (auto simp: metrics_ok_def)
  from keys have "distinct (obj_keys ps)" by simp
  with m assms(2) have "SessionMetrics_of_js (JObj (setMetric key raw ps)) \<noteq> None"
    by (simp add: setMetric_refines)
  with keys assms(2) show ?thesis
    by (simp add: metrics_ok_def setMetric_keys)
qed

end
