(* ===== verification/DashboardPage.thy ===== *)
theory DashboardPage
  imports PageKit
begin

text \<open>
  The controller of \<^verbatim>\<open>src/web/src/pages/DashboardPage.tsx\<close>, a read-then-display
  page: one \<^verbatim>\<open>getDashboard\<close> issued by the mount effect, two state cells
  (\<open>dp_data\<close>, \<open>dp_error\<close>) and a render with three outcomes.

  Rendering has two phases, as in React. \<open>dp_element\<close> is the component
  function: it reads the properties the JSX mentions, and a read from
  \<^verbatim>\<open>undefined\<close> or \<^verbatim>\<open>null\<close> throws. \<open>dp_paint\<close> is what React then does with the
  element: each child becomes text, and an object as a child throws.
  \<open>dp_render\<close> composes them. \<open>typed_dashboard_view\<close> is the view written over a
  \<open>DashboardResponse\<close> record, the specification \<open>dp_render\<close> is proved against.
\<close>

section \<open>State and handlers\<close>

record dashboard_page =
  dp_data :: jsval
  dp_error :: string
  dp_pending :: "http_request list"

datatype dp_event = DSettled nat fetch_result

definition dp_initial :: dashboard_page where
  "dp_initial = \<lparr>dp_data = JNull, dp_error = [], dp_pending = []\<rparr>"

definition dp_mount :: "dashboard_page \<Rightarrow> dashboard_page" where
  "dp_mount s = s\<lparr>dp_pending := dp_pending s @ [fst (getDashboard USER_ID)]\<rparr>"

definition dp_init :: dashboard_page where
  "dp_init = dp_mount dp_initial"

definition dp_settled :: "nat \<Rightarrow> fetch_result \<Rightarrow> dashboard_page \<Rightarrow> dashboard_page" where
  "dp_settled k fr s =
     (case snd (getDashboard USER_ID) fr of
        Inr payload \<Rightarrow> s\<lparr>dp_pending := remove_nth k (dp_pending s), dp_data := payload\<rparr>
      | Inl err \<Rightarrow> s\<lparr>dp_pending := remove_nth k (dp_pending s),
                     dp_error := catch_message ''Failed to load dashboard'' err\<rparr>)"

fun dp_fire :: "dp_event \<Rightarrow> dashboard_page \<Rightarrow> dashboard_page" where
  "dp_fire (DSettled k fr) s = dp_settled k fr s"

fun dp_enabled :: "dashboard_page \<Rightarrow> dp_event \<Rightarrow> bool" where
  "dp_enabled s (DSettled k fr) = (k < length (dp_pending s))"

fun dp_run :: "dp_event list \<Rightarrow> dashboard_page \<Rightarrow> dashboard_page option" where
  "dp_run [] s = Some s"
| "dp_run (e # es) s = (if dp_enabled s e then dp_run es (dp_fire e s) else None)"

inductive dp_reach :: "dashboard_page \<Rightarrow> bool" where
  dp_start: "dp_reach dp_init"
| dp_step: "dp_reach s \<Longrightarrow> dp_enabled s e \<Longrightarrow> dp_reach (dp_fire e s)"

section \<open>View\<close>

record session_row =
  sr_key :: string
  sr_cells :: "string list"

record dashboard_loaded =
  dl_target_date :: string
  dl_exercise :: string
  dl_prescription :: string
  dl_metrics :: "string list"
  dl_rows :: "session_row list"

datatype dashboard_view = DError string | DLoading | DLoaded dashboard_loaded

record loaded_element =
  le_workout :: "jsval list"
  le_metrics :: "jsval list"
  le_rows :: "jsval list list"

datatype dashboard_element = EError string | ELoading | ELoaded loaded_element

definition times_sign :: string where
  "times_sign = [CHR 0xC3, CHR 0x97]"

definition session_cells :: "jsval \<Rightarrow> js_error + jsval list" where
  "session_cells session =
     sequence (map (js_get session) [''date'', ''exercise_count'', ''tonnage'', ''avg_rir''])"

definition dp_element :: "dashboard_page \<Rightarrow> js_error + dashboard_element" where
  "dp_element s =
     (if dp_error s \<noteq> [] then Inr (EError (dp_error s))
      else if \<not> truthy (dp_data s) then Inr ELoading
      else
        js_bind (js_get (dp_data s) ''next_workout'') (\<lambda>next_workout.
        js_bind (sequence (map (js_get next_workout)
                   [''target_date'', ''exercise'', ''sets'', ''reps'', ''load_kg''])) (\<lambda>workout.
        js_bind (js_get (dp_data s) ''latest_metrics'') (\<lambda>latest_metrics.
        js_bind (sequence (map (js_get latest_metrics)
                   [''date'', ''sleep_hours'', ''resting_hr'', ''hrv_rmssd'', ''soreness''])) (\<lambda>metrics.
        js_bind (js_get (dp_data s) ''recent_sessions'') (\<lambda>recent_sessions.
        js_bind (js_map recent_sessions session_cells) (\<lambda>rows.
          Inr (ELoaded \<lparr>le_workout = workout, le_metrics = metrics, le_rows = rows\<rparr>))))))))"

definition paint_row :: "jsval list \<Rightarrow> js_error + session_row" where
  "paint_row cells =
     js_bind (sequence (map react_text cells)) (\<lambda>texts.
       Inr \<lparr>sr_key = js_to_string (hd cells), sr_cells = texts\<rparr>)"

definition paint_loaded :: "loaded_element \<Rightarrow> js_error + dashboard_loaded" where
  "paint_loaded el =
     js_bind (sequence (map react_text (le_workout el))) (\<lambda>w.
     js_bind (sequence (map react_text (le_metrics el))) (\<lambda>m.
     js_bind (sequence (map paint_row (le_rows el))) (\<lambda>rows.
       Inr \<lparr>dl_target_date = w ! 0, dl_exercise = w ! 1,
            dl_prescription =
              w ! 2 @ '' sets '' @ times_sign @ '' '' @ w ! 3 @ '' reps @ '' @ w ! 4 @ '' kg'',
            dl_metrics =
              [''Date: '' @ m ! 0, ''Sleep: '' @ m ! 1 @ ''h'', ''Resting HR: '' @ m ! 2,
               ''HRV: '' @ m ! 3, ''Soreness: '' @ m ! 4 @ ''/10''],
            dl_rows = rows\<rparr>)))"

definition dp_paint :: "dashboard_element \<Rightarrow> js_error + dashboard_view" where
  "dp_paint el =
     (case el of
        EError msg \<Rightarrow> Inr (DError msg)
      | ELoading \<Rightarrow> Inr DLoading
      | ELoaded l \<Rightarrow> js_bind (paint_loaded l) (\<lambda>v. Inr (DLoaded v)))"

definition dp_render :: "dashboard_page \<Rightarrow> js_error + dashboard_view" where
  "dp_render s = js_bind (dp_element s) dp_paint"

section \<open>Typed view\<close>

definition typed_session_row :: "SessionSummary \<Rightarrow> session_row" where
  "typed_session_row x =
     \<lparr>sr_key = ss_date x,
      sr_cells = [ss_date x, number_to_string (ss_exercise_count x),
                  number_to_string (ss_tonnage x), number_to_string (ss_avg_rir x)]\<rparr>"

definition typed_dashboard_view :: "DashboardResponse \<Rightarrow> dashboard_loaded" where
  "typed_dashboard_view d =
     \<lparr>dl_target_date = tp_target_date (dr_next_workout d),
      dl_exercise = tp_exercise (dr_next_workout d),
      dl_prescription =
        number_to_string (tp_sets (dr_next_workout d)) @ '' sets '' @ times_sign @ '' '' @
        number_to_string (tp_reps (dr_next_workout d)) @ '' reps @ '' @
        number_to_string (tp_load_kg (dr_next_workout d)) @ '' kg'',
      dl_metrics =
        [''Date: '' @ sm_date (dr_latest_metrics d),
         ''Sleep: '' @ number_to_string (sm_sleep_hours (dr_latest_metrics d)) @ ''h'',
         ''Resting HR: '' @ number_to_string (sm_resting_hr (dr_latest_metrics d)),
         ''HRV: '' @ number_to_string (sm_hrv_rmssd (dr_latest_metrics d)),
         ''Soreness: '' @ number_to_string (sm_soreness (dr_latest_metrics d)) @ ''/10''],
      dl_rows = map typed_session_row (dr_recent_sessions d)\<rparr>"

text \<open>The response of the specification's Scenario A, as a typed value.\<close>

definition scenario_A :: DashboardResponse where
  "scenario_A =
     \<lparr>dr_next_workout =
        \<lparr>tp_target_date = ''2024-05-03'', tp_exercise = ''Squat'', tp_sets = Fin 4,
         tp_reps = Fin 5, tp_load_kg = Fin 100, tp_deload = False,
         tp_rationale = [(''readiness'', JNum (Fin (4 / 5)))]\<rparr>,
      dr_latest_metrics =
        \<lparr>sm_date = ''2024-05-01'', sm_sleep_hours = Fin 7, sm_resting_hr = Fin 55,
         sm_hrv_rmssd = Fin 60, sm_soreness = Fin 3, sm_motivation = Fin 7,
         sm_rpe_session = Fin 8, sm_duration_min = Fin 60\<rparr>,
      dr_recent_sessions =
        [\<lparr>ss_date = ''2024-04-29'', ss_exercise_count = Fin 5, ss_tonnage = Fin 12500,
          ss_avg_rir = Fin 2\<rparr>,
         \<lparr>ss_date = ''2024-04-26'', ss_exercise_count = Fin 4, ss_tonnage = Fin 9800,
          ss_avg_rir = Fin 3\<rparr>]\<rparr>"

lemmas dp_defs [js_defs] =
  dp_initial_def dp_mount_def dp_init_def dp_settled_def times_sign_def
  session_cells_def dp_element_def paint_row_def paint_loaded_def dp_paint_def dp_render_def
  typed_session_row_def typed_dashboard_view_def

section \<open>Settling\<close>

lemma dp_settled_ok:
  "settle fr = Inr v \<Longrightarrow>
     dp_settled k fr s = s\<lparr>dp_pending := remove_nth k (dp_pending s), dp_data := v\<rparr>"
  by (simp add: dp_settled_def getDashboard_def request_def)

lemma dp_settled_failed:
  "settle fr = Inl err \<Longrightarrow>
     dp_settled k fr s = s\<lparr>dp_pending := remove_nth k (dp_pending s),
                           dp_error := catch_message ''Failed to load dashboard'' err\<rparr>"
  by (simp add: dp_settled_def getDashboard_def request_def)

lemma dp_settled_pending [simp]:
  "dp_pending (dp_settled k fr s) = remove_nth k (dp_pending s)"
  by (cases "settle fr") (simp_all add: dp_settled_ok dp_settled_failed)

lemma dp_init_sel [simp]:
  "dp_data dp_init = JNull" "dp_error dp_init = []"
  "dp_pending dp_init = [fst (getDashboard USER_ID)]"
  by (simp_all add: dp_init_def dp_mount_def dp_initial_def)

section \<open>Rendering rows\<close>

lemma session_cells_conforming:
  assumes "SessionSummary_of_js v = Some x"
  shows "session_cells v = Inr [JStr (ss_date x), JNum (ss_exercise_count x),
           JNum (ss_tonnage x), JNum (ss_avg_rir x)]"
proof -
  from assms obtain ps where v: "v = JObj ps" by (auto dest: of_js_is_object)
  with assms show ?thesis
    by (simp add: session_cells_def SessionSummary_of_js_iff field_of_num field_of_str)
qed

lemma paint_row_conforming [simp]:
  "paint_row [JStr (ss_date x), JNum (ss_exercise_count x), JNum (ss_tonnage x),
      JNum (ss_avg_rir x)] = Inr (typed_session_row x)"
  by (simp add: paint_row_def typed_session_row_def)

lemma rows_conforming:
  "those (map SessionSummary_of_js xs) = Some rows \<Longrightarrow>
     \<exists>cells. sequence (map session_cells xs) = Inr cells
       \<and> sequence (map paint_row cells) = Inr (map typed_session_row rows)"
proof (induction xs arbitrary: rows)
  case Nil
  then show ?case by simp
next
  case (Cons v xs)
  from Cons.prems obtain x rest where x: "SessionSummary_of_js v = Some x"
    and rest: "those (map SessionSummary_of_js xs) = Some rest" and rows: "rows = x # rest"
    by (auto split: option.splits)
  from Cons.IH [OF rest] obtain cells where "sequence (map session_cells xs) = Inr cells"
    "sequence (map paint_row cells) = Inr (map typed_session_row rest)" by blast
  with x rows show ?case by (simp add: session_cells_conforming)
qed

lemma dp_render_conforming:
  assumes "DashboardResponse_of_js v = Some d" and "dp_error s = []" and "dp_data s = v"
  shows "dp_render s = Inr (DLoaded (typed_dashboard_view d))"
proof -
  from DashboardResponse_of_js_SomeD [OF assms(1)] obtain ps w m xs where
    v: "v = JObj ps" and
    w: "obj_get ps ''next_workout'' = Some (JObj w)"
       "TrainingPrescription_of_js (JObj w) = Some (dr_next_workout d)" and
    m: "obj_get ps ''latest_metrics'' = Some (JObj m)"
       "SessionMetrics_of_js (JObj m) = Some (dr_latest_metrics d)" and
    xs: "obj_get ps ''recent_sessions'' = Some (JArr xs)"
        "those (map SessionSummary_of_js xs) = Some (dr_recent_sessions d)"
    by blast
  from rows_conforming [OF xs(2)] obtain cells where
    cells: "sequence (map session_cells xs) = Inr cells"
      "sequence (map paint_row cells) = Inr (map typed_session_row (dr_recent_sessions d))"
    by blast
  note fields = TrainingPrescription_of_js_SomeD [OF w(2)]
    m(2) [unfolded SessionMetrics_of_js_iff]
  from fields have el: "dp_element s = Inr (ELoaded
      \<lparr>le_workout = [JStr (tp_target_date (dr_next_workout d)),
                      JStr (tp_exercise (dr_next_workout d)), JNum (tp_sets (dr_next_workout d)),
                      JNum (tp_reps (dr_next_workout d)), JNum (tp_load_kg (dr_next_workout d))],
        le_metrics = [JStr (sm_date (dr_latest_metrics d)),
                      JNum (sm_sleep_hours (dr_latest_metrics d)),
                      JNum (sm_resting_hr (dr_latest_metrics d)),
                      JNum (sm_hrv_rmssd (dr_latest_metrics d)),
                      JNum (sm_soreness (dr_latest_metrics d))],
        le_rows = cells\<rparr>)"
    by (simp add: dp_element_def assms(2,3) v field_of_Some w(1) m(1) xs(1) cells(1)
        field_of_num field_of_str)
  show ?thesis
    by (simp add: dp_render_def el dp_paint_def paint_loaded_def cells(2) typed_dashboard_view_def)
qed

section \<open>Reachable states\<close>

lemma dp_reach_cases:
  "dp_reach s \<Longrightarrow> s = dp_init \<or> (\<exists>fr. s = dp_fire (DSettled 0 fr) dp_init)"
proof (induction rule: dp_reach.induct)
  case dp_start
  then show ?case by simp
next
  case (dp_step s e)
  obtain k fr where e: "e = DSettled k fr" by (cases e)
  from dp_step.IH show ?case
  proof
    assume "s = dp_init"
    with dp_step.hyps(2) e show ?thesis by auto
  next
    assume "\<exists>fr. s = dp_fire (DSettled 0 fr) dp_init"
    with dp_step.hyps(2) e show ?thesis by auto
  qed
qed

section \<open>Properties\<close>

text \<open>
  C6. The dashboard shows what the server sent: when the response of
  \<^verbatim>\<open>getDashboard\<close> has a status in 200--299 and a body that is a
  \<^verbatim>\<open>DashboardResponse\<close>, the page renders the loaded view, and that view is the
  typed view of the response: target date and exercise, the line
  \<^verbatim>\<open><sets> sets x <reps> reps @ <load_kg> kg\<close> (with the multiplication sign),
  the five latest metrics with their labels and units, and one table row per
  recent session, in the order received.
\<close>

theorem dashboard_renders_conforming_response:
  assumes "rs_ok r" and "rs_json r = Some v" and "DashboardResponse_of_js v = Some d"
  shows "dp_render (dp_fire (DSettled 0 (Responded r)) dp_init)
           = Inr (DLoaded (typed_dashboard_view d))"
  using assms
  by (intro dp_render_conforming [where v = v]) (simp_all add: dp_settled_ok settle_ok)

theorem dashboard_renders_conforming_response_witness:
  "dp_render (dp_fire (DSettled 0 (Responded \<lparr>rs_status = 200, rs_statusText = ''OK'',
      rs_json = Some (DashboardResponse_to_js scenario_A)\<rparr>)) dp_init)
     = Inr (DLoaded (typed_dashboard_view scenario_A))
   \<and> dl_prescription (typed_dashboard_view scenario_A)
     = ''4 sets '' @ times_sign @ '' 5 reps @ 100 kg''
   \<and> map sr_cells (dl_rows (typed_dashboard_view scenario_A))
     = [[''2024-04-29'', ''5'', ''12500'', ''2''], [''2024-04-26'', ''4'', ''9800'', ''3'']]"
proof -
  have c: "DashboardResponse_of_js (DashboardResponse_to_js scenario_A) = Some scenario_A"
    by (rule DashboardResponse_roundtrip) (simp add: scenario_A_def is_str_or_num_def)
  have main: "dp_render (dp_fire (DSettled 0 (Responded \<lparr>rs_status = 200, rs_statusText = ''OK'',
      rs_json = Some (DashboardResponse_to_js scenario_A)\<rparr>)) dp_init)
     = Inr (DLoaded (typed_dashboard_view scenario_A))"
    by (rule dashboard_renders_conforming_response [OF _ _ c]) (simp_all add: rs_ok_def)
  have line: "dl_prescription (typed_dashboard_view scenario_A)
     = ''4 sets '' @ times_sign @ '' 5 reps @ 100 kg''"
    by (simp add: typed_dashboard_view_def scenario_A_def digit_char_def)
  have rows: "map sr_cells (dl_rows (typed_dashboard_view scenario_A))
     = [[''2024-04-29'', ''5'', ''12500'', ''2''], [''2024-04-26'', ''4'', ''9800'', ''3'']]"
    by (simp add: typed_dashboard_view_def typed_session_row_def scenario_A_def digit_char_def)
  from main line rows show ?thesis by (intro conjI)
qed

text \<open>
  C24. Exactly one fetch, and no way back: the page starts with
  \<^verbatim>\<open>GET /api/dashboard?user_id=1\<close> in flight and nothing else; every reachable
  state is either that initial state or the state after the one response has
  arrived, in which no request is in flight and no event is enabled. The page
  never re-fetches and never retries.
\<close>

theorem dashboard_fetches_exactly_once:
  assumes "dp_reach s"
  shows "(s = dp_init \<and> map rq_url (dp_pending s) = [''/api/dashboard?user_id=1'']
            \<and> map rq_method (dp_pending s) = [''GET''])
       \<or> ((\<exists>fr. s = dp_fire (DSettled 0 fr) dp_init) \<and> dp_pending s = []
            \<and> (\<forall>e. \<not> dp_enabled s e))"
proof -
  have url: "map rq_url (dp_pending dp_init) = [''/api/dashboard?user_id=1'']"
    "map rq_method (dp_pending dp_init) = [''GET'']"
    by (simp_all add: getDashboard_def request_def USER_ID_def digit_char_def)
  from dp_reach_cases [OF assms] show ?thesis
  proof
    assume "s = dp_init"
    with url show ?thesis by simp
  next
    assume *: "\<exists>fr. s = dp_fire (DSettled 0 fr) dp_init"
    then have p: "dp_pending s = []" by auto
    have "\<not> dp_enabled s e" for e by (cases e) (simp add: p)
    with * p show ?thesis by blast
  qed
qed

theorem dashboard_fetches_exactly_once_witness:
  "dp_reach (dp_fire (DSettled 0 NetworkFailure) dp_init)
   \<and> dp_pending (dp_fire (DSettled 0 NetworkFailure) dp_init) = []
   \<and> dp_run [DSettled 0 NetworkFailure, DSettled 0 NetworkFailure] dp_init = None"
proof -
  have r: "dp_reach (dp_fire (DSettled 0 NetworkFailure) dp_init)"
    by (rule dp_reach.dp_step [OF dp_reach.dp_start]) simp
  have "dp_fire (DSettled 0 NetworkFailure) dp_init \<noteq> dp_init"
  proof
    assume "dp_fire (DSettled 0 NetworkFailure) dp_init = dp_init"
    then have "dp_pending (dp_fire (DSettled 0 NetworkFailure) dp_init) = dp_pending dp_init"
      by (rule arg_cong)
    then show False by simp
  qed
  with dashboard_fetches_exactly_once [OF r] r show ?thesis by auto
qed

text \<open>
  A failed load is shown: when the fetch fails with a message that is not
  empty, the page renders that message and nothing else. The message is the
  \<^verbatim>\<open>ApiError\<close>'s for a status outside 200--299 and \<^verbatim>\<open>Failed to load dashboard\<close>
  when the network failed or a 2xx body was not JSON.
\<close>

theorem dashboard_shows_load_error:
  assumes "settle fr = Inl err" and "catch_message ''Failed to load dashboard'' err \<noteq> []"
  shows "dp_render (dp_fire (DSettled 0 fr) dp_init)
           = Inr (DError (catch_message ''Failed to load dashboard'' err))
    \<and> (fr = NetworkFailure \<longrightarrow> err = Thrown TypeError)
    \<and> (\<forall>r. fr = Responded r \<and> \<not> rs_ok r \<longrightarrow>
          err = ApiError (rs_status r) (js_to_string (error_detail r)))"
  using assms
  by (auto simp: dp_settled_failed dp_render_def dp_element_def dp_paint_def settle_def)

theorem dashboard_shows_load_error_witness:
  "dp_render (dp_fire (DSettled 0 (Responded \<lparr>rs_status = 404, rs_statusText = ''Not Found'',
       rs_json = Some (JObj [(''detail'', JStr ''No sessions for user 1'')])\<rparr>)) dp_init)
     = Inr (DError ''No sessions for user 1'')
   \<and> dp_render (dp_fire (DSettled 0 NetworkFailure) dp_init)
     = Inr (DError ''Failed to load dashboard'')"
proof -
  have a: "settle (Responded \<lparr>rs_status = 404, rs_statusText = ''Not Found'',
       rs_json = Some (JObj [(''detail'', JStr ''No sessions for user 1'')])\<rparr>)
     = Inl (ApiError 404 ''No sessions for user 1'')"
    by (simp add: settle_def rs_ok_def error_detail_def coalesce_def nullish_def)
  have b: "settle NetworkFailure = Inl (Thrown TypeError)" by (simp add: settle_def)
  from dashboard_shows_load_error [OF a] dashboard_shows_load_error [OF b] show ?thesis
    by simp
qed

text \<open>
  C35. An error whose message is empty is not shown: when the response has a
  status outside 200--299, an empty status text (as every HTTP/2 response
  has) and no usable \<^verbatim>\<open>detail\<close>, the \<^verbatim>\<open>ApiError\<close>'s message is the empty string,
  the test \<^verbatim>\<open>if (error)\<close> fails, and the page renders \<^verbatim>\<open>Loading dashboard...\<close> with no
  request in flight and no event enabled: it stays loading for ever.
\<close>

theorem dashboard_empty_error_stays_loading:
  assumes "\<not> rs_ok r" and "rs_statusText r = []"
    and "rs_json r = None \<or> (\<exists>v. rs_json r = Some v \<and> nullish v)"
  shows "dp_render (dp_fire (DSettled 0 (Responded r)) dp_init) = Inr DLoading
    \<and> dp_pending (dp_fire (DSettled 0 (Responded r)) dp_init) = []
    \<and> (\<forall>e. \<not> dp_enabled (dp_fire (DSettled 0 (Responded r)) dp_init) e)"
proof -
  from assms have "settle (Responded r) = Inl (ApiError (rs_status r) [])"
    by (auto simp: settle_def error_detail_def nullish_def)
  then have "dp_render (dp_fire (DSettled 0 (Responded r)) dp_init) = Inr DLoading"
    by (simp add: dp_settled_failed dp_render_def dp_element_def dp_paint_def)
  moreover have "\<not> dp_enabled (dp_fire (DSettled 0 (Responded r)) dp_init) e" for e
    by (cases e) simp
  ultimately show ?thesis by simp
qed

theorem dashboard_empty_error_stays_loading_witness:
  "dp_render (dp_fire (DSettled 0 (Responded \<lparr>rs_status = 502, rs_statusText = [],
       rs_json = None\<rparr>)) dp_init) = Inr DLoading"
  using dashboard_empty_error_stays_loading [of "\<lparr>rs_status = 502, rs_statusText = [],
       rs_json = None\<rparr>"]
  by (simp add: rs_ok_def)

text \<open>
  C39. Rendering can only fail on a body that is not a \<^verbatim>\<open>DashboardResponse\<close>:
  in every state, if rendering throws then no error is set and the
  data is a truthy value that does not read as a \<^verbatim>\<open>DashboardResponse\<close>. Such
  states exist, because a 2xx body is stored unchecked: the body \<^verbatim>\<open>{}\<close> makes
  rendering throw a \<^verbatim>\<open>TypeError\<close>, and the body \<^verbatim>\<open>null\<close> leaves the page loading
  with nothing in flight.
\<close>

theorem dashboard_render_fails_only_on_nonconforming_body:
  assumes "isl (dp_render s)"
  shows "dp_error s = [] \<and> truthy (dp_data s) \<and> DashboardResponse_of_js (dp_data s) = None"
proof -
  from assms have e: "dp_error s = []" and t: "truthy (dp_data s)"
    by (auto simp: dp_render_def dp_element_def dp_paint_def split: if_splits)
  have "DashboardResponse_of_js (dp_data s) = None"
  proof (rule ccontr)
    assume "DashboardResponse_of_js (dp_data s) \<noteq> None"
    then obtain d where "DashboardResponse_of_js (dp_data s) = Some d" by auto
    from dp_render_conforming [OF this e refl] assms show False by simp
  qed
  with e t show ?thesis by simp
qed

theorem dashboard_render_fails_only_on_nonconforming_body_witness:
  "dp_reach (dp_fire (DSettled 0 (Responded \<lparr>rs_status = 200, rs_statusText = ''OK'',
        rs_json = Some (JObj [])\<rparr>)) dp_init)
   \<and> dp_render (dp_fire (DSettled 0 (Responded \<lparr>rs_status = 200, rs_statusText = ''OK'',
        rs_json = Some (JObj [])\<rparr>)) dp_init) = Inl TypeError
   \<and> DashboardResponse_of_js (dp_data (dp_fire (DSettled 0 (Responded \<lparr>rs_status = 200,
        rs_statusText = ''OK'', rs_json = Some (JObj [])\<rparr>)) dp_init)) = None
   \<and> dp_render (dp_fire (DSettled 0 (Responded \<lparr>rs_status = 200, rs_statusText = ''OK'',
        rs_json = Some JNull\<rparr>)) dp_init) = Inr DLoading"
proof -
  have ok: "settle (Responded \<lparr>rs_status = 200, rs_statusText = ''OK'',
        rs_json = Some v\<rparr>) = Inr v" for v
    by (simp add: settle_def rs_ok_def)
  have r: "dp_reach (dp_fire (DSettled 0 (Responded \<lparr>rs_status = 200, rs_statusText = ''OK'',
        rs_json = Some (JObj [])\<rparr>)) dp_init)"
    by (rule dp_reach.dp_step [OF dp_reach.dp_start]) simp
  have empty: "dp_render (dp_fire (DSettled 0 (Responded \<lparr>rs_status = 200,
        rs_statusText = ''OK'', rs_json = Some (JObj [])\<rparr>)) dp_init) = Inl TypeError"
    by (simp add: dp_settled_ok [OF ok] dp_render_def dp_element_def)
  have null: "dp_render (dp_fire (DSettled 0 (Responded \<lparr>rs_status = 200,
        rs_statusText = ''OK'', rs_json = Some JNull\<rparr>)) dp_init) = Inr DLoading"
    by (simp add: dp_settled_ok [OF ok] dp_render_def dp_element_def dp_paint_def)
  from empty have "isl (dp_render (dp_fire (DSettled 0 (Responded \<lparr>rs_status = 200,
        rs_statusText = ''OK'', rs_json = Some (JObj [])\<rparr>)) dp_init))"
    by simp
  from dashboard_render_fails_only_on_nonconforming_body [OF this] r empty null
  show ?thesis by blast
qed

end
