(* ===== verification/LogSessionPage.thy ===== *)
theory LogSessionPage
  imports PageKit
begin

text \<open>
  The controller of \<^verbatim>\<open>src/web/src/pages/LogSessionPage.tsx\<close>, a draft-then-submit
  page. Its state is the three \<^verbatim>\<open>useState\<close> cells (\<open>lsp_metrics\<close>,
  \<open>lsp_exercises\<close>, \<open>lsp_message\<close>) and, for the model only, the requests that
  \<^verbatim>\<open>submit\<close> has issued and whose \<^verbatim>\<open>await\<close> has not returned (\<open>lsp_pending\<close>).

  Every handler is one definition; \<open>ls_fire\<close> dispatches an event to its
  handler and \<open>ls_enabled\<close> says which events the rendered page offers (an
  input exists for each entry of the metrics draft and for each exercise row;
  a response can only settle a request in flight). \<open>ls_reach\<close> is the set of
  states the page can be in.

  The typed reading of the draft is \<open>SessionInput_of_js (session_payload s)\<close>;
  \<open>typed_fire\<close> is the effect each event is meant to have on it.
\<close>

section \<open>State and handlers\<close>

datatype exercise_field = FExercise | FSets | FReps | FLoadKg | FRir

record log_session_page =
  lsp_metrics :: jsobj
  lsp_exercises :: "jsobj list"
  lsp_message :: string
  lsp_pending :: "http_request list"

datatype ls_event =
    EditMetric string string
  | EditExercise nat exercise_field string
  | AddExercise
  | Submit
  | Settled nat fetch_result

definition defaultMetrics :: "string \<Rightarrow> jsobj" where
  "defaultMetrics today =
     [(''date'', JStr today), (''sleep_hours'', JNat 7), (''resting_hr'', JNat 55),
      (''hrv_rmssd'', JNat 55), (''soreness'', JNat 3), (''motivation'', JNat 7),
      (''rpe_session'', JNat 7), (''duration_min'', JNat 60)]"

definition first_exercise :: jsobj where
  "first_exercise =
     [(''exercise'', JStr ''Squat''), (''sets'', JNat 4), (''reps'', JNat 5),
      (''load_kg'', JNat 100), (''rir'', JNat 2)]"

definition new_exercise :: jsobj where
  "new_exercise =
     [(''exercise'', JStr []), (''sets'', JNat 3), (''reps'', JNat 8),
      (''load_kg'', JNat 40), (''rir'', JNat 2)]"

definition ls_init :: "string \<Rightarrow> log_session_page" where
  "ls_init today =
     \<lparr>lsp_metrics = defaultMetrics today, lsp_exercises = [first_exercise],
      lsp_message = [], lsp_pending = []\<rparr>"

definition updateExercise :: "nat \<Rightarrow> jsobj \<Rightarrow> jsobj list \<Rightarrow> jsobj list" where
  "updateExercise index patch prev =
     mapi (\<lambda>i row. if i = index then obj_spread row patch else row) prev"

definition exercise_patch :: "exercise_field \<Rightarrow> string \<Rightarrow> jsobj" where
  "exercise_patch f raw =
     (case f of
        FExercise \<Rightarrow> [(''exercise'', JStr raw)]
      | FSets \<Rightarrow> [(''sets'', JNum (js_Number raw))]
      | FReps \<Rightarrow> [(''reps'', JNum (js_Number raw))]
      | FLoadKg \<Rightarrow> [(''load_kg'', JNum (js_Number raw))]
      | FRir \<Rightarrow> [(''rir'', JNum (js_Number raw))])"

definition addExercise :: "jsobj list \<Rightarrow> jsobj list" where
  "addExercise prev = prev @ [new_exercise]"

definition session_payload :: "log_session_page \<Rightarrow> jsval" where
  "session_payload s =
     JObj [(''user_id'', USER_ID), (''metrics'', JObj (lsp_metrics s)),
           (''exercises'', JArr (map JObj (lsp_exercises s)))]"

definition submit_message :: "thrown + jsval \<Rightarrow> string" where
  "submit_message outcome =
     (case outcome of
        Inr response \<Rightarrow>
          (case js_get response ''session_id'' of
             Inr sid \<Rightarrow> ''Session logged with ID '' @ js_to_string sid
           | Inl e \<Rightarrow> catch_message ''Failed to log session'' (Thrown e))
      | Inl err \<Rightarrow> catch_message ''Failed to log session'' err)"

definition ls_submit :: "log_session_page \<Rightarrow> log_session_page" where
  "ls_submit s = s\<lparr>lsp_pending := lsp_pending s @ [fst (logSession (session_payload s))]\<rparr>"

definition ls_settled :: "nat \<Rightarrow> fetch_result \<Rightarrow> log_session_page \<Rightarrow> log_session_page" where
  "ls_settled k fr s =
     s\<lparr>lsp_pending := remove_nth k (lsp_pending s),
       lsp_message := submit_message (snd (logSession (session_payload s)) fr)\<rparr>"

fun ls_fire :: "ls_event \<Rightarrow> log_session_page \<Rightarrow> log_session_page" where
  "ls_fire (EditMetric key raw) s = s\<lparr>lsp_metrics := setMetric key raw (lsp_metrics s)\<rparr>"
| "ls_fire (EditExercise i f raw) s =
     s\<lparr>lsp_exercises := updateExercise i (exercise_patch f raw) (lsp_exercises s)\<rparr>"
| "ls_fire AddExercise s = s\<lparr>lsp_exercises := addExercise (lsp_exercises s)\<rparr>"
| "ls_fire Submit s = ls_submit s"
| "ls_fire (Settled k fr) s = ls_settled k fr s"

fun ls_enabled :: "log_session_page \<Rightarrow> ls_event \<Rightarrow> bool" where
  "ls_enabled s (EditMetric key raw) = (key \<in> set (obj_keys (lsp_metrics s)))"
| "ls_enabled s (EditExercise i f raw) = (i < length (lsp_exercises s))"
| "ls_enabled s AddExercise = True"
| "ls_enabled s Submit = True"
| "ls_enabled s (Settled k fr) = (k < length (lsp_pending s))"

fun ls_run :: "ls_event list \<Rightarrow> log_session_page \<Rightarrow> log_session_page option" where
  "ls_run [] s = Some s"
| "ls_run (e # es) s = (if ls_enabled s e then ls_run es (ls_fire e s) else None)"

inductive ls_reach :: "string \<Rightarrow> log_session_page \<Rightarrow> bool" for today where
  ls_start: "ls_reach today (ls_init today)"
| ls_step: "ls_reach today s \<Longrightarrow> ls_enabled s e \<Longrightarrow> ls_reach today (ls_fire e s)"

section \<open>View\<close>

record exercise_row_view =
  rv_key :: string
  rv_cells :: "jsval list"

record log_session_view =
  lv_inputs :: "form_input list"
  lv_rows :: "exercise_row_view list"
  lv_message :: "string option"

definition exercise_keys :: "string list" where
  "exercise_keys = [''exercise'', ''sets'', ''reps'', ''load_kg'', ''rir'']"

definition exercise_row :: "nat \<Rightarrow> jsobj \<Rightarrow> exercise_row_view" where
  "exercise_row index row =
     \<lparr>rv_key = js_to_string (field_of row ''exercise'') @ ''-'' @ nat_digits index,
      rv_cells = map (field_of row) exercise_keys\<rparr>"

definition ls_render :: "log_session_page \<Rightarrow> log_session_view" where
  "ls_render s =
     \<lparr>lv_inputs = metric_inputs (lsp_metrics s),
      lv_rows = mapi exercise_row (lsp_exercises s),
      lv_message = (if lsp_message s \<noteq> [] then Some (lsp_message s) else None)\<rparr>"

section \<open>Typed reading\<close>

definition typed_patch :: "exercise_field \<Rightarrow> string \<Rightarrow> ExerciseLog \<Rightarrow> ExerciseLog" where
  "typed_patch f raw e =
     (case f of
        FExercise \<Rightarrow> e\<lparr>el_exercise := raw\<rparr>
      | FSets \<Rightarrow> e\<lparr>el_sets := js_Number raw\<rparr>
      | FReps \<Rightarrow> e\<lparr>el_reps := js_Number raw\<rparr>
      | FLoadKg \<Rightarrow> e\<lparr>el_load_kg := js_Number raw\<rparr>
      | FRir \<Rightarrow> e\<lparr>el_rir := js_Number raw\<rparr>)"

definition typed_new_exercise :: ExerciseLog where
  "typed_new_exercise =
     \<lparr>el_exercise = [], el_sets = Fin 3, el_reps = Fin 8, el_load_kg = Fin 40, el_rir = Fin 2\<rparr>"

fun typed_fire :: "ls_event \<Rightarrow> SessionInput \<Rightarrow> SessionInput" where
  "typed_fire (EditMetric key raw) i = i\<lparr>si_metrics := typed_setMetric key raw (si_metrics i)\<rparr>"
| "typed_fire (EditExercise k f raw) i =
     i\<lparr>si_exercises := (si_exercises i)[k := typed_patch f raw (si_exercises i ! k)]\<rparr>"
| "typed_fire AddExercise i = i\<lparr>si_exercises := si_exercises i @ [typed_new_exercise]\<rparr>"
| "typed_fire Submit i = i"
| "typed_fire (Settled k fr) i = i"

definition row_ok :: "jsobj \<Rightarrow> bool" where
  "row_ok row = (obj_keys row = exercise_keys \<and> ExerciseLog_of_js (JObj row) \<noteq> None)"

definition ls_inv :: "log_session_page \<Rightarrow> bool" where
  "ls_inv s = (metrics_ok (lsp_metrics s) \<and> list_all row_ok (lsp_exercises s)
               \<and> lsp_exercises s \<noteq> [])"

lemmas ls_defs [js_defs] =
  defaultMetrics_def first_exercise_def new_exercise_def ls_init_def updateExercise_def
  exercise_patch_def addExercise_def session_payload_def submit_message_def ls_submit_def
  ls_settled_def exercise_keys_def exercise_row_def ls_render_def

section \<open>Editing rows\<close>

lemma updateExercise_list_update:
  "updateExercise i patch rows =
     (if i < length rows then rows[i := obj_spread (rows ! i) patch] else rows)"
  by (simp add: updateExercise_def mapi_update)

lemma length_updateExercise [simp, shape]: "length (updateExercise i patch rows) = length rows"
  by (simp add: updateExercise_def)

lemma updateExercise_other [frame]:
  "j \<noteq> i \<Longrightarrow> j < length rows \<Longrightarrow> updateExercise i patch rows ! j = rows ! j"
  by (simp add: updateExercise_def)

lemma updateExercise_same:
  "i < length rows \<Longrightarrow> updateExercise i patch rows ! i = obj_spread (rows ! i) patch"
  by (simp add: updateExercise_def)

lemma updateExercise_Nil_iff [simp]: "updateExercise i patch rows = [] \<longleftrightarrow> rows = []"
  using length_updateExercise [of i patch rows] by (metis length_0_conv)

lemma exercise_patch_single: "\<exists>k v. exercise_patch f raw = [(k, v)] \<and> k \<in> set exercise_keys"
  by (cases f) (simp_all add: exercise_patch_def exercise_keys_def)

lemma distinct_exercise_keys [simp]: "distinct exercise_keys"
  by (simp add: exercise_keys_def)

lemma patch_keys [shape]:
  "obj_keys row = exercise_keys \<Longrightarrow> obj_keys (obj_spread row (exercise_patch f raw)) = exercise_keys"
  using exercise_patch_single [of f raw] by auto

lemma patch_refines:
  assumes "ExerciseLog_of_js (JObj row) = Some e"
  shows "ExerciseLog_of_js (JObj (obj_spread row (exercise_patch f raw))) = Some (typed_patch f raw e)"
  using assms
  by (cases f)
    (simp_all add: exercise_patch_def typed_patch_def ExerciseLog_of_js_iff num_at_obj_set
      str_at_obj_set)

lemma row_ok_patch: "row_ok row \<Longrightarrow> row_ok (obj_spread row (exercise_patch f raw))"
  by (auto simp: row_ok_def patch_keys patch_refines)

lemma row_ok_new [simp]: "row_ok new_exercise"
  by (simp add: row_ok_def new_exercise_def exercise_keys_def ExerciseLog_of_js_iff [of _ typed_new_exercise, THEN iffD2] typed_new_exercise_def num_at_def str_at_def)


lemma row_ok_first [simp]: "row_ok first_exercise"
  by (simp add: row_ok_def first_exercise_def exercise_keys_def ExerciseLog_of_js_def
      reader_defs)

lemma metrics_ok_default [simp]: "metrics_ok (defaultMetrics today)"
  by (simp add: metrics_ok_def defaultMetrics_def metric_keys_def SessionMetrics_of_js_def
      reader_defs)

lemma row_ok_distinct: "row_ok row \<Longrightarrow> distinct (obj_keys row)"
  by (simp add: row_ok_def)

lemma list_all_row_ok_update:
  "list_all row_ok rows \<Longrightarrow> list_all row_ok (updateExercise i (exercise_patch f raw) rows)"
  by (auto simp: updateExercise_list_update list_all_length nth_list_update row_ok_patch)

lemma ls_inv_init [simp]: "ls_inv (ls_init today)"
  by (simp add: ls_inv_def ls_init_def)

lemma ls_submit_sel [simp]:
  "lsp_metrics (ls_submit s) = lsp_metrics s"
  "lsp_exercises (ls_submit s) = lsp_exercises s"
  "lsp_message (ls_submit s) = lsp_message s"
  "lsp_pending (ls_submit s) = lsp_pending s @ [fst (logSession (session_payload s))]"
  by (simp_all add: ls_submit_def)

lemma ls_settled_sel [simp]:
  "lsp_metrics (ls_settled k fr s) = lsp_metrics s"
  "lsp_exercises (ls_settled k fr s) = lsp_exercises s"
  "lsp_message (ls_settled k fr s) = submit_message (settle fr)"
  "lsp_pending (ls_settled k fr s) = remove_nth k (lsp_pending s)"
  by (simp_all add: ls_settled_def logSession_def request_def)

lemma session_payload_cong:
  "lsp_metrics t = lsp_metrics s \<Longrightarrow> lsp_exercises t = lsp_exercises s \<Longrightarrow>
     session_payload t = session_payload s"
  by (simp add: session_payload_def)

lemma ls_inv_fire: "ls_inv s \<Longrightarrow> ls_enabled s e \<Longrightarrow> ls_inv (ls_fire e s)"
proof (cases e)
  case (EditMetric key raw)
  assume inv: "ls_inv s" and "ls_enabled s e"
  with EditMetric have "key \<in> set metric_keys"
    by (simp add: ls_inv_def metrics_ok_def)
  with inv have "metrics_ok (setMetric key raw (lsp_metrics s))"
    by (simp add: ls_inv_def metrics_ok_setMetric)
  with inv EditMetric show ?thesis
    by (simp add: ls_inv_def)
next
  case (EditExercise i f raw)
  assume "ls_inv s" "ls_enabled s e"
  with EditExercise show ?thesis
    by (simp add: ls_inv_def list_all_row_ok_update)
next
  case AddExercise
  assume "ls_inv s" "ls_enabled s e"
  with AddExercise show ?thesis
    by (simp add: ls_inv_def addExercise_def)
qed (simp_all add: ls_inv_def)

lemma ls_reach_inv: "ls_reach today s \<Longrightarrow> ls_inv s"
  by (induction rule: ls_reach.induct) (simp_all add: ls_inv_fire)

lemma payload_reading:
  "SessionInput_of_js (session_payload s) = Some i \<longleftrightarrow>
     si_user_id i = Fin 1 \<and>
     SessionMetrics_of_js (JObj (lsp_metrics s)) = Some (si_metrics i) \<and>
     those (map (ExerciseLog_of_js \<circ> JObj) (lsp_exercises s)) = Some (si_exercises i)"
  by (cases i)
    (auto simp: SessionInput_of_js_def session_payload_def USER_ID_def reader_defs
      bind_eq_Some_conv)

lemma rows_reading_update:
  assumes "those (map (ExerciseLog_of_js \<circ> JObj) rows) = Some es"
  shows "those (map (ExerciseLog_of_js \<circ> JObj) (updateExercise k (exercise_patch f raw) rows))
         = Some (es[k := typed_patch f raw (es ! k)])"
proof (cases "k < length rows")
  case True
  from assms True have "ExerciseLog_of_js (JObj (rows ! k)) = Some (es ! k)"
    using those_eq_Some_nth [of "map (ExerciseLog_of_js \<circ> JObj) rows" es k] by simp
  then have "ExerciseLog_of_js (JObj (obj_spread (rows ! k) (exercise_patch f raw)))
             = Some (typed_patch f raw (es ! k))"
    by (rule patch_refines)
  with assms True show ?thesis
    by (simp add: updateExercise_list_update map_update those_list_update)
next
  case False
  moreover from assms have "length es = length rows"
    using those_eq_Some_length [of "map (ExerciseLog_of_js \<circ> JObj) rows" es] by simp
  ultimately have "es[k := typed_patch f raw (es ! k)] = es"
    by (simp add: list_update_beyond)
  with False assms show ?thesis
    by (simp add: updateExercise_list_update)
qed

lemma new_exercise_reading [simp]: "ExerciseLog_of_js (JObj new_exercise) = Some typed_new_exercise"
  by (simp add: new_exercise_def typed_new_exercise_def ExerciseLog_of_js_def reader_defs)

lemma ls_fire_refines:
  assumes "ls_inv s" and "ls_enabled s e"
    and "SessionInput_of_js (session_payload s) = Some i"
  shows "SessionInput_of_js (session_payload (ls_fire e s)) = Some (typed_fire e i)"
proof (cases e)
  case (EditMetric key raw)
  from assms(1) have "distinct (obj_keys (lsp_metrics s))" "obj_keys (lsp_metrics s) = metric_keys"
    by (simp_all add: ls_inv_def metrics_ok_def)
  with assms(2,3) EditMetric show ?thesis
    by (simp add: payload_reading setMetric_refines)
next
  case (EditExercise k f raw)
  with assms(3) show ?thesis
    by (simp add: payload_reading rows_reading_update)
next
  case AddExercise
  with assms(3) show ?thesis
    by (simp add: payload_reading addExercise_def those_append)
next
  case Submit
  with assms(3) show ?thesis by (simp add: payload_reading)
next
  case (Settled k fr)
  with assms(3) show ?thesis by (simp add: payload_reading)
qed

lemma ls_inv_conforms: "ls_inv s \<Longrightarrow> \<exists>i. SessionInput_of_js (session_payload s) = Some i"
proof -
  assume inv: "ls_inv s"
  then obtain m where m: "SessionMetrics_of_js (JObj (lsp_metrics s)) = Some m"
    by (auto simp: ls_inv_def metrics_ok_def)
  from inv have "list_all (\<lambda>x. x \<noteq> None) (map (ExerciseLog_of_js \<circ> JObj) (lsp_exercises s))"
    by (auto simp: ls_inv_def list_all_iff row_ok_def)
  then obtain es where "those (map (ExerciseLog_of_js \<circ> JObj) (lsp_exercises s)) = Some es"
    using those_all_Some by blast
  with m have "SessionInput_of_js (session_payload s)
      = Some \<lparr>si_user_id = Fin 1, si_metrics = m, si_exercises = es\<rparr>"
    by (simp add: payload_reading)
  then show ?thesis ..
qed


section \<open>Requests in flight\<close>

definition is_settle :: "ls_event \<Rightarrow> bool" where
  "is_settle e = (case e of Settled k fr \<Rightarrow> True | _ \<Rightarrow> False)"

lemma ls_fire_keeps_pending_prefix:
  "\<not> is_settle e \<Longrightarrow> take (length (lsp_pending s)) (lsp_pending (ls_fire e s)) = lsp_pending s"
  by (cases e) (simp_all add: is_settle_def)

lemma ls_run_keeps_pending_prefix:
  "ls_run es s = Some t \<Longrightarrow> list_all (\<lambda>e. \<not> is_settle e) es \<Longrightarrow>
     take (length (lsp_pending s)) (lsp_pending t) = lsp_pending s"
proof (induction es arbitrary: s)
  case Nil
  then show ?case by simp
next
  case (Cons e es)
  from Cons.prems have run: "ls_run es (ls_fire e s) = Some t"
    and e: "\<not> is_settle e" and es: "list_all (\<lambda>e. \<not> is_settle e) es"
    by (auto split: if_splits)
  let ?s' = "ls_fire e s"
  from e have step: "take (length (lsp_pending s)) (lsp_pending ?s') = lsp_pending s"
    by (rule ls_fire_keeps_pending_prefix)
  then have le: "length (lsp_pending s) \<le> length (lsp_pending ?s')"
    by (metis length_take min.cobounded1 min.commute)
  from Cons.IH [OF run es] have "take (length (lsp_pending ?s')) (lsp_pending t) = lsp_pending ?s'" .
  then have "take (length (lsp_pending s)) (lsp_pending t)
             = take (length (lsp_pending s)) (lsp_pending ?s')"
    using le by (metis min.absorb1 take_take)
  with step show ?case by simp
qed

lemma ls_run_reach: "ls_reach today s \<Longrightarrow> ls_run es s = Some t \<Longrightarrow> ls_reach today t"
proof (induction es arbitrary: s)
  case Nil
  then show ?case by simp
next
  case (Cons e es)
  then show ?case by (auto split: if_splits intro: ls_reach.ls_step)
qed

lemma submit_message_cases:
  "submit_message (settle fr) =
     (case fr of
        NetworkFailure \<Rightarrow> ''Failed to log session''
      | Responded r \<Rightarrow>
          if \<not> rs_ok r then js_to_string (error_detail r)
          else (case rs_json r of
                  None \<Rightarrow> ''Failed to log session''
                | Some v \<Rightarrow>
                    if nullish v then ''Failed to log session''
                    else ''Session logged with ID '' @ js_to_string (projr (js_get v ''session_id''))))"
proof (cases fr)
  case NetworkFailure
  then show ?thesis by (simp add: submit_message_def)
next
  case (Responded r)
  show ?thesis
  proof (cases "rs_json r")
    case None
    with Responded show ?thesis by (simp add: submit_message_def settle_def)
  next
    case (Some v)
    with Responded show ?thesis
      by (cases v) (simp_all add: submit_message_def settle_def)
  qed
qed

text \<open>
  The React key of a row is built from the exercise name and the position, so
  editing the name of row \<open>i\<close> gives that row the key of the new name.
\<close>

lemma row_key_follows_name:
  "rv_key (exercise_row i (obj_spread row (exercise_patch FExercise raw)))
     = raw @ ''-'' @ nat_digits i"
  by (simp add: exercise_row_def exercise_patch_def field_of_def)

section \<open>Properties\<close>

text \<open>
  C3. Type invariant of the draft: in every state the page can reach, by any
  sequence of edits, added rows, submissions and responses, the payload
  \<^verbatim>\<open>{ user_id, metrics, exercises }\<close> conforms to \<^verbatim>\<open>SessionInput\<close>: the user id
  is 1, the metrics object has exactly the eight fields of \<^verbatim>\<open>SessionMetrics\<close> in
  declaration order with a string date and numeric values, every exercise
  row has exactly the five fields of \<^verbatim>\<open>ExerciseLog\<close>, and the list of rows is
  never empty.
\<close>

theorem ls_draft_always_conforms:
  assumes "ls_reach today s"
  shows "\<exists>i. SessionInput_of_js (session_payload s) = Some i \<and> si_user_id i = Fin 1
           \<and> si_exercises i \<noteq> []
           \<and> obj_keys (lsp_metrics s) = metric_keys
           \<and> list_all (\<lambda>row. obj_keys row = exercise_keys) (lsp_exercises s)"
proof -
  from assms have inv: "ls_inv s" by (rule ls_reach_inv)
  then obtain i where i: "SessionInput_of_js (session_payload s) = Some i"
    using ls_inv_conforms by blast
  then have rows: "those (map (ExerciseLog_of_js \<circ> JObj) (lsp_exercises s)) = Some (si_exercises i)"
    and uid: "si_user_id i = Fin 1"
    by (simp_all add: payload_reading)
  from rows have "length (si_exercises i) = length (lsp_exercises s)"
    using those_eq_Some_length by fastforce
  with inv have "si_exercises i \<noteq> []"
    by (auto simp: ls_inv_def)
  moreover from inv have "obj_keys (lsp_metrics s) = metric_keys"
    "list_all (\<lambda>row. obj_keys row = exercise_keys) (lsp_exercises s)"
    by (auto simp: ls_inv_def metrics_ok_def row_ok_def list_all_iff)
  ultimately show ?thesis using i uid by blast
qed

theorem ls_draft_always_conforms_witness:
  "ls_reach ''2024-05-01'' (ls_fire AddExercise (ls_init ''2024-05-01''))
   \<and> (\<exists>i. SessionInput_of_js (session_payload (ls_fire AddExercise (ls_init ''2024-05-01'')))
            = Some i \<and> si_user_id i = Fin 1 \<and> si_exercises i \<noteq> []
        \<and> obj_keys (lsp_metrics (ls_fire AddExercise (ls_init ''2024-05-01''))) = metric_keys
        \<and> list_all (\<lambda>row. obj_keys row = exercise_keys)
             (lsp_exercises (ls_fire AddExercise (ls_init ''2024-05-01''))))"
proof -
  have r: "ls_reach ''2024-05-01'' (ls_fire AddExercise (ls_init ''2024-05-01''))"
    by (rule ls_reach.ls_step [OF ls_reach.ls_start]) simp
  from r ls_draft_always_conforms [OF r] show ?thesis by blast
qed

text \<open>
  C4. Refinement of the typed draft: every event the page offers acts on the
  typed reading of the draft as the corresponding typed update. Editing a
  metric through the generic, reflective handler updates exactly the record
  field of that name; editing a field of row \<open>k\<close> updates that field of the
  \<open>k\<close>-th \<^verbatim>\<open>ExerciseLog\<close>; adding a row appends the default
  \<^verbatim>\<open>{ exercise: "", sets: 3, reps: 8, load_kg: 40, rir: 2 }\<close>; submitting and
  receiving a response leave the draft as it is.
\<close>

theorem ls_fire_implements_typed_edit:
  assumes "ls_reach today s" and "ls_enabled s e"
    and "SessionInput_of_js (session_payload s) = Some i"
  shows "SessionInput_of_js (session_payload (ls_fire e s)) = Some (typed_fire e i)"
  using assms by (simp add: ls_fire_refines ls_reach_inv)

theorem ls_fire_implements_typed_edit_witness:
  "ls_reach ''2024-05-01'' (ls_init ''2024-05-01'')
   \<and> ls_enabled (ls_init ''2024-05-01'') (EditExercise 0 FLoadKg ''102.5'')
   \<and> SessionInput_of_js (session_payload (ls_fire (EditExercise 0 FLoadKg ''102.5'')
        (ls_init ''2024-05-01'')))
     = Some \<lparr>si_user_id = Fin 1,
          si_metrics = \<lparr>sm_date = ''2024-05-01'', sm_sleep_hours = Fin 7, sm_resting_hr = Fin 55,
            sm_hrv_rmssd = Fin 55, sm_soreness = Fin 3, sm_motivation = Fin 7,
            sm_rpe_session = Fin 7, sm_duration_min = Fin 60\<rparr>,
          si_exercises = [\<lparr>el_exercise = ''Squat'', el_sets = Fin 4, el_reps = Fin 5,
            el_load_kg = Fin (205 / 2), el_rir = Fin 2\<rparr>]\<rparr>"
proof -
  have r: "ls_reach ''2024-05-01'' (ls_init ''2024-05-01'')" by (rule ls_reach.ls_start)
  have en: "ls_enabled (ls_init ''2024-05-01'') (EditExercise 0 FLoadKg ''102.5'')"
    by (simp add: ls_init_def)
  have i: "SessionInput_of_js (session_payload (ls_init ''2024-05-01''))
     = Some \<lparr>si_user_id = Fin 1,
          si_metrics = \<lparr>sm_date = ''2024-05-01'', sm_sleep_hours = Fin 7, sm_resting_hr = Fin 55,
            sm_hrv_rmssd = Fin 55, sm_soreness = Fin 3, sm_motivation = Fin 7,
            sm_rpe_session = Fin 7, sm_duration_min = Fin 60\<rparr>,
          si_exercises = [\<lparr>el_exercise = ''Squat'', el_sets = Fin 4, el_reps = Fin 5,
            el_load_kg = Fin 100, el_rir = Fin 2\<rparr>]\<rparr>"
    by (simp add: payload_reading ls_init_def defaultMetrics_def first_exercise_def
        SessionMetrics_of_js_def ExerciseLog_of_js_def reader_defs)
  have n: "js_Number ''102.5'' = Fin (205 / 2)"
    by (simp add: js_defs)
  from ls_fire_implements_typed_edit [OF r en i] r en show ?thesis
    by (simp add: typed_patch_def n)
qed



text \<open>
  C5. A submission is a snapshot: pressing submit in a reachable state whose
  draft holds only finite numbers issues \<^verbatim>\<open>POST /api/log-session\<close> with the JSON
  content type and, as body, \<^verbatim>\<open>user_id: 1\<close> with the metrics and the exercise rows
  of the draft at that moment, untransformed; that request stays as it is
  whatever the user does afterwards (further edits, added rows, further
  submissions) until its response arrives.
\<close>

theorem submit_sends_draft_snapshot:
  assumes "ls_reach today s" and "is_json (session_payload s)"
    and "ls_run es (ls_fire Submit s) = Some t"
    and "list_all (\<lambda>e. \<not> is_settle e) es"
  shows "lsp_pending t ! length (lsp_pending s) =
           \<lparr>rq_url = ''/api/log-session'', rq_method = ''POST'',
            rq_headers = [(''Content-Type'', ''application/json'')],
            rq_body = Some (JObj [(''user_id'', JNat 1), (''metrics'', JObj (lsp_metrics s)),
                                  (''exercises'', JArr (map JObj (lsp_exercises s)))])\<rparr>"
proof -
  have sp: "JObj [(''user_id'', JNat 1), (''metrics'', JObj (lsp_metrics s)),
                  (''exercises'', JArr (map JObj (lsp_exercises s)))] = session_payload s"
    by (simp add: session_payload_def USER_ID_def)
  let ?p = "lsp_pending (ls_fire Submit s)"
  from assms(3,4) have "take (length ?p) (lsp_pending t) = ?p"
    by (rule ls_run_keeps_pending_prefix)
  then have "lsp_pending t ! length (lsp_pending s) = ?p ! length (lsp_pending s)"
    by (metis ls_fire.simps(4) ls_submit_sel(4) length_append_singleton lessI nth_take)
  with assms(2) show ?thesis unfolding sp
    by (simp add: logSession_def request_def json_value_id default_headers_def)
qed

theorem submit_sends_draft_snapshot_witness:
  "ls_reach ''2024-05-01'' (ls_init ''2024-05-01'')
   \<and> is_json (session_payload (ls_init ''2024-05-01''))
   \<and> ls_run [EditMetric ''soreness'' ''9'', AddExercise, Submit]
        (ls_fire Submit (ls_init ''2024-05-01''))
       = Some (ls_fire Submit (ls_fire AddExercise (ls_fire (EditMetric ''soreness'' ''9'')
                 (ls_fire Submit (ls_init ''2024-05-01'')))))
   \<and> rq_body (lsp_pending (ls_fire Submit (ls_fire AddExercise
        (ls_fire (EditMetric ''soreness'' ''9'') (ls_fire Submit (ls_init ''2024-05-01'')))))
        ! length (lsp_pending (ls_init ''2024-05-01'')))
       = Some (session_payload (ls_init ''2024-05-01''))"
proof -
  have r: "ls_reach ''2024-05-01'' (ls_init ''2024-05-01'')" by (rule ls_reach.ls_start)
  have j: "is_json (session_payload (ls_init ''2024-05-01''))"
    by (simp add: session_payload_def ls_init_def defaultMetrics_def first_exercise_def
        USER_ID_def)
  have run: "ls_run [EditMetric ''soreness'' ''9'', AddExercise, Submit]
        (ls_fire Submit (ls_init ''2024-05-01''))
       = Some (ls_fire Submit (ls_fire AddExercise (ls_fire (EditMetric ''soreness'' ''9'')
                 (ls_fire Submit (ls_init ''2024-05-01'')))))"
    by (simp add: ls_init_def defaultMetrics_def)
  have ns: "list_all (\<lambda>e. \<not> is_settle e) [EditMetric ''soreness'' ''9'', AddExercise, Submit]"
    by (simp add: is_settle_def)
  from submit_sends_draft_snapshot [OF r j run ns] r j run show ?thesis
    by (simp add: session_payload_def USER_ID_def)
qed

text \<open>
  C9. Outcome of a submission, on every branch: when the response of a
  request in flight arrives, the draft (metrics and exercise rows) is left
  untouched, whether the submission succeeded or failed; the request leaves
  the set of requests in flight; and the message becomes
  \<^verbatim>\<open>Session logged with ID <session_id>\<close> for a 2xx response with a JSON body
  other than \<^verbatim>\<open>null\<close>, the \<^verbatim>\<open>ApiError\<close>'s message for a response outside
  200--299, and \<^verbatim>\<open>Failed to log session\<close> when the network failed, when a 2xx
  body is not JSON and when a 2xx body is \<^verbatim>\<open>null\<close>.
\<close>

theorem submit_outcome:
  "ls_fire (Settled k fr) s =
     s\<lparr>lsp_pending := remove_nth k (lsp_pending s),
       lsp_message :=
         (case fr of
            NetworkFailure \<Rightarrow> ''Failed to log session''
          | Responded r \<Rightarrow>
              if \<not> rs_ok r then js_to_string (error_detail r)
              else (case rs_json r of
                      None \<Rightarrow> ''Failed to log session''
                    | Some v \<Rightarrow>
                        if nullish v then ''Failed to log session''
                        else ''Session logged with ID '' @
                             js_to_string (projr (js_get v ''session_id''))))\<rparr>"
  using submit_message_cases [of fr]
  by (simp add: ls_settled_def logSession_def request_def)

text \<open>
  C38. Submission is not guarded, and the last response to arrive wins: from
  any reachable state the user can submit twice without waiting, which puts
  two more requests in flight; if their responses arrive in the order of
  submission the page ends up showing the outcome of the second, and if they
  arrive in the opposite order it ends up showing the outcome of the first.
\<close>

theorem double_submit_last_arrival_wins:
  assumes "ls_reach today s"
  shows "ls_reach today (ls_fire Submit (ls_fire Submit s))
    \<and> length (lsp_pending (ls_fire Submit (ls_fire Submit s))) = length (lsp_pending s) + 2
    \<and> (\<exists>t. ls_run [Settled (length (lsp_pending s)) a, Settled (length (lsp_pending s)) b]
              (ls_fire Submit (ls_fire Submit s)) = Some t
          \<and> lsp_message t = submit_message (settle b))
    \<and> (\<exists>t. ls_run [Settled (Suc (length (lsp_pending s))) b, Settled (length (lsp_pending s)) a]
              (ls_fire Submit (ls_fire Submit s)) = Some t
          \<and> lsp_message t = submit_message (settle a))"
proof -
  have "ls_reach today (ls_fire Submit (ls_fire Submit s))"
    by (intro ls_reach.ls_step assms) simp_all
  then show ?thesis by simp
qed

theorem double_submit_last_arrival_wins_witness:
  "ls_reach ''2024-05-01'' (ls_init ''2024-05-01'')
   \<and> (\<exists>t. ls_run [Settled 1 (Responded \<lparr>rs_status = 200, rs_statusText = ''OK'',
                          rs_json = Some (JObj [(''session_id'', JNat 43)])\<rparr>),
                  Settled 0 (Responded \<lparr>rs_status = 200, rs_statusText = ''OK'',
                          rs_json = Some (JObj [(''session_id'', JNat 42)])\<rparr>)]
              (ls_fire Submit (ls_fire Submit (ls_init ''2024-05-01''))) = Some t
          \<and> lsp_message t = ''Session logged with ID 42'')"
proof -
  have r: "ls_reach ''2024-05-01'' (ls_init ''2024-05-01'')" by (rule ls_reach.ls_start)
  have m: "submit_message (settle (Responded \<lparr>rs_status = 200, rs_statusText = ''OK'',
             rs_json = Some (JObj [(''session_id'', JNat 42)])\<rparr>)) = ''Session logged with ID 42''"
    by (simp add: submit_message_def settle_def rs_ok_def digit_char_def)
  have n: "length (lsp_pending (ls_init ''2024-05-01'')) = 0" by (simp add: ls_init_def)
  from double_submit_last_arrival_wins [OF r,
      of "Responded \<lparr>rs_status = 200, rs_statusText = ''OK'',
             rs_json = Some (JObj [(''session_id'', JNat 42)])\<rparr>"
         "Responded \<lparr>rs_status = 200, rs_statusText = ''OK'',
             rs_json = Some (JObj [(''session_id'', JNat 43)])\<rparr>"]
  show ?thesis unfolding n m using r by simp
qed

text \<open>
  The message changes only when a response arrives: no edit, no added
  row and no new submission clears or replaces it. After a submission has
  succeeded or failed, its message therefore stays on the page while the
  user edits the draft and while a new submission is in flight.
\<close>

theorem message_survives_edits_and_submit:
  assumes "ls_run es s = Some t" and "list_all (\<lambda>e. \<not> is_settle e) es"
  shows "lsp_message t = lsp_message s
    \<and> lv_message (ls_render t) = lv_message (ls_render s)"
proof -
  have "ls_run es s = Some t \<Longrightarrow> list_all (\<lambda>e. \<not> is_settle e) es \<Longrightarrow>
        lsp_message t = lsp_message s"
  proof (induction es arbitrary: s)
    case Nil
    then show ?case by simp
  next
    case (Cons e es)
    from Cons.prems have "ls_run es (ls_fire e s) = Some t" "list_all (\<lambda>e. \<not> is_settle e) es"
      and "\<not> is_settle e"
      by (auto split: if_splits)
    moreover from \<open>\<not> is_settle e\<close> have "lsp_message (ls_fire e s) = lsp_message s"
      by (cases e) (simp_all add: is_settle_def)
    ultimately show ?case using Cons.IH by metis
  qed
  with assms show ?thesis by (simp add: ls_render_def)
qed

theorem message_survives_edits_and_submit_witness:
  "ls_run [EditMetric ''soreness'' ''5'', Submit]
     (ls_fire (Settled 0 NetworkFailure) (ls_fire Submit (ls_init ''2024-05-01'')))
   = Some (ls_fire Submit (ls_fire (EditMetric ''soreness'' ''5'')
       (ls_fire (Settled 0 NetworkFailure) (ls_fire Submit (ls_init ''2024-05-01'')))))
   \<and> lv_message (ls_render (ls_fire Submit (ls_fire (EditMetric ''soreness'' ''5'')
       (ls_fire (Settled 0 NetworkFailure) (ls_fire Submit (ls_init ''2024-05-01''))))))
     = Some ''Failed to log session''"
proof -
  have run: "ls_run [EditMetric ''soreness'' ''5'', Submit]
     (ls_fire (Settled 0 NetworkFailure) (ls_fire Submit (ls_init ''2024-05-01'')))
   = Some (ls_fire Submit (ls_fire (EditMetric ''soreness'' ''5'')
       (ls_fire (Settled 0 NetworkFailure) (ls_fire Submit (ls_init ''2024-05-01'')))))"
    by (simp add: ls_init_def defaultMetrics_def)
  have ns: "list_all (\<lambda>e. \<not> is_settle e) [EditMetric ''soreness'' ''5'', Submit]"
    by (simp add: is_settle_def)
  have "lv_message (ls_render (ls_fire (Settled 0 NetworkFailure)
          (ls_fire Submit (ls_init ''2024-05-01'')))) = Some ''Failed to log session''"
    by (simp add: ls_render_def submit_message_def)
  with message_survives_edits_and_submit [OF run ns] run show ?thesis
    by simp
qed

text \<open>
  C28. The generic metrics form is exhaustive and typed by field name: in
  every reachable state it shows exactly one input per field of
  \<^verbatim>\<open>SessionMetrics\<close>, in declaration order, labelled with the field name and
  holding the draft's value; the input of \<^verbatim>\<open>date\<close> is a date picker and the
  seven others are numeric inputs.
\<close>

theorem metrics_form_is_exhaustive:
  assumes "ls_reach today s"
  shows "map in_label (lv_inputs (ls_render s)) = metric_keys
    \<and> map in_type (lv_inputs (ls_render s)) = ''date'' # replicate 7 ''number''
    \<and> map in_value (lv_inputs (ls_render s)) = map snd (lsp_metrics s)"
proof -
  from assms have keys: "map fst (lsp_metrics s) = metric_keys"
    using ls_reach_inv [of today s] by (simp add: ls_inv_def metrics_ok_def obj_keys_def)
  have "map in_type (metric_inputs (lsp_metrics s)) =
      map (\<lambda>k. if k = ''date'' then ''date'' else ''number'') (map fst (lsp_metrics s))"
    by (simp add: metric_inputs_def case_prod_unfold)
  also have "\<dots> = ''date'' # replicate 7 ''number''"
    unfolding keys by (simp add: metric_keys_def numeral_eq_Suc)
  finally have types:
    "map in_type (metric_inputs (lsp_metrics s)) = ''date'' # replicate 7 ''number''" .
  have "map in_value (metric_inputs ps) = map snd ps" for ps
    by (simp add: metric_inputs_def case_prod_unfold)
  with keys types show ?thesis
    by (simp add: ls_render_def obj_keys_def)
qed

theorem metrics_form_is_exhaustive_witness:
  "ls_reach ''2024-05-01'' (ls_fire (EditMetric ''date'' ''2024-05-02'') (ls_init ''2024-05-01''))
   \<and> map in_label (lv_inputs (ls_render
        (ls_fire (EditMetric ''date'' ''2024-05-02'') (ls_init ''2024-05-01'')))) = metric_keys
   \<and> map in_value (lv_inputs (ls_render
        (ls_fire (EditMetric ''date'' ''2024-05-02'') (ls_init ''2024-05-01''))))
     = [JStr ''2024-05-02'', JNat 7, JNat 55, JNat 55, JNat 3, JNat 7, JNat 7, JNat 60]"
proof -
  have r: "ls_reach ''2024-05-01''
      (ls_fire (EditMetric ''date'' ''2024-05-02'') (ls_init ''2024-05-01''))"
    by (rule ls_reach.ls_step [OF ls_reach.ls_start]) (simp add: ls_init_def defaultMetrics_def)
  from metrics_form_is_exhaustive [OF r] r show ?thesis
    by (simp add: ls_init_def defaultMetrics_def setMetric_def metric_value_def)
qed

text \<open>
  C27. What an edit of a metric stores: in every reachable state, typing into
  the input of a numeric field stores a number, not the typed text (the
  decimal digits of \<open>n\<close> store the number \<open>n\<close>, and an emptied input stores
  \<open>0\<close>), typing into the input of \<^verbatim>\<open>date\<close> stores the text as a string, and in
  both cases every other field keeps its value.
\<close>

theorem metric_edit_coerces_by_field_name:
  assumes "ls_reach today s" and "key \<in> set metric_keys"
  shows "obj_get (lsp_metrics (ls_fire (EditMetric key raw) s)) key
           = Some (if key = ''date'' then JStr raw else JNum (js_Number raw))
    \<and> (key \<noteq> ''date'' \<longrightarrow>
         obj_get (lsp_metrics (ls_fire (EditMetric key (nat_digits n)) s)) key = Some (JNat n)
         \<and> obj_get (lsp_metrics (ls_fire (EditMetric key []) s)) key = Some (JNat 0))
    \<and> (\<forall>k. k \<noteq> key \<longrightarrow>
         obj_get (lsp_metrics (ls_fire (EditMetric key raw) s)) k = obj_get (lsp_metrics s) k)"
proof -
  from assms(1) have "distinct (obj_keys (lsp_metrics s))"
    using ls_reach_inv [of today s] by (simp add: ls_inv_def metrics_ok_def)
  then show ?thesis
    by (simp add: setMetric_plain metric_value_def js_Number_nat_digits)
qed

theorem metric_edit_coerces_by_field_name_witness:
  "ls_reach ''2024-05-01'' (ls_init ''2024-05-01'') \<and> ''soreness'' \<in> set metric_keys
   \<and> ''soreness'' \<noteq> ''date''
   \<and> obj_get (lsp_metrics (ls_fire (EditMetric ''soreness'' ''7'') (ls_init ''2024-05-01'')))
       ''soreness'' = Some (JNat 7)
   \<and> obj_get (lsp_metrics (ls_fire (EditMetric ''soreness'' ''7'') (ls_init ''2024-05-01'')))
       ''motivation'' = Some (JNat 7)"
proof -
  have r: "ls_reach ''2024-05-01'' (ls_init ''2024-05-01'')" by (rule ls_reach.ls_start)
  have k: "''soreness'' \<in> set metric_keys" by (simp add: metric_keys_def)
  have n: "js_Number ''7'' = Fin 7" by (simp add: js_defs)
  have old: "obj_get (lsp_metrics (ls_init ''2024-05-01'')) ''motivation'' = Some (JNat 7)"
    by (simp add: ls_init_def defaultMetrics_def)
  from metric_edit_coerces_by_field_name [OF r k, of "''7''" 7] r k old show ?thesis
    by (simp add: n)
qed


text \<open>
  C29. Rows are only ever added: along every run of events the number of
  exercise rows is the number at the start plus the number of times
  \<^verbatim>\<open>Add Exercise\<close> was pressed. No event removes a row, so from the initial state
  the draft has at least one row and at most one more than the events that
  were fired.
\<close>

theorem exercise_rows_only_grow:
  assumes "ls_run es s = Some t"
  shows "length (lsp_exercises t) = length (lsp_exercises s) + count_list es AddExercise
       \<and> length (lsp_exercises t) \<le> length (lsp_exercises s) + length es"
  using assms
proof (induction es arbitrary: s)
  case Nil
  then show ?case by simp
next
  case (Cons e es)
  then have run: "ls_run es (ls_fire e s) = Some t" by (simp split: if_splits)
  have "length (lsp_exercises (ls_fire e s))
      = length (lsp_exercises s) + (if e = AddExercise then 1 else 0)"
    by (cases e) (simp_all add: addExercise_def)
  with Cons.IH [OF run] show ?case by auto
qed

theorem exercise_rows_only_grow_witness:
  "ls_run [AddExercise, EditExercise 1 FReps ''5'', AddExercise] (ls_init ''2024-05-01'')
     = Some (ls_fire AddExercise (ls_fire (EditExercise 1 FReps ''5'')
         (ls_fire AddExercise (ls_init ''2024-05-01''))))
   \<and> length (lsp_exercises (ls_fire AddExercise (ls_fire (EditExercise 1 FReps ''5'')
         (ls_fire AddExercise (ls_init ''2024-05-01'')))))
       = length (lsp_exercises (ls_init ''2024-05-01''))
         + count_list [AddExercise, EditExercise 1 FReps ''5'', AddExercise] AddExercise
   \<and> length (lsp_exercises (ls_init ''2024-05-01''))
         + count_list [AddExercise, EditExercise 1 FReps ''5'', AddExercise] AddExercise = 3"
proof -
  have run: "ls_run [AddExercise, EditExercise 1 FReps ''5'', AddExercise] (ls_init ''2024-05-01'')
     = Some (ls_fire AddExercise (ls_fire (EditExercise 1 FReps ''5'')
         (ls_fire AddExercise (ls_init ''2024-05-01''))))"
    by (simp add: ls_init_def addExercise_def)
  have n: "length (lsp_exercises (ls_init ''2024-05-01''))
         + count_list [AddExercise, EditExercise 1 FReps ''5'', AddExercise] AddExercise = 3"
    by (simp add: ls_init_def)
  from run conjunct1 [OF exercise_rows_only_grow [OF run]] n show ?thesis by (intro conjI)
qed

text \<open>
  Every request is accounted for: along every run of events, the requests
  in flight at the end together with the responses that arrived during the
  run are the requests in flight at the start together with the submissions
  of the run. A request is never dropped, duplicated or settled twice, and
  the number in flight from the initial state is bounded by the number of
  submissions.
\<close>

theorem requests_in_flight_accounting:
  assumes "ls_run es s = Some t"
  shows "length (lsp_pending t) + length (filter is_settle es)
           = length (lsp_pending s) + count_list es Submit"
  using assms
proof (induction es arbitrary: s)
  case Nil
  then show ?case by simp
next
  case (Cons e es)
  then have en: "ls_enabled s e" and run: "ls_run es (ls_fire e s) = Some t"
    by (simp_all split: if_splits)
  from en have "length (lsp_pending (ls_fire e s)) + (if is_settle e then 1 else 0)
      = length (lsp_pending s) + (if e = Submit then 1 else 0)"
    by (cases e) (simp_all add: is_settle_def length_remove_nth)
  with Cons.IH [OF run] show ?case by auto
qed

theorem requests_in_flight_accounting_witness:
  "ls_run [Submit, Submit, Settled 0 NetworkFailure] (ls_init ''2024-05-01'')
     = Some (ls_fire (Settled 0 NetworkFailure) (ls_fire Submit (ls_fire Submit
         (ls_init ''2024-05-01''))))
   \<and> length (lsp_pending (ls_fire (Settled 0 NetworkFailure) (ls_fire Submit (ls_fire Submit
         (ls_init ''2024-05-01'')))))
       + length (filter is_settle [Submit, Submit, Settled 0 NetworkFailure])
     = length (lsp_pending (ls_init ''2024-05-01''))
       + count_list [Submit, Submit, Settled 0 NetworkFailure] Submit
   \<and> length (filter is_settle [Submit, Submit, Settled 0 NetworkFailure]) = 1
   \<and> length (lsp_pending (ls_init ''2024-05-01''))
       + count_list [Submit, Submit, Settled 0 NetworkFailure] Submit = 2"
proof -
  have run: "ls_run [Submit, Submit, Settled 0 NetworkFailure] (ls_init ''2024-05-01'')
     = Some (ls_fire (Settled 0 NetworkFailure) (ls_fire Submit (ls_fire Submit
         (ls_init ''2024-05-01''))))"
    by (simp add: ls_init_def)
  have n: "length (filter is_settle [Submit, Submit, Settled 0 NetworkFailure]) = 1"
    "length (lsp_pending (ls_init ''2024-05-01''))
       + count_list [Submit, Submit, Settled 0 NetworkFailure] Submit = 2"
    by (simp_all add: is_settle_def ls_init_def)
  from run requests_in_flight_accounting [OF run] n show ?thesis by (intro conjI)
qed

end
