(* ===== verification/MetricsPage.thy ===== *)
theory MetricsPage
  imports PageKit
begin

text \<open>
  The controller of \<^verbatim>\<open>src/web/src/pages/MetricsPage.tsx\<close>, a draft-then-submit
  page over one \<^verbatim>\<open>SessionMetrics\<close> object. The form is the generic metrics form
  of \<open>PageKit\<close>; the page adds its initial draft, \<^verbatim>\<open>submit\<close> (split at its
  \<^verbatim>\<open>await\<close> into \<open>mp_submit\<close> and \<open>mp_settled\<close>) and the message.
\<close>

section \<open>State and handlers\<close>

record metrics_page =
  mp_metrics :: jsobj
  mp_message :: string
  mp_pending :: "http_request list"

datatype mp_event =
    MEdit string string
  | MSubmit
  | MSettled nat fetch_result

definition mp_init :: "string \<Rightarrow> metrics_page" where
  "mp_init today =
     \<lparr>mp_metrics =
        [(''date'', JStr today), (''sleep_hours'', JNat 7), (''resting_hr'', JNat 55),
         (''hrv_rmssd'', JNat 55), (''soreness'', JNat 3), (''motivation'', JNat 7),
         (''rpe_session'', JNat 7), (''duration_min'', JNat 60)],
      mp_message = [], mp_pending = []\<rparr>"

definition metrics_payload :: "metrics_page \<Rightarrow> jsval" where
  "metrics_payload s = JObj [(''user_id'', USER_ID), (''metrics'', JObj (mp_metrics s))]"

definition update_message :: "thrown + jsval \<Rightarrow> string" where
  "update_message outcome =
     (case outcome of
        Inr result \<Rightarrow>
          (case js_get result ''status'' of
             Inr st \<Rightarrow> js_to_string st @ '' for '' @ js_to_string (projr (js_get result ''date''))
           | Inl e \<Rightarrow> catch_message ''Failed to update metrics'' (Thrown e))
      | Inl err \<Rightarrow> catch_message ''Failed to update metrics'' err)"

definition mp_submit :: "metrics_page \<Rightarrow> metrics_page" where
  "mp_submit s = s\<lparr>mp_pending := mp_pending s @ [fst (updateMetrics (metrics_payload s))]\<rparr>"

definition mp_settled :: "nat \<Rightarrow> fetch_result \<Rightarrow> metrics_page \<Rightarrow> metrics_page" where
  "mp_settled k fr s =
     s\<lparr>mp_pending := remove_nth k (mp_pending s),
       mp_message := update_message (snd (updateMetrics (metrics_payload s)) fr)\<rparr>"

fun mp_fire :: "mp_event \<Rightarrow> metrics_page \<Rightarrow> metrics_page" where
  "mp_fire (MEdit key raw) s = s\<lparr>mp_metrics := setMetric key raw (mp_metrics s)\<rparr>"
| "mp_fire MSubmit s = mp_submit s"
| "mp_fire (MSettled k fr) s = mp_settled k fr s"

fun mp_enabled :: "metrics_page \<Rightarrow> mp_event \<Rightarrow> bool" where
  "mp_enabled s (MEdit key raw) = (key \<in> set (obj_keys (mp_metrics s)))"
| "mp_enabled s MSubmit = True"
| "mp_enabled s (MSettled k fr) = (k < length (mp_pending s))"

fun mp_run :: "mp_event list \<Rightarrow> metrics_page \<Rightarrow> metrics_page option" where
  "mp_run [] s = Some s"
| "mp_run (e # es) s = (if mp_enabled s e then mp_run es (mp_fire e s) else None)"

inductive mp_reach :: "string \<Rightarrow> metrics_page \<Rightarrow> bool" for today where
  mp_start: "mp_reach today (mp_init today)"
| mp_step: "mp_reach today s \<Longrightarrow> mp_enabled s e \<Longrightarrow> mp_reach today (mp_fire e s)"

section \<open>View\<close>

record metrics_view =
  mv_inputs :: "form_input list"
  mv_message :: "string option"

definition mp_render :: "metrics_page \<Rightarrow> metrics_view" where
  "mp_render s =
     \<lparr>mv_inputs = metric_inputs (mp_metrics s),
      mv_message = (if mp_message s \<noteq> [] then Some (mp_message s) else None)\<rparr>"

section \<open>Typed reading\<close>

fun typed_mp_fire :: "mp_event \<Rightarrow> DailyMetricsUpdate \<Rightarrow> DailyMetricsUpdate" where
  "typed_mp_fire (MEdit key raw) u = u\<lparr>dm_metrics := typed_setMetric key raw (dm_metrics u)\<rparr>"
| "typed_mp_fire MSubmit u = u"
| "typed_mp_fire (MSettled k fr) u = u"

lemmas mp_defs [js_defs] =
  mp_init_def metrics_payload_def update_message_def mp_submit_def mp_settled_def mp_render_def

section \<open>Invariant\<close>

lemma mp_submit_sel [simp]:
  "mp_metrics (mp_submit s) = mp_metrics s" "mp_message (mp_submit s) = mp_message s"
  "mp_pending (mp_submit s) = mp_pending s @ [fst (updateMetrics (metrics_payload s))]"
  by (simp_all add: mp_submit_def)

lemma mp_settled_sel [simp]:
  "mp_metrics (mp_settled k fr s) = mp_metrics s"
  "mp_pending (mp_settled k fr s) = remove_nth k (mp_pending s)"
  "mp_message (mp_settled k fr s) = update_message (settle fr)"
  by (simp_all add: mp_settled_def updateMetrics_def request_def)

lemma metrics_ok_mp_init: "metrics_ok (mp_metrics (mp_init today))"
  by (simp add: metrics_ok_def mp_init_def metric_keys_def SessionMetrics_of_js_def reader_defs)

lemma mp_fire_keeps_metrics_ok:
  "metrics_ok (mp_metrics s) \<Longrightarrow> mp_enabled s e \<Longrightarrow> metrics_ok (mp_metrics (mp_fire e s))"
proof (cases e)
  case (MEdit key raw)
  assume ok: "metrics_ok (mp_metrics s)" and "mp_enabled s e"
  with MEdit have "key \<in> set metric_keys"
    by (simp add: metrics_ok_def)
  with ok MEdit show ?thesis
    by (simp add: metrics_ok_setMetric)
qed simp_all

lemma mp_reach_metrics_ok: "mp_reach today s \<Longrightarrow> metrics_ok (mp_metrics s)"
  by (induction rule: mp_reach.induct) (simp_all add: metrics_ok_mp_init mp_fire_keeps_metrics_ok)

lemma metrics_payload_reading:
  "DailyMetricsUpdate_of_js (metrics_payload s) =
     map_option (\<lambda>m. \<lparr>dm_user_id = Fin 1, dm_metrics = m\<rparr>)
       (SessionMetrics_of_js (JObj (mp_metrics s)))"
  by (cases "SessionMetrics_of_js (JObj (mp_metrics s))")
    (simp_all add: metrics_payload_def DailyMetricsUpdate_of_js_def USER_ID_def reader_defs)

lemma mp_run_reach: "mp_reach today s \<Longrightarrow> mp_run es s = Some t \<Longrightarrow> mp_reach today t"
proof (induction es arbitrary: s)
  case Nil
  then show ?case by simp
next
  case (Cons e es)
  then show ?case by (auto split: if_splits intro: mp_reach.mp_step)
qed

section \<open>Properties\<close>

text \<open>
  C22. Type invariant of the Metrics page: in every reachable state the draft
  has exactly the eight fields of \<^verbatim>\<open>SessionMetrics\<close> in declaration order, and
  the payload a submission would send reads as a \<^verbatim>\<open>DailyMetricsUpdate\<close> for
  user 1. Each metric edit acts on that reading as the typed field update.
\<close>

theorem mp_draft_always_conforms:
  assumes "mp_reach today s"
  shows "obj_keys (mp_metrics s) = metric_keys
    \<and> (\<exists>m. DailyMetricsUpdate_of_js (metrics_payload s) = Some \<lparr>dm_user_id = Fin 1, dm_metrics = m\<rparr>
          \<and> (\<forall>key raw. mp_enabled s (MEdit key raw) \<longrightarrow>
                DailyMetricsUpdate_of_js (metrics_payload (mp_fire (MEdit key raw) s))
                  = Some (typed_mp_fire (MEdit key raw) \<lparr>dm_user_id = Fin 1, dm_metrics = m\<rparr>)))"
proof -
  from assms have ok: "metrics_ok (mp_metrics s)" by (rule mp_reach_metrics_ok)
  then obtain m where m: "SessionMetrics_of_js (JObj (mp_metrics s)) = Some m"
    and keys: "obj_keys (mp_metrics s) = metric_keys"
    by (auto simp: metrics_ok_def)
  have "DailyMetricsUpdate_of_js (metrics_payload (mp_fire (MEdit key raw) s))
          = Some (typed_mp_fire (MEdit key raw) \<lparr>dm_user_id = Fin 1, dm_metrics = m\<rparr>)"
    if "mp_enabled s (MEdit key raw)" for key raw
    using that m keys
    by (simp add: metrics_payload_reading setMetric_refines)
  with m keys show ?thesis
    by (simp add: metrics_payload_reading)
qed

theorem mp_draft_always_conforms_witness:
  "mp_reach ''2024-05-01'' (mp_fire (MEdit ''soreness'' ''4'') (mp_init ''2024-05-01''))
   \<and> DailyMetricsUpdate_of_js (metrics_payload
        (mp_fire (MEdit ''soreness'' ''4'') (mp_init ''2024-05-01'')))
     = Some \<lparr>dm_user_id = Fin 1, dm_metrics =
         \<lparr>sm_date = ''2024-05-01'', sm_sleep_hours = Fin 7, sm_resting_hr = Fin 55,
          sm_hrv_rmssd = Fin 55, sm_soreness = Fin 4, sm_motivation = Fin 7,
          sm_rpe_session = Fin 7, sm_duration_min = Fin 60\<rparr>\<rparr>"
proof -
  have r0: "mp_reach ''2024-05-01'' (mp_init ''2024-05-01'')" by (rule mp_reach.mp_start)
  have en: "mp_enabled (mp_init ''2024-05-01'') (MEdit ''soreness'' ''4'')"
    by (simp add: mp_init_def)
  have rd: "DailyMetricsUpdate_of_js (metrics_payload (mp_init ''2024-05-01''))
     = Some \<lparr>dm_user_id = Fin 1, dm_metrics =
         \<lparr>sm_date = ''2024-05-01'', sm_sleep_hours = Fin 7, sm_resting_hr = Fin 55,
          sm_hrv_rmssd = Fin 55, sm_soreness = Fin 3, sm_motivation = Fin 7,
          sm_rpe_session = Fin 7, sm_duration_min = Fin 60\<rparr>\<rparr>"
    by (simp add: metrics_payload_reading mp_init_def SessionMetrics_of_js_def reader_defs)
  have n: "js_Number ''4'' = Fin 4" by (simp add: js_defs)
  from mp_draft_always_conforms [OF r0] en rd mp_reach.mp_step [OF r0 en] show ?thesis
    by (auto simp: typed_setMetric_def n)
qed

text \<open>
  Submitting the Metrics page, on every branch: the submission issues
  \<^verbatim>\<open>POST /api/update-metrics\<close> with the JSON content type and, as body, the
  JSON document of the draft under \<^verbatim>\<open>metrics\<close> beside \<^verbatim>\<open>user_id: 1\<close>; when its response arrives the draft is
  unchanged and the message is \<^verbatim>\<open><status> for <date>\<close> read from a 2xx body that
  is not \<^verbatim>\<open>null\<close>, the \<^verbatim>\<open>ApiError\<close>'s message for a status outside 200--299, and
  \<^verbatim>\<open>Failed to update metrics\<close> otherwise.
\<close>

theorem mp_submit_outcome:
  "last (mp_pending (mp_fire MSubmit s))
     = \<lparr>rq_url = ''/api/update-metrics'', rq_method = ''POST'',
        rq_headers = [(''Content-Type'', ''application/json'')],
        rq_body = json_value (JObj [(''user_id'', JNat 1), (''metrics'', JObj (mp_metrics s))])\<rparr>
   \<and> mp_metrics (mp_fire (MSettled k fr) s) = mp_metrics s
   \<and> mp_message (mp_fire (MSettled k fr) s) =
       (case fr of
          NetworkFailure \<Rightarrow> ''Failed to update metrics''
        | Responded r \<Rightarrow>
            if \<not> rs_ok r then js_to_string (error_detail r)
            else (case rs_json r of
                    None \<Rightarrow> ''Failed to update metrics''
                  | Some v \<Rightarrow>
                      if nullish v then ''Failed to update metrics''
                      else js_to_string (projr (js_get v ''status'')) @ '' for '' @
                           js_to_string (projr (js_get v ''date''))))"
proof -
  have "update_message (settle fr) =
       (case fr of
          NetworkFailure \<Rightarrow> ''Failed to update metrics''
        | Responded r \<Rightarrow>
            if \<not> rs_ok r then js_to_string (error_detail r)
            else (case rs_json r of
                    None \<Rightarrow> ''Failed to update metrics''
                  | Some v \<Rightarrow>
                      if nullish v then ''Failed to update metrics''
                      else js_to_string (projr (js_get v ''status'')) @ '' for '' @
                           js_to_string (projr (js_get v ''date''))))"
  proof (cases fr)
    case NetworkFailure
    then show ?thesis by (simp add: update_message_def settle_def)
  next
    case (Responded r)
    show ?thesis
    proof (cases "rs_json r")
      case None
      with Responded show ?thesis by (simp add: update_message_def settle_def)
    next
      case (Some v)
      with Responded show ?thesis
        by (cases v) (simp_all add: update_message_def settle_def nullish_def)
    qed
  qed
  moreover have "metrics_payload s = JObj [(''user_id'', JNat 1), (''metrics'', JObj (mp_metrics s))]"
    by (simp add: metrics_payload_def USER_ID_def)
  ultimately show ?thesis
    by (simp add: updateMetrics_def request_def default_headers_def del: json_value.simps)
qed

end
