(* ===== verification/AnalyticsPage.thy ===== *)
theory AnalyticsPage
  imports PageKit
begin

text \<open>
  The controller of \<^verbatim>\<open>src/web/src/pages/AnalyticsPage.tsx\<close>, a read-then-display
  page with a filter: the exercise name (\<open>ap_exercise\<close>), the data and the error
  of the last responses, and \<^verbatim>\<open>load\<close>, which the mount effect and the Refresh
  button both call.

  The filter input and the Refresh button are part of the loaded view only,
  so \<open>ap_enabled\<close> offers \<open>AEdit\<close> and \<open>ARefresh\<close> exactly when \<open>ap_render\<close> gives
  that view.

  The two charts of the loaded view are \<open>charts\<close>: for each its heading, its
  kind, the data handed to it and the keys its axis and its series select
  (\<^verbatim>\<open>dataKey\<close>). \<open>chart_points\<close> is what these keys select from the data, datum
  by datum; how the chart library draws the points is outside the model.
\<close>

section \<open>State and handlers\<close>

record analytics_page =
  ap_exercise :: string
  ap_data :: jsval
  ap_error :: string
  ap_pending :: "http_request list"

datatype ap_event =
    AEdit string
  | ARefresh
  | ASettled nat fetch_result

definition ap_initial :: analytics_page where
  "ap_initial = \<lparr>ap_exercise = ''Squat'', ap_data = JNull, ap_error = [], ap_pending = []\<rparr>"

definition load :: "analytics_page \<Rightarrow> analytics_page" where
  "load s = s\<lparr>ap_pending := ap_pending s @ [fst (getAnalytics USER_ID (ap_exercise s))]\<rparr>"

definition ap_init :: analytics_page where
  "ap_init = load ap_initial"

definition ap_settled :: "nat \<Rightarrow> fetch_result \<Rightarrow> analytics_page \<Rightarrow> analytics_page" where
  "ap_settled k fr s =
     (case snd (getAnalytics USER_ID (ap_exercise s)) fr of
        Inr payload \<Rightarrow>
          s\<lparr>ap_pending := remove_nth k (ap_pending s), ap_data := payload, ap_error := []\<rparr>
      | Inl err \<Rightarrow>
          s\<lparr>ap_pending := remove_nth k (ap_pending s),
            ap_error := catch_message ''Failed to load analytics'' err\<rparr>)"

fun ap_fire :: "ap_event \<Rightarrow> analytics_page \<Rightarrow> analytics_page" where
  "ap_fire (AEdit raw) s = s\<lparr>ap_exercise := raw\<rparr>"
| "ap_fire ARefresh s = load s"
| "ap_fire (ASettled k fr) s = ap_settled k fr s"

section \<open>View\<close>

record analytics_loaded =
  av_exercise :: string
  av_weekly :: "jsobj list"
  av_trend :: jsval

datatype analytics_view = AError string | ALoading | ALoaded analytics_loaded

definition weekly_point :: "jsval \<Rightarrow> js_error + jsobj" where
  "weekly_point point =
     js_bind (js_get point ''week_start'') (\<lambda>week_start.
     js_bind (js_get point ''muscle'') (\<lambda>muscle.
     js_bind (js_get point ''volume'') (\<lambda>volume.
       Inr [(''week'', week_start), (''muscle'', muscle), (''volume'', volume)])))"

definition weeklyData :: "jsval \<Rightarrow> js_error + jsobj list" where
  "weeklyData data =
     (if \<not> truthy data then Inr []
      else js_bind (js_get data ''weekly_volume'') (\<lambda>wv. js_map wv weekly_point))"

definition ap_render :: "analytics_page \<Rightarrow> js_error + analytics_view" where
  "ap_render s =
     js_bind (weeklyData (ap_data s)) (\<lambda>weekly.
       if ap_error s \<noteq> [] then Inr (AError (ap_error s))
       else if \<not> truthy (ap_data s) then Inr ALoading
       else js_bind (js_get (ap_data s) ''e1rm_trend'') (\<lambda>trend.
              Inr (ALoaded \<lparr>av_exercise = ap_exercise s, av_weekly = weekly, av_trend = trend\<rparr>)))"

definition controls_shown :: "analytics_page \<Rightarrow> bool" where
  "controls_shown s = (case ap_render s of Inr (ALoaded v) \<Rightarrow> True | _ \<Rightarrow> False)"

section \<open>Charts\<close>

datatype chart_kind = BarChart | LineChart

record chart =
  ch_title :: string
  ch_kind :: chart_kind
  ch_data :: jsval
  ch_x :: string
  ch_series :: string

definition charts :: "analytics_loaded \<Rightarrow> chart list" where
  "charts v =
     [\<lparr>ch_title = ''Weekly Volume by Muscle'', ch_kind = BarChart,
       ch_data = JArr (map JObj (av_weekly v)), ch_x = ''week'', ch_series = ''volume''\<rparr>,
      \<lparr>ch_title = ''e1RM Trend'', ch_kind = LineChart,
       ch_data = av_trend v, ch_x = ''date'', ch_series = ''e1rm''\<rparr>]"

definition data_key :: "string \<Rightarrow> jsval \<Rightarrow> jsval" where
  "data_key k d = (case d of JObj ps \<Rightarrow> field_of ps k | _ \<Rightarrow> JUndefined)"

definition chart_points :: "chart \<Rightarrow> (jsval \<times> jsval) list" where
  "chart_points ch =
     (case ch_data ch of
        JArr ds \<Rightarrow> map (\<lambda>d. (data_key (ch_x ch) d, data_key (ch_series ch) d)) ds
      | _ \<Rightarrow> [])"

section \<open>Events\<close>

fun ap_enabled :: "analytics_page \<Rightarrow> ap_event \<Rightarrow> bool" where
  "ap_enabled s (AEdit raw) = controls_shown s"
| "ap_enabled s ARefresh = controls_shown s"
| "ap_enabled s (ASettled k fr) = (k < length (ap_pending s))"

fun ap_run :: "ap_event list \<Rightarrow> analytics_page \<Rightarrow> analytics_page option" where
  "ap_run [] s = Some s"
| "ap_run (e # es) s = (if ap_enabled s e then ap_run es (ap_fire e s) else None)"

inductive ap_reach :: "analytics_page \<Rightarrow> bool" where
  ap_start: "ap_reach ap_init"
| ap_step: "ap_reach s \<Longrightarrow> ap_enabled s e \<Longrightarrow> ap_reach (ap_fire e s)"

section \<open>Typed view\<close>

definition typed_weekly :: "AnalyticsResponse \<Rightarrow> jsobj list" where
  "typed_weekly a =
     map (\<lambda>p. [(''week'', JStr (wv_week_start p)), (''muscle'', JStr (wv_muscle p)),
                (''volume'', JNum (wv_volume p))]) (ar_weekly_volume a)"

definition analytics_url :: "string \<Rightarrow> string" where
  "analytics_url ex = ''/api/analytics?user_id=1&exercise='' @ encodeURIComponent ex"

definition analytics_prefix :: string where
  "analytics_prefix = ''/api/analytics?user_id=1&exercise=''"

definition is_analytics_get :: "http_request \<Rightarrow> bool" where
  "is_analytics_get q =
     (rq_method q = ''GET'' \<and> rq_body q = None
      \<and> take (length analytics_prefix) (rq_url q) = analytics_prefix
      \<and> set (drop (length analytics_prefix) (rq_url q)) \<inter> set ''&=#?/+ '' = {})"

definition is_ap_settle :: "ap_event \<Rightarrow> bool" where
  "is_ap_settle e = (case e of ASettled k fr \<Rightarrow> True | _ \<Rightarrow> False)"

text \<open>A response used in the worked examples.\<close>

definition scenario_analytics :: AnalyticsResponse where
  "scenario_analytics =
     \<lparr>ar_sessions = Fin 12, ar_fatigue_mean = Fin (3 / 2), ar_stimulus_mean = Fin 6,
      ar_readiness_mean = Fin (7 / 10),
      ar_weekly_volume =
        [\<lparr>wv_week_start = ''2024-04-22'', wv_muscle = ''quads'', wv_volume = Fin 12\<rparr>,
         \<lparr>wv_week_start = ''2024-04-29'', wv_muscle = ''quads'', wv_volume = Fin 16\<rparr>],
      ar_e1rm_trend =
        [\<lparr>ep_date = ''2024-04-29'', ep_exercise = ''Squat'', ep_e1rm = Fin 140\<rparr>]\<rparr>"

definition scenario_loaded :: analytics_page where
  "scenario_loaded =
     ap_fire (ASettled 0 (Responded \<lparr>rs_status = 200, rs_statusText = ''OK'',
        rs_json = Some (AnalyticsResponse_to_js scenario_analytics)\<rparr>)) ap_init"

lemmas ap_defs [js_defs] =
  ap_initial_def load_def ap_init_def ap_settled_def weekly_point_def weeklyData_def
  ap_render_def controls_shown_def typed_weekly_def analytics_url_def
  charts_def data_key_def chart_points_def

section \<open>Handlers, field by field\<close>

lemma load_sel [simp]:
  "ap_exercise (load s) = ap_exercise s" "ap_data (load s) = ap_data s"
  "ap_error (load s) = ap_error s"
  "ap_pending (load s) = ap_pending s @ [fst (getAnalytics USER_ID (ap_exercise s))]"
  by (simp_all add: load_def)

lemma ap_settled_ok:
  "settle fr = Inr v \<Longrightarrow>
     ap_settled k fr s = s\<lparr>ap_pending := remove_nth k (ap_pending s), ap_data := v, ap_error := []\<rparr>"
  by (simp add: ap_settled_def getAnalytics_def request_def)

lemma ap_settled_failed:
  "settle fr = Inl err \<Longrightarrow>
     ap_settled k fr s = s\<lparr>ap_pending := remove_nth k (ap_pending s),
                           ap_error := catch_message ''Failed to load analytics'' err\<rparr>"
  by (simp add: ap_settled_def getAnalytics_def request_def)

lemma ap_settled_sel [simp]:
  "ap_pending (ap_settled k fr s) = remove_nth k (ap_pending s)"
  "ap_exercise (ap_settled k fr s) = ap_exercise s"
  by (cases "settle fr"; simp add: ap_settled_ok ap_settled_failed)+

lemma ap_init_sel [simp]:
  "ap_exercise ap_init = ''Squat''" "ap_data ap_init = JNull" "ap_error ap_init = []"
  "ap_pending ap_init = [fst (getAnalytics USER_ID ''Squat'')]"
  by (simp_all add: ap_init_def ap_initial_def)

lemma getAnalytics_request:
  "fst (getAnalytics USER_ID ex) =
     \<lparr>rq_url = analytics_url ex, rq_method = ''GET'',
      rq_headers = [(''Content-Type'', ''application/json'')], rq_body = None\<rparr>"
  by (simp add: getAnalytics_def request_def USER_ID_def analytics_url_def default_headers_def
      digit_char_def)

lemma ap_render_load [simp]: "ap_render (load s) = ap_render s"
  by (simp add: ap_render_def cong: if_cong)

lemma controls_shown_load [simp]: "controls_shown (load s) = controls_shown s"
  by (simp add: controls_shown_def)

lemma controls_shown_iff:
  "controls_shown s \<longleftrightarrow> ap_error s = [] \<and> truthy (ap_data s) \<and> \<not> isl (weeklyData (ap_data s))"
proof (cases "weeklyData (ap_data s)")
  case (Inl e)
  then show ?thesis by (simp add: controls_shown_def ap_render_def)
next
  case (Inr w)
  moreover have "\<exists>t. js_get (ap_data s) ''e1rm_trend'' = Inr t" if "truthy (ap_data s)"
    using that by (intro js_get_not_nullish) (auto simp: nullish_def)
  ultimately show ?thesis by (auto simp: controls_shown_def ap_render_def)
qed

lemma controls_shown_edit [simp]:
  "controls_shown (s\<lparr>ap_exercise := raw\<rparr>) = controls_shown s"
  by (simp add: controls_shown_iff)

lemma weekly_point_conforming:
  assumes "WeeklyVolumePoint_of_js v = Some p"
  shows "weekly_point v = Inr [(''week'', JStr (wv_week_start p)),
           (''muscle'', JStr (wv_muscle p)), (''volume'', JNum (wv_volume p))]"
proof -
  from assms obtain ps where v: "v = JObj ps" by (auto dest: of_js_is_object)
  with assms show ?thesis
    by (simp add: weekly_point_def WeeklyVolumePoint_of_js_iff field_of_num field_of_str)
qed

lemma weeklyData_conforming:
  assumes "AnalyticsResponse_of_js v = Some a"
  shows "truthy v" "weeklyData v = Inr (typed_weekly a)"
    "\<exists>es. js_get v ''e1rm_trend'' = Inr (JArr es)
       \<and> those (map E1RMPoint_of_js es) = Some (ar_e1rm_trend a)"
proof -
  from AnalyticsResponse_of_js_SomeD [OF assms] obtain ps ws es where
    v: "v = JObj ps" and ws: "obj_get ps ''weekly_volume'' = Some (JArr ws)"
      "those (map WeeklyVolumePoint_of_js ws) = Some (ar_weekly_volume a)"
    and es: "obj_get ps ''e1rm_trend'' = Some (JArr es)"
      "those (map E1RMPoint_of_js es) = Some (ar_e1rm_trend a)"
    by blast
  show "truthy v" by (simp add: v)
  from js_map_conforming [OF ws(2), of weekly_point] weekly_point_conforming
  show "weeklyData v = Inr (typed_weekly a)"
    by (simp add: weeklyData_def v field_of_Some ws(1) typed_weekly_def)
  from es show "\<exists>es. js_get v ''e1rm_trend'' = Inr (JArr es)
       \<and> those (map E1RMPoint_of_js es) = Some (ar_e1rm_trend a)"
    by (simp add: v field_of_Some)
qed

lemma is_analytics_get_request [simp]: "is_analytics_get (fst (getAnalytics USER_ID ex))"
  using encodeURIComponent_no_delimiter [of ex]
  by (simp add: getAnalytics_request is_analytics_get_def analytics_url_def analytics_prefix_def)

lemma list_all_remove_nth: "list_all P xs \<Longrightarrow> list_all P (remove_nth k xs)"
  using set_remove_nth_subset [of k xs] by (auto simp: list_all_iff)

lemma ap_reach_requests: "ap_reach s \<Longrightarrow> list_all is_analytics_get (ap_pending s)"
proof (induction rule: ap_reach.induct)
  case ap_start
  then show ?case by simp
next
  case (ap_step s e)
  then show ?case by (cases e) (simp_all add: list_all_remove_nth)
qed

lemma ap_run_reach: "ap_reach s \<Longrightarrow> ap_run es s = Some t \<Longrightarrow> ap_reach t"
proof (induction es arbitrary: s)
  case Nil
  then show ?case by simp
next
  case (Cons e es)
  then show ?case by (auto split: if_splits intro: ap_reach.ap_step)
qed

lemma ap_render_conforming:
  assumes "AnalyticsResponse_of_js (ap_data s) = Some a" and "ap_error s = []"
  shows "\<exists>es. ap_render s = Inr (ALoaded \<lparr>av_exercise = ap_exercise s,
                  av_weekly = typed_weekly a, av_trend = JArr es\<rparr>)
               \<and> those (map E1RMPoint_of_js es) = Some (ar_e1rm_trend a)"
    and "controls_shown s"
proof -
  from weeklyData_conforming [OF assms(1)] obtain es where
    *: "truthy (ap_data s)" "weeklyData (ap_data s) = Inr (typed_weekly a)"
    "js_get (ap_data s) ''e1rm_trend'' = Inr (JArr es)"
    "those (map E1RMPoint_of_js es) = Some (ar_e1rm_trend a)"
    by blast
  with assms(2) show "\<exists>es. ap_render s = Inr (ALoaded \<lparr>av_exercise = ap_exercise s,
                  av_weekly = typed_weekly a, av_trend = JArr es\<rparr>)
               \<and> those (map E1RMPoint_of_js es) = Some (ar_e1rm_trend a)"
    by (simp add: ap_render_def)
  from * assms(2) show "controls_shown s" by (simp add: controls_shown_iff)
qed

lemma scenario_loaded_sel [simp]:
  "ap_data scenario_loaded = AnalyticsResponse_to_js scenario_analytics"
  "ap_error scenario_loaded = []" "ap_exercise scenario_loaded = ''Squat''"
  "ap_pending scenario_loaded = []"
proof -
  have "settle (Responded \<lparr>rs_status = 200, rs_statusText = ''OK'',
        rs_json = Some (AnalyticsResponse_to_js scenario_analytics)\<rparr>)
      = Inr (AnalyticsResponse_to_js scenario_analytics)"
    by (simp add: settle_def rs_ok_def)
  then show "ap_data scenario_loaded = AnalyticsResponse_to_js scenario_analytics"
    "ap_error scenario_loaded = []" "ap_exercise scenario_loaded = ''Squat''"
    "ap_pending scenario_loaded = []"
    by (simp_all add: scenario_loaded_def ap_settled_ok)
qed

lemma scenario_loaded_reach: "ap_reach scenario_loaded"
  unfolding scenario_loaded_def by (rule ap_reach.ap_step [OF ap_reach.ap_start]) simp

lemma scenario_loaded_controls [simp]: "controls_shown scenario_loaded"
  by (rule ap_render_conforming(2) [where a = scenario_analytics]) simp_all

section \<open>Properties\<close>

text \<open>
  C14. Analytics shows what the server sent: when a response arrives with a
  status in 200--299 and a body that is an \<^verbatim>\<open>AnalyticsResponse\<close>, whatever the
  page showed before (an earlier error included, which is cleared), it renders
  the loaded view with the current filter text, the weekly volume projected
  point by point to \<^verbatim>\<open>{week, muscle, volume}\<close> in the order received, and the
  e1RM trend as received.
\<close>

theorem analytics_renders_conforming_response:
  assumes "rs_ok r" and "rs_json r = Some v" and "AnalyticsResponse_of_js v = Some a"
  shows "\<exists>es. ap_render (ap_fire (ASettled k (Responded r)) s)
           = Inr (ALoaded \<lparr>av_exercise = ap_exercise s, av_weekly = typed_weekly a,
                           av_trend = JArr es\<rparr>)
         \<and> those (map E1RMPoint_of_js es) = Some (ar_e1rm_trend a)
         \<and> ap_error (ap_fire (ASettled k (Responded r)) s) = []"
  using assms ap_render_conforming(1) [of "ap_fire (ASettled k (Responded r)) s" a]
  by (simp add: ap_settled_ok settle_ok)

theorem analytics_renders_conforming_response_witness:
  "\<exists>es. ap_render (ap_fire (ASettled 0 (Responded \<lparr>rs_status = 200, rs_statusText = ''OK'',
       rs_json = Some (AnalyticsResponse_to_js scenario_analytics)\<rparr>)) ap_init)
     = Inr (ALoaded \<lparr>av_exercise = ''Squat'',
         av_weekly = [[(''week'', JStr ''2024-04-22''), (''muscle'', JStr ''quads''),
                       (''volume'', JNat 12)],
                      [(''week'', JStr ''2024-04-29''), (''muscle'', JStr ''quads''),
                       (''volume'', JNat 16)]],
         av_trend = JArr es\<rparr>)"
proof -
  have t: "typed_weekly scenario_analytics
     = [[(''week'', JStr ''2024-04-22''), (''muscle'', JStr ''quads''), (''volume'', JNat 12)],
        [(''week'', JStr ''2024-04-29''), (''muscle'', JStr ''quads''), (''volume'', JNat 16)]]"
    by (simp add: typed_weekly_def scenario_analytics_def)
  from analytics_renders_conforming_response [OF _ _ AnalyticsResponse_roundtrip,
      of "\<lparr>rs_status = 200, rs_statusText = ''OK'',
       rs_json = Some (AnalyticsResponse_to_js scenario_analytics)\<rparr>" scenario_analytics 0 ap_init]
  show ?thesis unfolding t by (auto simp: rs_ok_def)
qed

text \<open>
  C25. Refresh re-issues the fetch without a loading state: whenever the loaded
  view is on screen, Refresh is available, it puts
  \<^verbatim>\<open>GET /api/analytics?user_id=1&exercise=<filter>\<close> in flight with the filter text
  percent-encoded, and the page goes on rendering the same view, with the
  data of the previous response, until a response arrives.
\<close>

theorem analytics_refresh_keeps_stale_view:
  assumes "ap_render s = Inr (ALoaded view)"
  shows "ap_enabled s ARefresh
    \<and> ap_render (ap_fire ARefresh s) = Inr (ALoaded view)
    \<and> ap_pending (ap_fire ARefresh s) = ap_pending s @
         [\<lparr>rq_url = ''/api/analytics?user_id=1&exercise='' @ encodeURIComponent (ap_exercise s),
           rq_method = ''GET'', rq_headers = [(''Content-Type'', ''application/json'')],
           rq_body = None\<rparr>]"
  using assms by (simp add: controls_shown_def getAnalytics_request analytics_url_def)

theorem analytics_refresh_keeps_stale_view_witness:
  "\<exists>view. ap_render (ap_fire (AEdit ''Bench Press'') scenario_loaded) = Inr (ALoaded view)
    \<and> map rq_url (ap_pending (ap_fire ARefresh (ap_fire (AEdit ''Bench Press'') scenario_loaded)))
      = [''/api/analytics?user_id=1&exercise=Bench%20Press'']"
proof -
  from ap_render_conforming(1) [of "ap_fire (AEdit ''Bench Press'') scenario_loaded"
      scenario_analytics]
  obtain view where v: "ap_render (ap_fire (AEdit ''Bench Press'') scenario_loaded)
      = Inr (ALoaded view)"
    by auto
  have p0: "ap_pending (ap_fire (AEdit ''Bench Press'') scenario_loaded) = []"
    and ex: "ap_exercise (ap_fire (AEdit ''Bench Press'') scenario_loaded) = ''Bench Press''"
    by simp_all
  have enc: "encodeURIComponent ''Bench Press'' = ''Bench%20Press''"
    by (simp add: encodeURIComponent_def percent_encode_def unreserved_def hex_char_def)
  from analytics_refresh_keeps_stale_view [OF v]
  have "map rq_url (ap_pending (ap_fire ARefresh (ap_fire (AEdit ''Bench Press'') scenario_loaded)))
      = [''/api/analytics?user_id=1&exercise=Bench%20Press'']"
    unfolding p0 ex enc by simp
  with v show ?thesis by - (rule exI, rule conjI, assumption+)
qed

text \<open>
  C36. An error removes the filter and the Refresh button: when a load fails
  with a message that is not empty, the page renders only that message; the
  data of the previous response stays in the state but is no longer shown,
  and neither the filter input nor Refresh is available. When the failed
  request was the only one in flight no event is enabled at all: the page
  cannot be refreshed, only left.
\<close>

theorem analytics_error_hides_refresh:
  assumes "settle fr = Inl err" and "catch_message ''Failed to load analytics'' err \<noteq> []"
    and "\<not> isl (ap_render s)" and "ap_enabled s (ASettled k fr)"
  shows "ap_render (ap_fire (ASettled k fr) s)
           = Inr (AError (catch_message ''Failed to load analytics'' err))
    \<and> ap_data (ap_fire (ASettled k fr) s) = ap_data s
    \<and> \<not> ap_enabled (ap_fire (ASettled k fr) s) ARefresh
    \<and> \<not> ap_enabled (ap_fire (ASettled k fr) s) (AEdit raw)
    \<and> (length (ap_pending s) = 1 \<longrightarrow> (\<forall>e. \<not> ap_enabled (ap_fire (ASettled k fr) s) e))"
proof -
  let ?t = "ap_fire (ASettled k fr) s"
  from assms(3) obtain w where w: "weeklyData (ap_data s) = Inr w"
    by (cases "weeklyData (ap_data s)") (simp_all add: ap_render_def)
  from assms(1,2) w have r: "ap_render ?t = Inr (AError (catch_message ''Failed to load analytics'' err))"
    and d: "ap_data ?t = ap_data s" and c: "\<not> controls_shown ?t"
    by (simp_all add: ap_settled_failed ap_render_def controls_shown_def)
  have "\<not> ap_enabled ?t e" if "length (ap_pending s) = 1" for e
  proof (cases e)
    case (ASettled j fr')
    from that assms(4) have "remove_nth k (ap_pending s) = []"
      by (cases "ap_pending s") (simp_all add: remove_nth_def)
    with ASettled show ?thesis by simp
  qed (use c in simp_all)
  with r d c show ?thesis by simp
qed

theorem analytics_error_hides_refresh_witness:
  "ap_render (ap_fire (ASettled 0 NetworkFailure) ap_init)
     = Inr (AError ''Failed to load analytics'')
   \<and> (\<forall>e. \<not> ap_enabled (ap_fire (ASettled 0 NetworkFailure) ap_init) e)"
proof -
  have a: "settle NetworkFailure = Inl (Thrown TypeError)" by (simp add: settle_def)
  have b: "\<not> isl (ap_render ap_init)"
    by (simp add: ap_render_def weeklyData_def)
  have c: "ap_enabled ap_init (ASettled 0 NetworkFailure)" by simp
  from analytics_error_hides_refresh [OF a _ b c] show ?thesis by simp
qed

text \<open>
  The response that arrives last wins, whatever it answers: with the
  loaded view on screen, refreshing, changing the filter to \<open>b\<close> and refreshing
  again puts two requests in flight, for the old filter and for \<open>b\<close>; if the
  response for \<open>b\<close> arrives first and the response for the old filter second,
  the page ends up showing the data for the old filter under the filter text
  \<open>b\<close>.
\<close>

theorem analytics_last_response_wins:
  assumes "controls_shown s" and "settle fra = Inr va" and "settle frb = Inr vb"
  shows "\<exists>t. ap_run [ARefresh, AEdit b, ARefresh,
                      ASettled (Suc (length (ap_pending s))) frb,
                      ASettled (length (ap_pending s)) fra] s = Some t
    \<and> ap_data t = va \<and> ap_exercise t = b \<and> ap_pending t = ap_pending s
    \<and> map rq_url (drop (length (ap_pending s))
          (ap_pending (ap_fire ARefresh (ap_fire (AEdit b) (ap_fire ARefresh s)))))
        = [analytics_url (ap_exercise s), analytics_url b]"
  using assms
  by (simp add: ap_settled_ok getAnalytics_request remove_nth_def)

theorem analytics_last_response_wins_witness:
  "\<exists>t. ap_run [ARefresh, AEdit ''Bench'', ARefresh,
          ASettled (Suc 0) (Responded \<lparr>rs_status = 200, rs_statusText = ''OK'',
             rs_json = Some (JObj [(''weekly_volume'', JArr []), (''e1rm_trend'', JArr [])])\<rparr>),
          ASettled 0 (Responded \<lparr>rs_status = 200, rs_statusText = ''OK'',
             rs_json = Some (AnalyticsResponse_to_js scenario_analytics)\<rparr>)]
        scenario_loaded = Some t
    \<and> ap_data t = AnalyticsResponse_to_js scenario_analytics \<and> ap_exercise t = ''Bench''"
proof -
  let ?ra = "\<lparr>rs_status = 200, rs_statusText = ''OK'',
             rs_json = Some (AnalyticsResponse_to_js scenario_analytics)\<rparr>"
  let ?rb = "\<lparr>rs_status = 200, rs_statusText = ''OK'',
             rs_json = Some (JObj [(''weekly_volume'', JArr []), (''e1rm_trend'', JArr [])])\<rparr>"
  have a: "settle (Responded ?ra) = Inr (AnalyticsResponse_to_js scenario_analytics)"
    and b: "settle (Responded ?rb)
              = Inr (JObj [(''weekly_volume'', JArr []), (''e1rm_trend'', JArr [])])"
    by (simp_all add: settle_def rs_ok_def)
  have n: "length (ap_pending scenario_loaded) = 0" by simp
  from analytics_last_response_wins [OF scenario_loaded_controls a b, of "''Bench''", unfolded n]
  show ?thesis by - (elim exE conjE, intro exI conjI, assumption+)
qed

text \<open>
  A failure with an empty message is silent: when a load fails with an
  \<^verbatim>\<open>ApiError\<close> whose message is the empty string, the error cell is set to the
  empty string, so the page renders exactly as if no error had been set: the
  loading text on mount, the previous data after a refresh.
\<close>

theorem analytics_empty_error_is_silent:
  assumes "settle fr = Inl (ApiError st [])"
  shows "ap_fire (ASettled k fr) s = s\<lparr>ap_pending := remove_nth k (ap_pending s), ap_error := []\<rparr>
    \<and> (ap_error s = [] \<longrightarrow> ap_render (ap_fire (ASettled k fr) s) = ap_render s)"
  using assms by (simp add: ap_settled_failed ap_render_def cong: if_cong)

theorem analytics_empty_error_is_silent_witness:
  "ap_render (ap_fire (ASettled 0 (Responded \<lparr>rs_status = 500, rs_statusText = [],
       rs_json = None\<rparr>)) ap_init) = Inr ALoading
   \<and> ap_pending (ap_fire (ASettled 0 (Responded \<lparr>rs_status = 500, rs_statusText = [],
       rs_json = None\<rparr>)) ap_init) = []"
proof -
  have a: "settle (Responded \<lparr>rs_status = 500, rs_statusText = [], rs_json = None\<rparr>)
     = Inl (ApiError 500 [])"
    by (simp add: settle_def rs_ok_def error_detail_def)
  have l: "ap_render ap_init = Inr ALoading" by (simp add: ap_render_def weeklyData_def)
  have e: "ap_error ap_init = []" by simp
  from analytics_empty_error_is_silent [OF a, of 0 ap_init, THEN conjunct2, rule_format, OF e]
  have "ap_render (ap_fire (ASettled 0 (Responded \<lparr>rs_status = 500, rs_statusText = [],
       rs_json = None\<rparr>)) ap_init) = Inr ALoading"
    unfolding l .
  then show ?thesis by simp
qed

text \<open>
  Every request of the Analytics page is a well-formed read: in every
  reachable state each request in flight is a \<^verbatim>\<open>GET\<close> without body of
  \<^verbatim>\<open>/api/analytics?user_id=1&exercise=...\<close> whose exercise parameter contains no
  query delimiter, whatever the user typed into the filter; the mount's
  request is the one for \<^verbatim>\<open>Squat\<close>.
\<close>

lemma analytics_requests_well_formed:
  assumes "ap_reach s"
  shows "list_all is_analytics_get (ap_pending s)
    \<and> map rq_url (ap_pending ap_init) = [''/api/analytics?user_id=1&exercise=Squat'']"
proof -
  have "encodeURIComponent ''Squat'' = ''Squat''"
    by (simp add: encodeURIComponent_def percent_encode_def unreserved_def)
  with ap_reach_requests [OF assms] show ?thesis
    by (simp add: getAnalytics_request analytics_url_def)
qed

section \<open>Charts\<close>

lemma data_key_obj [simp]: "data_key k (JObj ps) = field_of ps k"
  by (simp add: data_key_def)

lemma trend_point_conforming:
  "E1RMPoint_of_js e = Some p \<Longrightarrow>
     data_key ''date'' e = JStr (ep_date p) \<and> data_key ''e1rm'' e = JNum (ep_e1rm p)"
  by (cases p)
    (auto simp: E1RMPoint_of_js_def bind_eq_Some_conv field_of_def
      dest!: str_at_SomeD num_at_SomeD)

lemma trend_points_conforming:
  "those (map E1RMPoint_of_js es) = Some ps \<Longrightarrow>
     map (\<lambda>d. (data_key ''date'' d, data_key ''e1rm'' d)) es
       = map (\<lambda>p. (JStr (ep_date p), JNum (ep_e1rm p))) ps"
proof (induction es arbitrary: ps)
  case Nil
  then show ?case by simp
next
  case (Cons e es)
  then obtain p qs where "E1RMPoint_of_js e = Some p" "those (map E1RMPoint_of_js es) = Some qs"
    "ps = p # qs"
    by (auto split: option.splits)
  with Cons.IH [of qs] trend_point_conforming [of e p] show ?case by simp
qed

lemma weekly_points_typed:
  "map (\<lambda>d. (data_key ''week'' d, data_key ''volume'' d)) (map JObj (typed_weekly a))
     = map (\<lambda>p. (JStr (wv_week_start p), JNum (wv_volume p))) (ar_weekly_volume a)"
  by (simp add: typed_weekly_def comp_def)

text \<open>
  C26. The charts plot the two series of the response: for a conforming
  response the loaded view has two charts, a bar chart headed
  \<^verbatim>\<open>Weekly Volume by Muscle\<close> and a line chart headed \<^verbatim>\<open>e1RM Trend\<close>; the keys of
  the first select from every datum the week and the volume of one
  \<^verbatim>\<open>WeeklyVolumePoint\<close>, the keys of the second the date and the estimate of one
  \<^verbatim>\<open>E1RMPoint\<close>, in the order of the response and with no datum dropped. Every
  key named in the markup exists in the data it is applied to. The muscle of
  a point is selected by neither chart.
\<close>

theorem charts_plot_the_series:
  assumes "AnalyticsResponse_of_js (ap_data s) = Some a" and "ap_error s = []"
  shows "\<exists>v. ap_render s = Inr (ALoaded v)
           \<and> map ch_title (charts v) = [''Weekly Volume by Muscle'', ''e1RM Trend'']
           \<and> map ch_kind (charts v) = [BarChart, LineChart]
           \<and> map chart_points (charts v)
               = [map (\<lambda>p. (JStr (wv_week_start p), JNum (wv_volume p))) (ar_weekly_volume a),
                  map (\<lambda>p. (JStr (ep_date p), JNum (ep_e1rm p))) (ar_e1rm_trend a)]"
proof -
  from ap_render_conforming(1) [OF assms] obtain es where
    r: "ap_render s = Inr (ALoaded \<lparr>av_exercise = ap_exercise s,
          av_weekly = typed_weekly a, av_trend = JArr es\<rparr>)"
    and es: "those (map E1RMPoint_of_js es) = Some (ar_e1rm_trend a)"
    by blast
  let ?v = "\<lparr>av_exercise = ap_exercise s, av_weekly = typed_weekly a, av_trend = JArr es\<rparr>"
  have "map chart_points (charts ?v)
      = [map (\<lambda>p. (JStr (wv_week_start p), JNum (wv_volume p))) (ar_weekly_volume a),
         map (\<lambda>p. (JStr (ep_date p), JNum (ep_e1rm p))) (ar_e1rm_trend a)]"
    using trend_points_conforming [OF es] weekly_points_typed [of a]
    by (simp add: charts_def chart_points_def)
  moreover have "map ch_title (charts ?v) = [''Weekly Volume by Muscle'', ''e1RM Trend'']"
    "map ch_kind (charts ?v) = [BarChart, LineChart]"
    by (simp_all add: charts_def)
  ultimately show ?thesis using r by - (rule exI, intro conjI, assumption+)
qed

theorem charts_plot_the_series_witness:
  "AnalyticsResponse_of_js (ap_data scenario_loaded) = Some scenario_analytics
   \<and> ap_error scenario_loaded = []
   \<and> (\<exists>v. ap_render scenario_loaded = Inr (ALoaded v)
         \<and> map chart_points (charts v)
             = [[(JStr ''2024-04-22'', JNum (Fin 12)), (JStr ''2024-04-29'', JNum (Fin 16))],
                [(JStr ''2024-04-29'', JNum (Fin 140))]])"
proof -
  have c: "AnalyticsResponse_of_js (ap_data scenario_loaded) = Some scenario_analytics" by simp
  have e: "ap_error scenario_loaded = []" by simp
  from charts_plot_the_series [OF c e] c e show ?thesis
    by (auto simp: scenario_analytics_def)
qed

end
