(* ===== verification/ProfilePage.thy ===== *)
theory ProfilePage
  imports PageKit
begin

text \<open>
  The controller of \<^verbatim>\<open>src/web/src/pages/ProfilePage.tsx\<close>: a draft initialised
  from constants, overwritten by the response of one \<^verbatim>\<open>getProfile\<close> issued on
  mount, edited field by field and saved with \<^verbatim>\<open>updateProfile\<close>.

  Two kinds of requests can be in flight, the load of the mount effect and
  the saves; \<open>pp_pending\<close> tags each request with its kind (\<open>pp_call\<close>) because
  the kind selects the continuation that runs when the response arrives
  (\<open>load_settled\<close> or \<open>save_settled\<close>).
\<close>

section \<open>State and handlers\<close>

datatype profile_field = PAge | PBodyweight | PTrainingAge | PGoal | PMrv

datatype pp_call = Load | Save

record profile_page =
  pp_profile :: jsobj
  pp_message :: string
  pp_pending :: "(pp_call \<times> http_request) list"

datatype pp_event =
    PEdit profile_field string
  | PSubmit
  | PSettled nat fetch_result

definition initial :: jsobj where
  "initial =
     [(''age'', JNat 30), (''bodyweight_kg'', JNat 80), (''training_age_years'', JNat 2),
      (''goal'', JStr ''hypertrophy''), (''mrv_baseline_sets'', JNat 14)]"

definition pp_initial :: profile_page where
  "pp_initial = \<lparr>pp_profile = initial, pp_message = [], pp_pending = []\<rparr>"

definition pp_mount :: "profile_page \<Rightarrow> profile_page" where
  "pp_mount s = s\<lparr>pp_pending := pp_pending s @ [(Load, fst getProfile)]\<rparr>"

definition pp_init :: profile_page where
  "pp_init = pp_mount pp_initial"

definition profile_of_payload :: "jsval \<Rightarrow> js_error + jsobj" where
  "profile_of_payload payload =
     js_bind (js_get payload ''age'') (\<lambda>age.
     js_bind (js_get payload ''bodyweight_kg'') (\<lambda>bodyweight_kg.
     js_bind (js_get payload ''training_age_years'') (\<lambda>training_age_years.
     js_bind (js_get payload ''goal'') (\<lambda>goal.
     js_bind (js_get payload ''mrv_baseline_sets'') (\<lambda>mrv_baseline_sets.
       Inr [(''age'', age), (''bodyweight_kg'', bodyweight_kg),
            (''training_age_years'', training_age_years), (''goal'', goal),
            (''mrv_baseline_sets'', mrv_baseline_sets)])))))"

definition load_settled :: "thrown + jsval \<Rightarrow> profile_page \<Rightarrow> profile_page" where
  "load_settled outcome s =
     (case outcome of
        Inr payload \<Rightarrow>
          (case profile_of_payload payload of
             Inr p \<Rightarrow> s\<lparr>pp_profile := p\<rparr>
           | Inl e \<Rightarrow> s\<lparr>pp_message := catch_message ''Failed to load profile'' (Thrown e)\<rparr>)
      | Inl err \<Rightarrow> s\<lparr>pp_message := catch_message ''Failed to load profile'' err\<rparr>)"

definition save_settled :: "thrown + jsval \<Rightarrow> profile_page \<Rightarrow> profile_page" where
  "save_settled outcome s =
     (case outcome of
        Inr response \<Rightarrow> s\<lparr>pp_message := ''Profile saved''\<rparr>
      | Inl err \<Rightarrow> s\<lparr>pp_message := catch_message ''Failed to save profile'' err\<rparr>)"

definition profile_key :: "profile_field \<Rightarrow> string" where
  "profile_key f =
     (case f of PAge \<Rightarrow> ''age'' | PBodyweight \<Rightarrow> ''bodyweight_kg''
      | PTrainingAge \<Rightarrow> ''training_age_years'' | PGoal \<Rightarrow> ''goal''
      | PMrv \<Rightarrow> ''mrv_baseline_sets'')"

definition profile_value :: "profile_field \<Rightarrow> string \<Rightarrow> jsval" where
  "profile_value f raw = (case f of PGoal \<Rightarrow> JStr raw | _ \<Rightarrow> JNum (js_Number raw))"

definition setField :: "profile_field \<Rightarrow> string \<Rightarrow> jsobj \<Rightarrow> jsobj" where
  "setField f raw prev = obj_set (profile_key f) (profile_value f raw) (obj_spread [] prev)"

definition pp_submit :: "profile_page \<Rightarrow> profile_page" where
  "pp_submit s =
     s\<lparr>pp_pending := pp_pending s @ [(Save, fst (updateProfile (JObj (pp_profile s))))]\<rparr>"

definition pp_settled :: "nat \<Rightarrow> fetch_result \<Rightarrow> profile_page \<Rightarrow> profile_page" where
  "pp_settled k fr s =
     (case fst (pp_pending s ! k) of
        Load \<Rightarrow> load_settled (snd getProfile fr) (s\<lparr>pp_pending := remove_nth k (pp_pending s)\<rparr>)
      | Save \<Rightarrow> save_settled (snd (updateProfile (JObj (pp_profile s))) fr)
                  (s\<lparr>pp_pending := remove_nth k (pp_pending s)\<rparr>))"

fun pp_fire :: "pp_event \<Rightarrow> profile_page \<Rightarrow> profile_page" where
  "pp_fire (PEdit f raw) s = s\<lparr>pp_profile := setField f raw (pp_profile s)\<rparr>"
| "pp_fire PSubmit s = pp_submit s"
| "pp_fire (PSettled k fr) s = pp_settled k fr s"

fun pp_enabled :: "profile_page \<Rightarrow> pp_event \<Rightarrow> bool" where
  "pp_enabled s (PEdit f raw) = True"
| "pp_enabled s PSubmit = True"
| "pp_enabled s (PSettled k fr) = (k < length (pp_pending s))"

fun pp_run :: "pp_event list \<Rightarrow> profile_page \<Rightarrow> profile_page option" where
  "pp_run [] s = Some s"
| "pp_run (e # es) s = (if pp_enabled s e then pp_run es (pp_fire e s) else None)"

inductive pp_reach :: "profile_page \<Rightarrow> bool" where
  pp_start: "pp_reach pp_init"
| pp_step: "pp_reach s \<Longrightarrow> pp_enabled s e \<Longrightarrow> pp_reach (pp_fire e s)"

section \<open>View\<close>

record profile_view =
  pv_inputs :: "form_input list"
  pv_message :: "string option"

definition pp_render :: "profile_page \<Rightarrow> profile_view" where
  "pp_render s =
     \<lparr>pv_inputs =
        [\<lparr>in_label = ''Age'', in_type = ''number'', in_value = field_of (pp_profile s) ''age''\<rparr>,
         \<lparr>in_label = ''Bodyweight (kg)'', in_type = ''number'',
          in_value = field_of (pp_profile s) ''bodyweight_kg''\<rparr>,
         \<lparr>in_label = ''Training age (years)'', in_type = ''number'',
          in_value = field_of (pp_profile s) ''training_age_years''\<rparr>,
         \<lparr>in_label = ''Goal'', in_type = ''text'', in_value = field_of (pp_profile s) ''goal''\<rparr>,
         \<lparr>in_label = ''MRV baseline sets'', in_type = ''number'',
          in_value = field_of (pp_profile s) ''mrv_baseline_sets''\<rparr>],
      pv_message = (if pp_message s \<noteq> [] then Some (pp_message s) else None)\<rparr>"

section \<open>Typed reading\<close>

definition profile_keys :: "string list" where
  "profile_keys = [''age'', ''bodyweight_kg'', ''training_age_years'', ''goal'',
     ''mrv_baseline_sets'']"

definition typed_load :: "UserProfile \<Rightarrow> ProfileUpdate" where
  "typed_load u =
     \<lparr>pu_age = up_age u, pu_bodyweight_kg = up_bodyweight_kg u,
      pu_training_age_years = up_training_age_years u, pu_goal = up_goal u,
      pu_mrv_baseline_sets = up_mrv_baseline_sets u\<rparr>"

definition typed_setField :: "profile_field \<Rightarrow> string \<Rightarrow> ProfileUpdate \<Rightarrow> ProfileUpdate" where
  "typed_setField f raw p =
     (case f of
        PAge \<Rightarrow> p\<lparr>pu_age := js_Number raw\<rparr>
      | PBodyweight \<Rightarrow> p\<lparr>pu_bodyweight_kg := js_Number raw\<rparr>
      | PTrainingAge \<Rightarrow> p\<lparr>pu_training_age_years := js_Number raw\<rparr>
      | PGoal \<Rightarrow> p\<lparr>pu_goal := raw\<rparr>
      | PMrv \<Rightarrow> p\<lparr>pu_mrv_baseline_sets := js_Number raw\<rparr>)"

definition is_pp_settle :: "pp_event \<Rightarrow> bool" where
  "is_pp_settle e = (case e of PSettled k fr \<Rightarrow> True | _ \<Rightarrow> False)"

lemmas pp_defs [js_defs] =
  initial_def pp_initial_def pp_mount_def pp_init_def profile_of_payload_def load_settled_def
  save_settled_def profile_key_def profile_value_def setField_def pp_submit_def pp_settled_def
  pp_render_def profile_keys_def

section \<open>Handlers, field by field\<close>

lemma pp_submit_sel [simp]:
  "pp_profile (pp_submit s) = pp_profile s" "pp_message (pp_submit s) = pp_message s"
  "pp_pending (pp_submit s) = pp_pending s @ [(Save, fst (updateProfile (JObj (pp_profile s))))]"
  by (simp_all add: pp_submit_def)

lemma load_settled_sel [simp]:
  "pp_pending (load_settled out s) = pp_pending s"
  by (simp add: load_settled_def split: sum.splits)

lemma save_settled_sel [simp]:
  "pp_pending (save_settled out s) = pp_pending s"
  "pp_profile (save_settled out s) = pp_profile s"
  "pp_message (save_settled out s) =
     (case out of Inr v \<Rightarrow> ''Profile saved'' | Inl err \<Rightarrow> catch_message ''Failed to save profile'' err)"
  by (simp_all add: save_settled_def split: sum.splits)

lemma pp_settled_pending [simp]:
  "pp_pending (pp_settled k fr s) = remove_nth k (pp_pending s)"
  by (simp add: pp_settled_def split: pp_call.splits)

lemma pp_settled_Load:
  "fst (pp_pending s ! k) = Load \<Longrightarrow>
     pp_settled k fr s = load_settled (settle fr) (s\<lparr>pp_pending := remove_nth k (pp_pending s)\<rparr>)"
  by (simp add: pp_settled_def getProfile_def request_def)

lemma pp_settled_Save:
  "fst (pp_pending s ! k) = Save \<Longrightarrow>
     pp_settled k fr s = save_settled (settle fr) (s\<lparr>pp_pending := remove_nth k (pp_pending s)\<rparr>)"
  by (simp add: pp_settled_def updateProfile_def request_def)

lemma profile_of_payload_obj [simp]:
  "profile_of_payload (JObj ps) =
     Inr [(''age'', field_of ps ''age''), (''bodyweight_kg'', field_of ps ''bodyweight_kg''),
          (''training_age_years'', field_of ps ''training_age_years''),
          (''goal'', field_of ps ''goal''),
          (''mrv_baseline_sets'', field_of ps ''mrv_baseline_sets'')]"
  by (simp add: profile_of_payload_def)

lemma profile_of_payload_keys:
  "profile_of_payload v = Inr p \<Longrightarrow> obj_keys p = profile_keys"
  by (cases v) (auto simp: profile_of_payload_def profile_keys_def)

lemma profile_of_payload_nullish:
  "profile_of_payload v = Inl e \<longleftrightarrow> nullish v \<and> e = TypeError"
  by (cases v) (auto simp: profile_of_payload_def nullish_def)

lemma distinct_profile_keys [simp]: "distinct profile_keys"
  by (simp add: profile_keys_def)

lemma profile_key_in_keys [simp]: "profile_key f \<in> set profile_keys"
  by (cases f) (simp_all add: profile_key_def profile_keys_def)

lemma setField_plain:
  "distinct (obj_keys ps) \<Longrightarrow>
     setField f raw ps = obj_set (profile_key f) (profile_value f raw) ps"
  by (simp add: setField_def obj_spread_into_empty)

lemma setField_keys [shape]:
  "obj_keys ps = profile_keys \<Longrightarrow> obj_keys (setField f raw ps) = profile_keys"
  by (simp add: setField_plain)

lemma setField_refines:
  assumes "ProfileUpdate_of_js (JObj ps) = Some p" and "distinct (obj_keys ps)"
  shows "ProfileUpdate_of_js (JObj (setField f raw ps)) = Some (typed_setField f raw p)"
  using assms(1)
  by (cases f)
    (simp_all add: setField_plain [OF assms(2)] ProfileUpdate_of_js_iff num_at_obj_set
      str_at_obj_set profile_key_def profile_value_def typed_setField_def)

lemma load_refines:
  assumes "UserProfile_of_js v = Some u"
  shows "\<exists>p. profile_of_payload v = Inr p \<and> ProfileUpdate_of_js (JObj p) = Some (typed_load u)"
proof -
  from assms obtain ps where v: "v = JObj ps" by (auto dest: of_js_is_object)
  with assms have "num_at ps ''age'' = Some (up_age u)"
    "num_at ps ''bodyweight_kg'' = Some (up_bodyweight_kg u)"
    "num_at ps ''training_age_years'' = Some (up_training_age_years u)"
    "str_at ps ''goal'' = Some (up_goal u)"
    "num_at ps ''mrv_baseline_sets'' = Some (up_mrv_baseline_sets u)"
    by (simp_all add: UserProfile_of_js_iff)
  then show ?thesis
    by (simp add: v ProfileUpdate_of_js_iff typed_load_def field_of_num field_of_str
        num_at_def str_at_def)
qed

section \<open>Invariant\<close>

definition pp_inv :: "profile_page \<Rightarrow> bool" where
  "pp_inv s = (obj_keys (pp_profile s) = profile_keys
               \<and> length (filter (\<lambda>c. fst c = Load) (pp_pending s)) \<le> 1)"

lemma pp_inv_init: "pp_inv pp_init"
  by (simp add: pp_inv_def pp_init_def pp_mount_def pp_initial_def initial_def profile_keys_def)

lemma load_settled_keys:
  "obj_keys (pp_profile s) = profile_keys \<Longrightarrow>
     obj_keys (pp_profile (load_settled out s)) = profile_keys"
  by (auto simp: load_settled_def profile_of_payload_keys split: sum.splits)

lemma pp_inv_fire: "pp_inv s \<Longrightarrow> pp_enabled s e \<Longrightarrow> pp_inv (pp_fire e s)"
proof (cases e)
  case (PEdit f raw)
  assume "pp_inv s"
  with PEdit show ?thesis by (simp add: pp_inv_def setField_keys)
next
  case PSubmit
  assume "pp_inv s"
  with PSubmit show ?thesis by (simp add: pp_inv_def)
next
  case (PSettled k fr)
  assume inv: "pp_inv s"
  have "length (filter (\<lambda>c. fst c = Load) (remove_nth k (pp_pending s))) \<le> 1"
    using inv filter_remove_nth_le [of "\<lambda>c. fst c = Load" k "pp_pending s"]
    by (simp add: pp_inv_def)
  moreover have "obj_keys (pp_profile (pp_settled k fr s)) = profile_keys"
    using inv by (cases "fst (pp_pending s ! k)")
      (simp_all add: pp_settled_Load pp_settled_Save load_settled_keys pp_inv_def)
  ultimately show ?thesis using PSettled by (simp add: pp_inv_def)
qed

lemma pp_reach_inv: "pp_reach s \<Longrightarrow> pp_inv s"
  by (induction rule: pp_reach.induct) (simp_all add: pp_inv_init pp_inv_fire)

lemma pp_run_reach: "pp_reach s \<Longrightarrow> pp_run es s = Some t \<Longrightarrow> pp_reach t"
proof (induction es arbitrary: s)
  case Nil
  then show ?case by simp
next
  case (Cons e es)
  then show ?case by (auto split: if_splits intro: pp_reach.pp_step)
qed

lemma pp_run_keeps_first_pending:
  "pp_run es s = Some t \<Longrightarrow> list_all (\<lambda>e. \<not> is_pp_settle e) es \<Longrightarrow> pp_pending s \<noteq> [] \<Longrightarrow>
     pp_pending t \<noteq> [] \<and> pp_pending t ! 0 = pp_pending s ! 0"
proof (induction es arbitrary: s)
  case Nil
  then show ?case by simp
next
  case (Cons e es)
  from Cons.prems have run: "pp_run es (pp_fire e s) = Some t"
    and rest: "list_all (\<lambda>e. \<not> is_pp_settle e) es" and ne: "\<not> is_pp_settle e"
    by (auto split: if_splits)
  from ne Cons.prems(3) have "pp_pending (pp_fire e s) \<noteq> []
      \<and> pp_pending (pp_fire e s) ! 0 = pp_pending s ! 0"
    by (cases e) (simp_all add: is_pp_settle_def nth_append)
  with Cons.IH [OF run rest] show ?case by simp
qed

section \<open>Properties\<close>

text \<open>
  C10. Loading the profile: when the response of the mount's \<^verbatim>\<open>getProfile\<close>
  arrives with a status in 200--299 and a body that is a \<^verbatim>\<open>UserProfile\<close>, the
  draft becomes the five editable fields of that profile (the identifier is
  dropped), the message is left as it was, and the request is no longer in
  flight.
\<close>

theorem profile_load_populates_draft:
  assumes "k < length (pp_pending s)" and "fst (pp_pending s ! k) = Load"
    and "rs_ok r" and "rs_json r = Some v" and "UserProfile_of_js v = Some u"
  shows "ProfileUpdate_of_js (JObj (pp_profile (pp_fire (PSettled k (Responded r)) s)))
           = Some (typed_load u)
    \<and> pp_message (pp_fire (PSettled k (Responded r)) s) = pp_message s
    \<and> pp_pending (pp_fire (PSettled k (Responded r)) s) = remove_nth k (pp_pending s)"
proof -
  from load_refines [OF assms(5)] obtain p where
    p: "profile_of_payload v = Inr p" "ProfileUpdate_of_js (JObj p) = Some (typed_load u)"
    by blast
  with assms(2-4) show ?thesis
    by (simp add: pp_settled_Load settle_ok load_settled_def)
qed

theorem profile_load_populates_draft_witness:
  "ProfileUpdate_of_js (JObj (pp_profile (pp_fire (PSettled 0 (Responded
       \<lparr>rs_status = 200, rs_statusText = ''OK'',
        rs_json = Some (JObj [(''user_id'', JNat 1), (''age'', JNat 41),
          (''bodyweight_kg'', JNat 92), (''training_age_years'', JNat 10),
          (''goal'', JStr ''strength''), (''mrv_baseline_sets'', JNat 18)])\<rparr>)) pp_init)))
   = Some \<lparr>pu_age = Fin 41, pu_bodyweight_kg = Fin 92, pu_training_age_years = Fin 10,
       pu_goal = ''strength'', pu_mrv_baseline_sets = Fin 18\<rparr>"
proof -
  have a: "0 < length (pp_pending pp_init)" "fst (pp_pending pp_init ! 0) = Load"
    by (simp_all add: pp_init_def pp_mount_def pp_initial_def)
  have u: "UserProfile_of_js (JObj [(''user_id'', JNat 1), (''age'', JNat 41),
          (''bodyweight_kg'', JNat 92), (''training_age_years'', JNat 10),
          (''goal'', JStr ''strength''), (''mrv_baseline_sets'', JNat 18)])
     = Some \<lparr>up_user_id = Fin 1, up_age = Fin 41, up_bodyweight_kg = Fin 92,
         up_training_age_years = Fin 10, up_goal = ''strength'', up_mrv_baseline_sets = Fin 18\<rparr>"
    by (simp add: UserProfile_of_js_def reader_defs)
  from profile_load_populates_draft [OF a _ _ u, of "\<lparr>rs_status = 200, rs_statusText = ''OK'',
        rs_json = Some (JObj [(''user_id'', JNat 1), (''age'', JNat 41),
          (''bodyweight_kg'', JNat 92), (''training_age_years'', JNat 10),
          (''goal'', JStr ''strength''), (''mrv_baseline_sets'', JNat 18)])\<rparr>"]
  show ?thesis by (simp add: rs_ok_def typed_load_def)
qed

text \<open>
  C21. Outcome of saving the profile, on every branch: when the response of an
  \<^verbatim>\<open>updateProfile\<close> arrives, the draft is unchanged (the stored profile the
  server returns is discarded) and the message is \<^verbatim>\<open>Profile saved\<close> for a status
  in 200--299 with a JSON body, the \<^verbatim>\<open>ApiError\<close>'s message (the body's \<^verbatim>\<open>detail\<close>,
  else the status text) for a status outside 200--299, and
  \<^verbatim>\<open>Failed to save profile\<close> when the network failed or a 2xx body is not JSON.
  In particular a network failure is caught and reported.
\<close>

theorem profile_save_outcome:
  assumes "fst (pp_pending s ! k) = Save"
  shows "pp_profile (pp_fire (PSettled k fr) s) = pp_profile s
    \<and> pp_message (pp_fire (PSettled k fr) s) =
        (case fr of
           NetworkFailure \<Rightarrow> ''Failed to save profile''
         | Responded r \<Rightarrow>
             if \<not> rs_ok r then js_to_string (error_detail r)
             else (case rs_json r of None \<Rightarrow> ''Failed to save profile''
                   | Some v \<Rightarrow> ''Profile saved''))"
  using assms
  by (simp add: pp_settled_Save settle_def split: fetch_result.splits option.splits)

theorem profile_save_outcome_witness:
  "pp_message (pp_fire (PSettled 1 (Responded \<lparr>rs_status = 422,
       rs_statusText = ''Unprocessable Entity'',
       rs_json = Some (JObj [(''detail'', JStr ''age must be positive'')])\<rparr>))
     (pp_fire PSubmit pp_init)) = ''age must be positive''
   \<and> pp_message (pp_fire (PSettled 1 NetworkFailure) (pp_fire PSubmit pp_init))
     = ''Failed to save profile''"
proof -
  have a: "fst (pp_pending (pp_fire PSubmit pp_init) ! 1) = Save"
    by (simp add: pp_init_def pp_mount_def pp_initial_def)
  show ?thesis
    using profile_save_outcome [OF a, of "Responded \<lparr>rs_status = 422,
       rs_statusText = ''Unprocessable Entity'',
       rs_json = Some (JObj [(''detail'', JStr ''age must be positive'')])\<rparr>"]
      profile_save_outcome [OF a, of NetworkFailure]
    by (simp add: rs_ok_def error_detail_def coalesce_def nullish_def)
qed

text \<open>
  Shape invariant of the profile draft: in every reachable state the
  draft has exactly the five fields of \<^verbatim>\<open>ProfileUpdate\<close> in declaration order and
  at most one \<^verbatim>\<open>getProfile\<close> is in flight; and whenever the draft reads as a
  \<^verbatim>\<open>ProfileUpdate\<close>, editing a field acts on that reading as the typed update of
  that field (numbers through \<^verbatim>\<open>Number\<close>, the goal as text).
\<close>

theorem profile_draft_shape_invariant:
  assumes "pp_reach s"
  shows "obj_keys (pp_profile s) = profile_keys
    \<and> length (filter (\<lambda>c. fst c = Load) (pp_pending s)) \<le> 1
    \<and> (\<forall>p f raw. ProfileUpdate_of_js (JObj (pp_profile s)) = Some p \<longrightarrow>
          ProfileUpdate_of_js (JObj (pp_profile (pp_fire (PEdit f raw) s)))
            = Some (typed_setField f raw p))"
proof -
  from assms have inv: "pp_inv s" by (rule pp_reach_inv)
  then have "distinct (obj_keys (pp_profile s))" by (simp add: pp_inv_def)
  with inv show ?thesis by (simp add: pp_inv_def setField_refines)
qed

theorem profile_draft_shape_invariant_witness:
  "pp_reach pp_init
   \<and> ProfileUpdate_of_js (JObj (pp_profile (pp_fire (PEdit PBodyweight ''81.5'') pp_init)))
     = Some \<lparr>pu_age = Fin 30, pu_bodyweight_kg = Fin (163 / 2), pu_training_age_years = Fin 2,
         pu_goal = ''hypertrophy'', pu_mrv_baseline_sets = Fin 14\<rparr>"
proof -
  have r: "pp_reach pp_init" by (rule pp_reach.pp_start)
  have rd: "ProfileUpdate_of_js (JObj (pp_profile pp_init))
     = Some \<lparr>pu_age = Fin 30, pu_bodyweight_kg = Fin 80, pu_training_age_years = Fin 2,
         pu_goal = ''hypertrophy'', pu_mrv_baseline_sets = Fin 14\<rparr>"
    by (simp add: pp_init_def pp_mount_def pp_initial_def initial_def ProfileUpdate_of_js_def
        reader_defs)
  have n: "js_Number ''81.5'' = Fin (163 / 2)" by (simp add: js_defs)
  from profile_draft_shape_invariant [OF r] rd r show ?thesis
    by (simp add: typed_setField_def n)
qed

text \<open>
  C37. A late load overwrites the user's edits: whatever the user edits and
  saves before the response of the mount's \<^verbatim>\<open>getProfile\<close> arrives, that request
  is still in flight, and when its response arrives with a \<^verbatim>\<open>UserProfile\<close> the
  draft is replaced by the loaded profile: every edit made in between is lost.
\<close>

theorem late_load_overwrites_edits:
  assumes "pp_run es pp_init = Some s" and "list_all (\<lambda>e. \<not> is_pp_settle e) es"
    and "rs_ok r" and "rs_json r = Some v" and "UserProfile_of_js v = Some u"
  shows "pp_reach s \<and> pp_enabled s (PSettled 0 (Responded r))
    \<and> ProfileUpdate_of_js (JObj (pp_profile (pp_fire (PSettled 0 (Responded r)) s)))
        = Some (typed_load u)"
proof -
  have "pp_pending pp_init \<noteq> []" "pp_pending pp_init ! 0 = (Load, fst getProfile)"
    by (simp_all add: pp_init_def pp_mount_def pp_initial_def)
  with pp_run_keeps_first_pending [OF assms(1,2)]
  have pend: "pp_pending s \<noteq> []" "fst (pp_pending s ! 0) = Load" by simp_all
  from load_refines [OF assms(5)] obtain p where
    p: "profile_of_payload v = Inr p" "ProfileUpdate_of_js (JObj p) = Some (typed_load u)"
    by blast
  from pend p assms(3,4) have
    "ProfileUpdate_of_js (JObj (pp_profile (pp_fire (PSettled 0 (Responded r)) s)))
        = Some (typed_load u)"
    by (simp add: pp_settled_Load settle_ok load_settled_def)
  moreover have "pp_reach s" using pp_run_reach [OF pp_reach.pp_start assms(1)] .
  ultimately show ?thesis using pend by simp
qed

theorem late_load_overwrites_edits_witness:
  "pp_run [PEdit PGoal ''strength'', PEdit PAge ''35'', PSubmit] pp_init
     = Some (pp_fire PSubmit (pp_fire (PEdit PAge ''35'') (pp_fire (PEdit PGoal ''strength'') pp_init)))
   \<and> pu_goal (the (ProfileUpdate_of_js (JObj (pp_profile
        (pp_fire PSubmit (pp_fire (PEdit PAge ''35'') (pp_fire (PEdit PGoal ''strength'') pp_init)))))))
     = ''strength''
   \<and> ProfileUpdate_of_js (JObj (pp_profile (pp_fire (PSettled 0 (Responded
         \<lparr>rs_status = 200, rs_statusText = ''OK'',
          rs_json = Some (UserProfile_to_js \<lparr>up_user_id = Fin 1, up_age = Fin 30,
            up_bodyweight_kg = Fin 80, up_training_age_years = Fin 2, up_goal = ''hypertrophy'',
            up_mrv_baseline_sets = Fin 14\<rparr>)\<rparr>))
        (pp_fire PSubmit (pp_fire (PEdit PAge ''35'') (pp_fire (PEdit PGoal ''strength'') pp_init))))))
     = Some \<lparr>pu_age = Fin 30, pu_bodyweight_kg = Fin 80, pu_training_age_years = Fin 2,
         pu_goal = ''hypertrophy'', pu_mrv_baseline_sets = Fin 14\<rparr>"
proof -
  have run: "pp_run [PEdit PGoal ''strength'', PEdit PAge ''35'', PSubmit] pp_init
     = Some (pp_fire PSubmit (pp_fire (PEdit PAge ''35'') (pp_fire (PEdit PGoal ''strength'') pp_init)))"
    by simp
  have ns: "list_all (\<lambda>e. \<not> is_pp_settle e) [PEdit PGoal ''strength'', PEdit PAge ''35'', PSubmit]"
    by (simp add: is_pp_settle_def)
  have g: "pu_goal (the (ProfileUpdate_of_js (JObj (pp_profile
        (pp_fire PSubmit (pp_fire (PEdit PAge ''35'') (pp_fire (PEdit PGoal ''strength'') pp_init)))))))
     = ''strength''"
    by (simp add: pp_init_def pp_mount_def pp_initial_def initial_def setField_def
        profile_key_def profile_value_def ProfileUpdate_of_js_def reader_defs)
  from late_load_overwrites_edits [OF run ns _ _ UserProfile_roundtrip,
      of "\<lparr>rs_status = 200, rs_statusText = ''OK'',
          rs_json = Some (UserProfile_to_js \<lparr>up_user_id = Fin 1, up_age = Fin 30,
            up_bodyweight_kg = Fin 80, up_training_age_years = Fin 2, up_goal = ''hypertrophy'',
            up_mrv_baseline_sets = Fin 14\<rparr>)\<rparr>"] g
  show ?thesis by (simp add: rs_ok_def typed_load_def)
qed

text \<open>
  A failed load leaves the built-in defaults in the form: when the
  mount's \<^verbatim>\<open>getProfile\<close> fails, the message reports it (the \<^verbatim>\<open>ApiError\<close>'s
  message, else \<^verbatim>\<open>Failed to load profile\<close>), the draft still holds the constants
  \<^verbatim>\<open>30, 80, 2, hypertrophy, 14\<close>, and saving then sends \<^verbatim>\<open>PUT /api/profile\<close> with
  exactly those constants as body.
\<close>

theorem failed_load_then_save_writes_defaults:
  assumes "settle fr = Inl err"
  shows "pp_run [PSettled 0 fr, PSubmit] pp_init
      = Some \<lparr>pp_profile = initial,
              pp_message = catch_message ''Failed to load profile'' err,
              pp_pending = [(Save, \<lparr>rq_url = ''/api/profile'', rq_method = ''PUT'',
                 rq_headers = [(''Content-Type'', ''application/json'')],
                 rq_body = Some (JObj initial)\<rparr>)]\<rparr>"
proof -
  have "json_value (JObj initial) = Some (JObj initial)"
    by (simp add: initial_def)
  with assms show ?thesis
    by (simp add: pp_init_def pp_mount_def pp_initial_def pp_settled_Load load_settled_def
        pp_submit_def updateProfile_def request_def default_headers_def del: json_value.simps)
qed

theorem failed_load_then_save_writes_defaults_witness:
  "settle (Responded \<lparr>rs_status = 503, rs_statusText = ''Service Unavailable'',
       rs_json = None\<rparr>) = Inl (ApiError 503 ''Service Unavailable'')
   \<and> map_option pp_message (pp_run [PSettled 0 (Responded \<lparr>rs_status = 503,
        rs_statusText = ''Service Unavailable'', rs_json = None\<rparr>), PSubmit] pp_init)
     = Some ''Service Unavailable''"
proof -
  have s: "settle (Responded \<lparr>rs_status = 503, rs_statusText = ''Service Unavailable'',
       rs_json = None\<rparr>) = Inl (ApiError 503 ''Service Unavailable'')"
    by (simp add: settle_def rs_ok_def error_detail_def)
  from failed_load_then_save_writes_defaults [OF s] s show ?thesis
    by simp
qed

end
