(* ===== verification/App.thy ===== *)
theory App
  imports Shell DashboardPage LogSessionPage MetricsPage AnalyticsPage ProfilePage
begin

text \<open>
  The application as the shell composes it (\<^verbatim>\<open>src/web/src/App.tsx\<close>): one
  location and, under it, the controller of the one page the route table
  shows there.

  \<^item> \<open>mount\<close> creates a controller in its initial state, with the request of its
    mount effect in flight. A controller lives as long as its route is shown:
    navigating to another page discards it, with its draft and with the
    requests it has in flight, and navigating back mounts a new one.
  \<^item> \<open>app_fire\<close> is the step function of the application. An event of a page
    applies only while that page is mounted and offers it; otherwise the
    result is \<open>None\<close>.
  \<^item> \<open>deliver net k\<close> lets the network \<open>net\<close> answer the \<open>k\<close>-th request in flight:
    it is the only place where a request meets its response.
\<close>

section \<open>State\<close>

datatype page_state =
    SDashboard dashboard_page
  | SLogSession log_session_page
  | SMetrics metrics_page
  | SAnalytics analytics_page
  | SProfile profile_page

record app =
  app_location :: string
  app_page :: page_state

datatype app_event =
    Navigate string string
  | DashboardEv dp_event
  | LogSessionEv ls_event
  | MetricsEv mp_event
  | AnalyticsEv ap_event
  | ProfileEv pp_event

definition mount :: "string \<Rightarrow> page \<Rightarrow> page_state" where
  "mount today p =
     (case p of
        Dashboard \<Rightarrow> SDashboard dp_init
      | LogSession \<Rightarrow> SLogSession (ls_init today)
      | Metrics \<Rightarrow> SMetrics (mp_init today)
      | Analytics \<Rightarrow> SAnalytics ap_init
      | Profile \<Rightarrow> SProfile pp_init)"

fun page_of :: "page_state \<Rightarrow> page" where
  "page_of (SDashboard s) = Dashboard"
| "page_of (SLogSession s) = LogSession"
| "page_of (SMetrics s) = Metrics"
| "page_of (SAnalytics s) = Analytics"
| "page_of (SProfile s) = Profile"

definition app_start :: "string \<Rightarrow> string \<Rightarrow> app option" where
  "app_start url today =
     map_option (\<lambda>(loc, p). \<lparr>app_location = loc, app_page = mount today p\<rparr>)
       (settle_location url)"

definition navigate :: "string \<Rightarrow> string \<Rightarrow> app \<Rightarrow> app option" where
  "navigate href today a =
     map_option
       (\<lambda>(loc, p). if p = page_of (app_page a) then a\<lparr>app_location := loc\<rparr>
                    else \<lparr>app_location = loc, app_page = mount today p\<rparr>)
       (settle_location href)"

fun app_fire :: "app_event \<Rightarrow> app \<Rightarrow> app option" where
  "app_fire (Navigate href today) a = navigate href today a"
| "app_fire (DashboardEv e) a =
     (case app_page a of
        SDashboard s \<Rightarrow> if dp_enabled s e then Some (a\<lparr>app_page := SDashboard (dp_fire e s)\<rparr>)
                        else None
      | _ \<Rightarrow> None)"
| "app_fire (LogSessionEv e) a =
     (case app_page a of
        SLogSession s \<Rightarrow> if ls_enabled s e then Some (a\<lparr>app_page := SLogSession (ls_fire e s)\<rparr>)
                         else None
      | _ \<Rightarrow> None)"
| "app_fire (MetricsEv e) a =
     (case app_page a of
        SMetrics s \<Rightarrow> if mp_enabled s e then Some (a\<lparr>app_page := SMetrics (mp_fire e s)\<rparr>)
                      else None
      | _ \<Rightarrow> None)"
| "app_fire (AnalyticsEv e) a =
     (case app_page a of
        SAnalytics s \<Rightarrow> if ap_enabled s e then Some (a\<lparr>app_page := SAnalytics (ap_fire e s)\<rparr>)
                        else None
      | _ \<Rightarrow> None)"
| "app_fire (ProfileEv e) a =
     (case app_page a of
        SProfile s \<Rightarrow> if pp_enabled s e then Some (a\<lparr>app_page := SProfile (pp_fire e s)\<rparr>)
                      else None
      | _ \<Rightarrow> None)"

fun app_run :: "app_event list \<Rightarrow> app \<Rightarrow> app option" where
  "app_run [] a = Some a"
| "app_run (e # es) a = (case app_fire e a of None \<Rightarrow> None | Some b \<Rightarrow> app_run es b)"

inductive app_reach :: "app \<Rightarrow> bool" where
  app_begin: "app_start url today = Some a \<Longrightarrow> app_reach a"
| app_step: "app_reach a \<Longrightarrow> app_fire e a = Some b \<Longrightarrow> app_reach b"

section \<open>The network\<close>

fun in_flight :: "page_state \<Rightarrow> http_request list" where
  "in_flight (SDashboard s) = dp_pending s"
| "in_flight (SLogSession s) = lsp_pending s"
| "in_flight (SMetrics s) = mp_pending s"
| "in_flight (SAnalytics s) = ap_pending s"
| "in_flight (SProfile s) = map snd (pp_pending s)"

fun settled_event :: "page_state \<Rightarrow> nat \<Rightarrow> fetch_result \<Rightarrow> app_event" where
  "settled_event (SDashboard s) k fr = DashboardEv (DSettled k fr)"
| "settled_event (SLogSession s) k fr = LogSessionEv (Settled k fr)"
| "settled_event (SMetrics s) k fr = MetricsEv (MSettled k fr)"
| "settled_event (SAnalytics s) k fr = AnalyticsEv (ASettled k fr)"
| "settled_event (SProfile s) k fr = ProfileEv (PSettled k fr)"

definition deliver :: "network \<Rightarrow> nat \<Rightarrow> app \<Rightarrow> app option" where
  "deliver net k a =
     (if k < length (in_flight (app_page a))
      then app_fire (settled_event (app_page a) k (net (in_flight (app_page a) ! k))) a
      else None)"

text \<open>The servers of the specification's scenarios B, C and D.\<close>

definition scenario_B_net :: network where
  "scenario_B_net rq =
     (if rq_method rq = ''POST'' \<and> rq_url rq = ''/api/log-session''
      then Responded \<lparr>rs_status = 200, rs_statusText = ''OK'',
             rs_json = Some (JObj [(''session_id'', JNat 42)])\<rparr>
      else NetworkFailure)"

definition scenario_C_net :: network where
  "scenario_C_net rq =
     (if rq_method rq = ''GET'' \<and> rq_url rq = ''/api/analytics?user_id=1&exercise=Squat''
      then Responded \<lparr>rs_status = 404, rs_statusText = ''Not Found'',
             rs_json = Some (JObj [(''detail'', JStr ''no data'')])\<rparr>
      else NetworkFailure)"

definition scenario_D_net :: network where
  "scenario_D_net rq =
     (if rq_method rq = ''GET'' \<and> rq_url rq = ''/api/profile''
      then Responded \<lparr>rs_status = 200, rs_statusText = ''OK'',
             rs_json = Some (UserProfile_to_js
               \<lparr>up_user_id = Fin 1, up_age = Fin 41, up_bodyweight_kg = Fin 92,
                up_training_age_years = Fin 10, up_goal = ''strength'',
                up_mrv_baseline_sets = Fin 18\<rparr>)\<rparr>
      else NetworkFailure)"

section \<open>Invariant\<close>

fun page_inv :: "page_state \<Rightarrow> bool" where
  "page_inv (SDashboard s) = (length (dp_pending s) \<le> 1)"
| "page_inv (SLogSession s) = ls_inv s"
| "page_inv (SMetrics s) = metrics_ok (mp_metrics s)"
| "page_inv (SAnalytics s) = list_all is_analytics_get (ap_pending s)"
| "page_inv (SProfile s) = pp_inv s"

definition app_inv :: "app \<Rightarrow> bool" where
  "app_inv a = (route (app_location a) = Show (page_of (app_page a)) \<and> page_inv (app_page a))"

lemmas app_defs [js_defs] = mount_def app_start_def navigate_def deliver_def app_inv_def
  scenario_B_net_def scenario_C_net_def scenario_D_net_def

lemma page_of_mount [simp]: "page_of (mount today p) = p"
  by (cases p) (simp_all add: mount_def)

lemma page_inv_mount [simp]: "page_inv (mount today p)"
  by (cases p)
    (simp_all add: mount_def ls_inv_init metrics_ok_mp_init pp_inv_init)

lemma settle_location_cases:
  "settle_location path = Some (loc, p) \<Longrightarrow> loc = href_of p"
proof -
  assume a: "settle_location path = Some (loc, p)"
  from route_total [of path] show ?thesis
  proof
    assume "\<exists>q. route path = Show q \<and> path = href_of q"
    then obtain q where "path = href_of q" by blast
    with a show ?thesis by auto
  next
    assume "route path = Redirect ''/''"
    from settle_unknown [OF this] a show ?thesis by (simp add: href_of_def)
  qed
qed

lemma settle_location_total: "\<exists>p. settle_location path = Some (href_of p, p)"
proof -
  from route_total [of path] show ?thesis
  proof
    assume "\<exists>q. route path = Show q \<and> path = href_of q"
    then show ?thesis by auto
  next
    assume "route path = Redirect ''/''"
    from settle_unknown [OF this] show ?thesis
      by (intro exI [of _ Dashboard]) (simp add: href_of_def)
  qed
qed

lemma app_start_inv: "app_start url today = Some a \<Longrightarrow> app_inv a"
  by (auto simp: app_start_def app_inv_def dest!: settle_location_cases)

lemma navigate_inv: "app_inv a \<Longrightarrow> navigate href today a = Some b \<Longrightarrow> app_inv b"
  by (auto simp: navigate_def app_inv_def dest!: settle_location_cases split: if_splits)

lemma dp_pending_fire: "dp_enabled s e \<Longrightarrow> length (dp_pending (dp_fire e s)) \<le> length (dp_pending s)"
  by (cases e) (simp add: remove_nth_def)

lemma app_fire_inv: "app_inv a \<Longrightarrow> app_fire e a = Some b \<Longrightarrow> app_inv b"
proof (cases e)
  case (Navigate href today)
  assume "app_inv a" "app_fire e a = Some b"
  with Navigate show ?thesis by (simp add: navigate_inv)
next
  case (DashboardEv ev)
  assume "app_inv a" "app_fire e a = Some b"
  with DashboardEv show ?thesis
    using dp_pending_fire [of _ ev]
    by (fastforce simp: app_inv_def split: page_state.splits if_splits)
next
  case (LogSessionEv ev)
  assume "app_inv a" "app_fire e a = Some b"
  with LogSessionEv show ?thesis
    by (auto simp: app_inv_def ls_inv_fire split: page_state.splits if_splits)
next
  case (MetricsEv ev)
  assume "app_inv a" "app_fire e a = Some b"
  with MetricsEv show ?thesis
    by (auto simp: app_inv_def mp_fire_keeps_metrics_ok split: page_state.splits if_splits)
next
  case (AnalyticsEv ev)
  assume "app_inv a" "app_fire e a = Some b"
  with AnalyticsEv show ?thesis
    by (cases ev)
      (auto simp: app_inv_def list_all_remove_nth split: page_state.splits if_splits)
next
  case (ProfileEv ev)
  assume "app_inv a" "app_fire e a = Some b"
  with ProfileEv show ?thesis
    by (auto simp: app_inv_def pp_inv_fire split: page_state.splits if_splits)
qed

lemma app_reach_inv: "app_reach a \<Longrightarrow> app_inv a"
  by (induction rule: app_reach.induct) (simp_all add: app_start_inv app_fire_inv)

lemma app_run_reach: "app_reach a \<Longrightarrow> app_run es a = Some b \<Longrightarrow> app_reach b"
proof (induction es arbitrary: a)
  case Nil
  then show ?case by simp
next
  case (Cons e es)
  then show ?case by (auto split: option.splits intro: app_reach.app_step)
qed

lemma navigate_to_page:
  "navigate (href_of p) today a =
     Some (if p = page_of (app_page a) then a\<lparr>app_location := href_of p\<rparr>
           else \<lparr>app_location = href_of p, app_page = mount today p\<rparr>)"
  by (simp add: navigate_def)

lemma app_start_page [simp]:
  "app_start (href_of p) today = Some \<lparr>app_location = href_of p, app_page = mount today p\<rparr>"
  by (simp add: app_start_def)

lemma metric_edits_agree:
  "mp_metrics m = lsp_metrics l \<Longrightarrow>
     mp_metrics (fold (\<lambda>(k, r). mp_fire (MEdit k r)) edits m)
       = lsp_metrics (fold (\<lambda>(k, r). ls_fire (EditMetric k r)) edits l)"
  by (induction edits arbitrary: m l) (auto simp: case_prod_unfold)

end
