(* ===== verification/Screen.thy ===== *)
theory Screen
  imports App
begin

text \<open>
  The screen: what \<^verbatim>\<open>src/web/src/App.tsx\<close> renders for a state of the
  application. The route that matches the location gives the page; the page
  is rendered into the outlet of \<open>Layout\<close>, which adds the title and the
  navigation bar (\<^verbatim>\<open>src/web/src/components/Layout.tsx\<close>).

  A render of the dashboard or of the analytics page can throw
  (\<open>dp_render\<close>, \<open>ap_render\<close>). Neither \<^verbatim>\<open>App.tsx\<close> nor \<^verbatim>\<open>Layout.tsx\<close> has an error
  boundary, so an error thrown by the page is the result of the whole render:
  \<open>app_render\<close> gives the error and no screen.
\<close>

section \<open>Definitions\<close>

datatype page_view =
    VDashboard dashboard_view
  | VLogSession log_session_view
  | VMetrics metrics_view
  | VAnalytics analytics_view
  | VProfile profile_view

fun view_page :: "page_view \<Rightarrow> page" where
  "view_page (VDashboard v) = Dashboard"
| "view_page (VLogSession v) = LogSession"
| "view_page (VMetrics v) = Metrics"
| "view_page (VAnalytics v) = Analytics"
| "view_page (VProfile v) = Profile"

fun page_render :: "page_state \<Rightarrow> js_error + page_view" where
  "page_render (SDashboard s) = js_bind (dp_render s) (\<lambda>v. Inr (VDashboard v))"
| "page_render (SLogSession s) = Inr (VLogSession (ls_render s))"
| "page_render (SMetrics s) = Inr (VMetrics (mp_render s))"
| "page_render (SAnalytics s) = js_bind (ap_render s) (\<lambda>v. Inr (VAnalytics v))"
| "page_render (SProfile s) = Inr (VProfile (pp_render s))"

definition app_render :: "app \<Rightarrow> js_error + page_view layout_view" where
  "app_render a = js_bind (page_render (app_page a)) (\<lambda>v. Inr (Layout (app_location a) v))"

section \<open>Lemmas\<close>

lemma page_render_page: "page_render ps = Inr v \<Longrightarrow> view_page v = page_of ps"
  by (cases ps) (auto simp: js_bind_eq_Inr_iff)


lemma app_render_Inr_iff:
  "app_render a = Inr scr \<longleftrightarrow>
     (\<exists>v. page_render (app_page a) = Inr v \<and> scr = Layout (app_location a) v)"
  by (auto simp: app_render_def js_bind_eq_Inr_iff)


lemma app_inv_location: "app_inv a \<Longrightarrow> app_location a = href_of (page_of (app_page a))"
  by (simp add: app_inv_def route_Show_iff)

section \<open>Properties\<close>

text \<open>
  C19. The screen is consistent with the location: in every reachable state of
  the application whose render succeeds, the screen has the title, the five
  links in the order of the route table, the page of the current location
  in the outlet, and exactly one highlighted link, the one of that page.
\<close>

theorem screen_matches_location:
  assumes "app_reach a" and "app_render a = Inr scr"
  shows "ly_title scr = ''Gymyo Adaptive Training''
       \<and> map nl_href (ly_nav scr) = map fst routes
       \<and> route (app_location a) = Show (view_page (ly_main scr))
       \<and> map nl_href (filter nl_active (ly_nav scr)) = [app_location a]"
proof -
  from assms(1) have inv: "app_inv a" by (rule app_reach_inv)
  from assms(2) obtain v where v: "page_render (app_page a) = Inr v"
    and scr: "scr = Layout (app_location a) v"
    by (auto simp: app_render_Inr_iff)
  have "map nl_href (layout_links (app_location a)) = map fst routes"
    by (simp add: layout_links_def links_def routes_def)
  moreover from inv have "route (app_location a) = Show (view_page v)"
    by (simp add: app_inv_def page_render_page [OF v])
  moreover have "map nl_href (filter nl_active (layout_links (app_location a))) = [app_location a]"
    unfolding app_inv_location [OF inv] by (rule active_link_of_page)
  ultimately show ?thesis by (simp add: scr Layout_def)
qed

theorem screen_matches_location_witness:
  "app_reach \<lparr>app_location = ''/metrics'', app_page = SMetrics (mp_init ''2024-05-01'')\<rparr>
   \<and> app_render \<lparr>app_location = ''/metrics'', app_page = SMetrics (mp_init ''2024-05-01'')\<rparr>
       = Inr (Layout ''/metrics'' (VMetrics (mp_render (mp_init ''2024-05-01''))))
   \<and> map nl_href (filter nl_active (ly_nav (Layout ''/metrics''
        (VMetrics (mp_render (mp_init ''2024-05-01'')))))) = [''/metrics'']
   \<and> map nl_label (filter nl_active (ly_nav (Layout ''/metrics''
        (VMetrics (mp_render (mp_init ''2024-05-01'')))))) = [''Metrics'']"
proof -
  let ?a = "\<lparr>app_location = ''/metrics'', app_page = SMetrics (mp_init ''2024-05-01'')\<rparr>"
  have "app_start ''/metrics'' ''2024-05-01'' = Some ?a"
    by (simp add: app_start_def mount_def)
  then have r: "app_reach ?a" by (rule app_reach.app_begin)
  have s: "app_render ?a = Inr (Layout ''/metrics'' (VMetrics (mp_render (mp_init ''2024-05-01''))))"
    by (simp add: app_render_def)
  have l: "map nl_label (filter nl_active (ly_nav (Layout ''/metrics''
        (VMetrics (mp_render (mp_init ''2024-05-01'')))))) = [''Metrics'']"
    by (simp add: Layout_def layout_links_def links_def)
  from screen_matches_location [OF r s]
  have h: "map nl_href (filter nl_active (ly_nav (Layout ''/metrics''
        (VMetrics (mp_render (mp_init ''2024-05-01'')))))) = [''/metrics'']"
    by simp
  from r s h l show ?thesis by (intro conjI)
qed



end
