(* ===== verification/Decimal.thy ===== *)
theory Decimal
  imports JsNumber
begin

text \<open>
  The loop a number goes through in this program: it is printed
  (\<open>number_to_string\<close>: into the \<^verbatim>\<open>value\<close> of a controlled input, into a request
  body) and read back (\<open>js_Number\<close>: \<^verbatim>\<open>Number(event.target.value)\<close>, the JSON
  parser of the server and of \<^verbatim>\<open>response.json()\<close>).

  \<open>is_decimal r\<close> says that \<open>r\<close> has at most 20 fraction digits, the digits
  \<open>frac_digits\<close> prints; it is decided by running the same digit loop and looking
  at what is left (\<open>frac_rest\<close>). For such numbers printing is exact and reading
  the print gives the number back (\<open>number_roundtrip\<close>). For every finite number
  the print is a JSON number token (\<open>json_number_ok\<close>).
\<close>

section \<open>Definitions\<close>

fun frac_rest :: "nat \<Rightarrow> rat \<Rightarrow> rat" where
  "frac_rest 0 r = r"
| "frac_rest (Suc k) r =
     (if r = 0 then 0 else frac_rest k (r * 10 - of_nat (nat \<lfloor>r * 10\<rfloor>)))"

definition frac_part :: "rat \<Rightarrow> rat" where
  "frac_part r = \<bar>r\<bar> - of_nat (nat \<lfloor>\<bar>r\<bar>\<rfloor>)"

definition is_decimal :: "rat \<Rightarrow> bool" where
  "is_decimal r = (frac_rest 20 (frac_part r) = 0)"

definition prints_exactly :: "number \<Rightarrow> bool" where
  "prints_exactly n = (case n of Fin r \<Rightarrow> is_decimal r | _ \<Rightarrow> True)"

text \<open>
  The number token of JSON: an optional minus, an integer part without a
  leading zero, an optional fraction, an optional exponent.
\<close>

definition json_int_ok :: "string \<Rightarrow> bool" where
  "json_int_ok s = (s \<noteq> [] \<and> list_all is_digit s \<and> (hd s = CHR ''0'' \<longrightarrow> length s = 1))"

definition json_frac_exp_ok :: "string \<Rightarrow> bool" where
  "json_frac_exp_ok s =
     (if s \<noteq> [] \<and> hd s = CHR ''.''
      then takeWhile is_digit (tl s) \<noteq> [] \<and> dropWhile is_digit (tl s) \<noteq> ''e''
           \<and> dropWhile is_digit (tl s) \<noteq> ''E''
           \<and> parse_exponent (dropWhile is_digit (tl s)) \<noteq> None
      else s \<noteq> ''e'' \<and> s \<noteq> ''E'' \<and> parse_exponent s \<noteq> None)"

definition json_number_ok :: "string \<Rightarrow> bool" where
  "json_number_ok s =
     (let u = (if s \<noteq> [] \<and> hd s = CHR ''-'' then tl s else s)
      in json_int_ok (takeWhile is_digit u) \<and> json_frac_exp_ok (dropWhile is_digit u))"

lemmas decimal_defs [js_defs] =
  frac_part_def is_decimal_def prints_exactly_def json_int_ok_def json_frac_exp_ok_def
  json_number_ok_def

section \<open>Fraction digits\<close>

lemma digits_val_Cons: "digits_val (c # s) = digit_val c * 10 ^ length s + digits_val s"
proof (induction s arbitrary: c rule: rev_induct)
  case Nil
  then show ?case by (simp add: digits_val_def)
next
  case (snoc x xs)
  have "digits_val (c # xs @ [x]) = 10 * digits_val (c # xs) + digit_val x"
    using digits_val_snoc [of "c # xs" x] by simp
  with snoc show ?case by (simp add: algebra_simps)
qed

lemma frac_step:
  fixes r :: rat
  assumes "0 \<le> r" "r < 1"
  shows "nat \<lfloor>r * 10\<rfloor> < 10" "0 \<le> r * 10 - of_nat (nat \<lfloor>r * 10\<rfloor>)"
    "r * 10 - of_nat (nat \<lfloor>r * 10\<rfloor>) < 1"
proof -
  from assms have nn: "0 \<le> \<lfloor>r * 10\<rfloor>" by simp
  from assms have "r * 10 < 10" by simp
  then have "\<lfloor>r * 10\<rfloor> < 10" by (simp add: floor_less_iff)
  with nn show "nat \<lfloor>r * 10\<rfloor> < 10" by arith
  from nn have eq: "(of_nat (nat \<lfloor>r * 10\<rfloor>) :: rat) = of_int \<lfloor>r * 10\<rfloor>" by simp
  show "0 \<le> r * 10 - of_nat (nat \<lfloor>r * 10\<rfloor>)" unfolding eq by simp
  show "r * 10 - of_nat (nat \<lfloor>r * 10\<rfloor>) < 1" unfolding eq by linarith
qed

lemma frac_digits_all_digits: "0 \<le> r \<Longrightarrow> r < 1 \<Longrightarrow> list_all is_digit (frac_digits k r)"
proof (induction k arbitrary: r)
  case 0
  then show ?case by simp
next
  case (Suc k)
  from frac_step [OF Suc.prems] Suc.IH show ?case by (simp add: Let_def)
qed

lemma frac_digits_nonempty: "r \<noteq> 0 \<Longrightarrow> frac_digits (Suc k) r \<noteq> []"
  by (simp add: Let_def)

lemma frac_digits_value:
  "0 \<le> r \<Longrightarrow> r < 1 \<Longrightarrow>
     of_nat (digits_val (frac_digits k r)) / 10 ^ length (frac_digits k r)
       + frac_rest k r / 10 ^ length (frac_digits k r) = r"
proof (induction k arbitrary: r)
  case 0
  then show ?case by (simp add: digits_val_def)
next
  case (Suc k)
  show ?case
  proof (cases "r = 0")
    case True
    then show ?thesis by (simp add: digits_val_def)
  next
    case False
    let ?d = "nat \<lfloor>r * 10\<rfloor>"
    let ?r' = "r * 10 - of_nat ?d"
    let ?ds = "frac_digits k ?r'"
    note st = frac_step [OF Suc.prems]
    from Suc.IH [OF st(2,3)]
    have ih: "of_nat (digits_val ?ds) / 10 ^ length ?ds + frac_rest k ?r' / 10 ^ length ?ds = ?r'" .
    have "of_nat (digits_val (digit_char ?d # ?ds)) / (10 :: rat) ^ length (digit_char ?d # ?ds)
            + frac_rest k ?r' / 10 ^ length (digit_char ?d # ?ds)
          = of_nat ?d / 10
            + (of_nat (digits_val ?ds) / 10 ^ length ?ds + frac_rest k ?r' / 10 ^ length ?ds) / 10"
      using st(1) by (simp add: digits_val_Cons field_simps)
    also have "\<dots> = r" unfolding ih by (simp add: field_simps)
    finally show ?thesis using False by (simp add: Let_def)
  qed
qed

lemma frac_part_range: "0 \<le> frac_part r" "frac_part r < 1"
proof -
  have eq: "(of_nat (nat \<lfloor>\<bar>r\<bar>\<rfloor>) :: rat) = of_int \<lfloor>\<bar>r\<bar>\<rfloor>" by simp
  show "0 \<le> frac_part r" unfolding frac_part_def eq by simp
  show "frac_part r < 1" unfolding frac_part_def eq by linarith
qed

lemma abs_split: "\<bar>r\<bar> = of_nat (nat \<lfloor>\<bar>r\<bar>\<rfloor>) + frac_part r"
  by (simp add: frac_part_def)

section \<open>The print of a number\<close>

lemma rat_to_string_parts:
  "rat_to_string r =
     (if r < 0 then ''-'' else []) @ nat_digits (nat \<lfloor>\<bar>r\<bar>\<rfloor>) @
     (if frac_part r = 0 then [] else ''.'' @ frac_digits 20 (frac_part r))"
  by (simp add: rat_to_string_def frac_part_def Let_def)

lemma dot_not_digit [simp]: "\<not> is_digit CHR ''.''" "\<not> is_digit CHR ''-''"
  by (simp_all add: is_digit_def)

lemma takeWhile_digits_then:
  "list_all is_digit ds \<Longrightarrow> (t = [] \<or> \<not> is_digit (hd t)) \<Longrightarrow> takeWhile is_digit (ds @ t) = ds"
  by (induction ds) (auto simp: takeWhile_eq_Nil_iff neq_Nil_conv)

lemma dropWhile_digits_then:
  "list_all is_digit ds \<Longrightarrow> (t = [] \<or> \<not> is_digit (hd t)) \<Longrightarrow> dropWhile is_digit (ds @ t) = t"
  by (induction ds) (auto simp: dropWhile_eq_self_iff neq_Nil_conv)

lemma hd_nat_digits_nonzero: "n \<noteq> 0 \<Longrightarrow> hd (nat_digits n) \<noteq> CHR ''0''"
proof (induction n rule: nat_digits.induct)
  case (1 n)
  show ?case
  proof (cases "n < 10")
    case True
    with "1.prems" have "n \<in> {1, 2, 3, 4, 5, 6, 7, 8, 9}" by auto
    then show ?thesis by (subst nat_digits.simps) (auto simp: digit_char_def)
  next
    case False
    then have "n div 10 \<noteq> 0" by simp
    with "1.IH" False show ?thesis by (subst nat_digits.simps) simp
  qed
qed

lemma json_int_ok_nat_digits [simp]: "json_int_ok (nat_digits n)"
proof (cases "n = 0")
  case True
  then show ?thesis by (simp add: json_int_ok_def is_digit_def)
next
  case False
  then show ?thesis by (simp add: json_int_ok_def hd_nat_digits_nonzero)
qed

text \<open>
  What \<open>parse_unsigned\<close> reads from an integer part followed by nothing or by a
  point and fraction digits.
\<close>

lemma parse_unsigned_decimal:
  assumes "list_all is_digit ds" and "tail = [] \<or> (ds \<noteq> [] \<and> tail = ''.'' @ ds)"
  shows "parse_unsigned (nat_digits n @ tail) =
           Fin (of_nat n + (if tail = [] then 0
                            else of_nat (digits_val ds) / 10 ^ length ds))"
proof -
  have nd: "list_all is_digit (nat_digits n)" by simp
  have first: "is_digit (hd (nat_digits n @ tail))"
    using hd_nat_digits_digit [of n] by simp
  have inf: "nat_digits n @ tail \<noteq> ''Infinity''"
  proof
    assume "nat_digits n @ tail = ''Infinity''"
    then have "hd (nat_digits n @ tail) = CHR ''I''" by simp
    with first show False by (simp add: is_digit_def)
  qed
  from assms(2) have t: "tail = [] \<or> \<not> is_digit (hd tail)" by auto
  note split = takeWhile_digits_then [OF nd t] dropWhile_digits_then [OF nd t]
  from assms(2) show ?thesis
  proof
    assume "tail = []"
    then show ?thesis by (simp add: parse_unsigned_digits)
  next
    assume *: "ds \<noteq> [] \<and> tail = ''.'' @ ds"
    from assms(1) have ds: "takeWhile is_digit ds = ds" "dropWhile is_digit ds = []"
      by (simp_all add: takeWhile_all dropWhile_all)
    from inf split * ds show ?thesis
      by (simp add: parse_unsigned_def parse_exponent_def Let_def takeWhile_all dropWhile_all
          assms(1))
  qed
qed

lemma parse_unsigned_print:
  assumes "0 \<le> a" and "is_decimal a"
  shows "parse_unsigned (rat_to_string a) = Fin a"
proof -
  let ?n = "nat \<lfloor>\<bar>a\<bar>\<rfloor>"
  let ?f = "frac_part a"
  let ?ds = "frac_digits 20 ?f"
  have digits: "list_all is_digit ?ds"
    by (rule frac_digits_all_digits) (rule frac_part_range)+
  from assms(2) frac_digits_value [OF frac_part_range, of 20 a]
  have val: "of_nat (digits_val ?ds) / 10 ^ length ?ds = ?f"
    by (simp add: is_decimal_def)
  have ne: "?f \<noteq> 0 \<Longrightarrow> ?ds \<noteq> []"
    using frac_digits_nonempty [of ?f 19] by simp
  from assms(1) have a: "of_nat ?n + ?f = a"
    using abs_split [of a] by simp
  from assms(1) have str:
    "rat_to_string a = nat_digits ?n @ (if ?f = 0 then [] else ''.'' @ ?ds)"
    by (simp add: rat_to_string_parts)
  show ?thesis
  proof (cases "?f = 0")
    case True
    have "parse_unsigned (nat_digits ?n @ []) = Fin (of_nat ?n + 0)"
      using parse_unsigned_decimal [OF digits, of "[]" ?n] by simp
    with True a show ?thesis unfolding str by simp
  next
    case False
    have "parse_unsigned (nat_digits ?n @ ''.'' @ ?ds) = Fin (of_nat ?n + ?f)"
      using parse_unsigned_decimal [OF digits, of "''.'' @ ?ds" ?n] ne [OF False]
      by (simp add: val)
    with False a show ?thesis unfolding str by simp
  qed
qed

lemma is_decimal_minus [simp]: "is_decimal (- r) = is_decimal r"
  by (simp add: is_decimal_def frac_part_def)

lemma rat_to_string_negative: "r < 0 \<Longrightarrow> rat_to_string r = ''-'' @ rat_to_string (- r)"
  by (simp add: rat_to_string_parts frac_part_def)

lemma rat_to_string_first_digit: "0 \<le> a \<Longrightarrow> is_digit (hd (rat_to_string a))"
  using hd_nat_digits_digit [of "nat \<lfloor>\<bar>a\<bar>\<rfloor>"] by (simp add: rat_to_string_parts)

lemma rat_to_string_chars:
  "c \<in> set (rat_to_string r) \<Longrightarrow> is_digit c \<or> c = CHR ''.'' \<or> c = CHR ''-''"
  using nat_digits_all_digits [of "nat \<lfloor>\<bar>r\<bar>\<rfloor>"]
    frac_digits_all_digits [OF frac_part_range, of 20 r]
  by (auto simp: rat_to_string_parts list_all_iff split: if_splits)

section \<open>Reading the print back\<close>

lemma rat_to_string_nonempty [simp]: "rat_to_string r \<noteq> []"
  by (simp add: rat_to_string_parts)

lemma rat_to_string_no_ws: "list_all (\<lambda>c. \<not> is_ws c) (rat_to_string r)"
  using rat_to_string_chars [of _ r] by (auto simp: list_all_iff is_ws_def is_digit_def)

lemma rat_to_string_no_radix_prefix:
  "take 2 (rat_to_string r) \<notin> set [''0x'', ''0X'', ''0o'', ''0O'', ''0b'', ''0B'']"
proof
  assume "take 2 (rat_to_string r) \<in> set [''0x'', ''0X'', ''0o'', ''0O'', ''0b'', ''0B'']"
  then have "last (take 2 (rat_to_string r)) \<in> set ''xXoObB''" by auto
  moreover have "take 2 (rat_to_string r) \<noteq> []" by simp
  ultimately have "\<exists>c \<in> set (rat_to_string r). c \<in> set ''xXoObB''"
    by (metis in_set_takeD last_in_set)
  with rat_to_string_chars [of _ r] show False by (auto simp: is_digit_def)
qed

lemma js_Number_clean:
  assumes "list_all (\<lambda>c. \<not> is_ws c) t" and "t \<noteq> []"
    and "take 2 t \<notin> set [''0x'', ''0X'', ''0o'', ''0O'', ''0b'', ''0B'']"
  shows "js_Number t =
           (if hd t = CHR ''+'' then parse_unsigned (tl t)
            else if hd t = CHR ''-'' then negate (parse_unsigned (tl t))
            else parse_unsigned t)"
proof -
  from assms(3) have "take 2 t \<notin> set [''0x'', ''0X'']" "take 2 t \<notin> set [''0o'', ''0O'']"
    "take 2 t \<notin> set [''0b'', ''0B'']"
    by auto
  then show ?thesis
    unfolding js_Number_def Let_def trim_no_ws [OF assms(1)] using assms(2)
    by (simp only: if_False)
qed

lemma js_Number_print:
  assumes "is_decimal r"
  shows "js_Number (rat_to_string r) = Fin r"
proof -
  note clean = js_Number_clean [OF rat_to_string_no_ws rat_to_string_nonempty
      rat_to_string_no_radix_prefix]
  show ?thesis
  proof (cases "r < 0")
    case True
    then have p: "parse_unsigned (rat_to_string (- r)) = Fin (- r)"
      using assms by (intro parse_unsigned_print) simp_all
    from True have t: "rat_to_string r = CHR ''-'' # rat_to_string (- r)"
      by (simp add: rat_to_string_negative)
    have "js_Number (rat_to_string r) = negate (parse_unsigned (rat_to_string (- r)))"
      unfolding clean [of r] by (simp add: t)
    then show ?thesis by (simp add: p negate_def)
  next
    case False
    then have p: "parse_unsigned (rat_to_string r) = Fin r"
      using assms by (intro parse_unsigned_print) simp_all
    from False have "is_digit (hd (rat_to_string r))"
      by (intro rat_to_string_first_digit) simp
    then have "hd (rat_to_string r) \<noteq> CHR ''+''" "hd (rat_to_string r) \<noteq> CHR ''-''"
      by (auto simp: is_digit_def)
    then show ?thesis unfolding clean [of r] by (simp add: p)
  qed
qed

text \<open>
  The print of a number is read back as the number: the loop of a controlled
  input (\<^verbatim>\<open>value={n}\<close>, then \<^verbatim>\<open>Number(event.target.value)\<close>) and of a number in a
  JSON text.
\<close>

lemma number_roundtrip: "prints_exactly n \<Longrightarrow> js_Number (number_to_string n) = n"
proof (cases n)
  case (Fin r)
  assume "prints_exactly n"
  with Fin show ?thesis by (simp add: prints_exactly_def js_Number_print)
qed (simp_all add: js_defs)

lemma frac_rest_0 [simp]: "frac_rest k 0 = 0"
  by (cases k) simp_all

lemma is_decimal_of_nat [simp]: "is_decimal (of_nat n)"
  by (simp add: is_decimal_def frac_part_def)

lemma is_decimal_of_int [simp]: "is_decimal (of_int i)"
proof -
  have "\<bar>rat_of_int i\<bar> = of_nat (nat \<bar>i\<bar>)" by simp
  then have "frac_part (of_int i) = 0"
    unfolding frac_part_def by (simp del: of_nat_nat)
  then show ?thesis by (simp add: is_decimal_def)
qed

lemma is_decimal_numeral [simp]: "is_decimal (numeral k)" "is_decimal 0" "is_decimal 1"
  using is_decimal_of_nat [of "numeral k"] is_decimal_of_nat [of 0] is_decimal_of_nat [of 1]
  by simp_all

text \<open>
  The numbers that print exactly are the decimal fractions with at most
  twenty digits after the point.
\<close>

lemma unit_interval_Ints: "0 \<le> r \<Longrightarrow> r < 1 \<Longrightarrow> (r :: rat) \<in> \<int> \<longleftrightarrow> r = 0"
proof
  assume "0 \<le> r" "r < 1" "r \<in> \<int>"
  then obtain z where "r = of_int z" by (auto elim: Ints_cases)
  with \<open>0 \<le> r\<close> \<open>r < 1\<close> show "r = 0" by simp
qed simp

lemma Ints_diff_iff: "(b :: rat) \<in> \<int> \<Longrightarrow> a - b \<in> \<int> \<longleftrightarrow> a \<in> \<int>"
  using Ints_add [of "a - b" b] Ints_diff [of a b] by auto

lemma frac_rest_zero_iff: "0 \<le> r \<Longrightarrow> r < 1 \<Longrightarrow> frac_rest k r = 0 \<longleftrightarrow> r * 10 ^ k \<in> \<int>"
proof (induction k arbitrary: r)
  case 0
  then show ?case by (simp add: unit_interval_Ints)
next
  case (Suc k)
  let ?q = "r * 10 - of_nat (nat \<lfloor>r * 10\<rfloor>)"
  from Suc.prems have q: "?q = r * 10 - of_int \<lfloor>r * 10\<rfloor>" by simp
  then have "0 \<le> ?q" "?q < 1" by linarith+
  then have "frac_rest k ?q = 0 \<longleftrightarrow> ?q * 10 ^ k \<in> \<int>" by (rule Suc.IH)
  also have "?q * 10 ^ k = r * 10 ^ Suc k - of_int \<lfloor>r * 10\<rfloor> * 10 ^ k"
    unfolding q by (simp add: algebra_simps)
  also have "\<dots> \<in> \<int> \<longleftrightarrow> r * 10 ^ Suc k \<in> \<int>"
    by (rule Ints_diff_iff) simp
  finally show ?case by (cases "r = 0") simp_all
qed

lemma is_decimal_iff: "is_decimal r \<longleftrightarrow> r * 10 ^ 20 \<in> \<int>"
proof -
  have "is_decimal r \<longleftrightarrow> frac_part r * 10 ^ 20 \<in> \<int>"
    unfolding is_decimal_def by (rule frac_rest_zero_iff) (rule frac_part_range)+
  also have "frac_part r * 10 ^ 20 = \<bar>r\<bar> * 10 ^ 20 - of_nat (nat \<lfloor>\<bar>r\<bar>\<rfloor>) * 10 ^ 20"
    by (simp add: frac_part_def algebra_simps)
  also have "\<dots> \<in> \<int> \<longleftrightarrow> \<bar>r\<bar> * 10 ^ 20 \<in> \<int>"
    by (rule Ints_diff_iff) simp
  also have "\<dots> \<longleftrightarrow> r * 10 ^ 20 \<in> \<int>"
    by (cases "r < 0") (simp_all add: abs_if)
  finally show ?thesis .
qed

lemma prints_exactly_Fin [simp]: "prints_exactly (Fin r) \<longleftrightarrow> is_decimal r"
  by (simp add: prints_exactly_def)

section \<open>The print is a JSON number\<close>

lemma json_number_ok_print: "json_number_ok (rat_to_string r)"
proof -
  let ?n = "nat \<lfloor>\<bar>r\<bar>\<rfloor>"
  let ?ds = "frac_digits 20 (frac_part r)"
  let ?tail = "if frac_part r = 0 then [] else ''.'' @ ?ds"
  have digits: "list_all is_digit ?ds"
    by (rule frac_digits_all_digits) (rule frac_part_range)+
  have ne: "frac_part r \<noteq> 0 \<Longrightarrow> ?ds \<noteq> []"
    using frac_digits_nonempty [of "frac_part r" 19] by simp
  have u: "(if rat_to_string r \<noteq> [] \<and> hd (rat_to_string r) = CHR ''-''
            then tl (rat_to_string r) else rat_to_string r) = nat_digits ?n @ ?tail"
    using hd_nat_digits_digit [of ?n]
    by (auto simp: rat_to_string_parts is_digit_def)
  have t: "?tail = [] \<or> \<not> is_digit (hd ?tail)" by simp
  have "json_frac_exp_ok ?tail"
    using digits ne
    by (simp add: json_frac_exp_ok_def takeWhile_all dropWhile_all parse_exponent_def)
  then show ?thesis
    unfolding json_number_ok_def Let_def u
    by (simp add: takeWhile_digits_then [OF _ t] dropWhile_digits_then [OF _ t])
qed

end
