(* ===== verification/JsonText.thy ===== *)
theory JsonText
  imports JsValue Decimal
begin

text \<open>
  JSON as text: what \<^verbatim>\<open>JSON.stringify\<close> writes for a document (\<open>json_text\<close>,
  \<open>stringify\<close>) and what \<^verbatim>\<open>response.json()\<close> reads (\<open>json_parse\<close>).

  The printer writes no white space, escapes the quote, the backslash and the
  control characters below \<^verbatim>\<open>0x20\<close>, and prints numbers as \<open>number_to_string\<close>
  does. The reader follows the JSON grammar: white space between tokens, the
  nine escapes of strings (\<^verbatim>\<open>\uXXXX\<close> decoded to UTF-8, a surrogate pair to one
  code point), numbers checked by \<open>json_number_ok\<close> and valued by \<open>js_Number\<close>,
  and for a key that occurs twice the last value, at the place of the first.
  A string is read by \<open>read_string\<close>, which ends because every character read
  shortens the text. Nesting is followed with fuel: \<open>json_parse\<close> gives the
  reader twice the length of the text and one unit more, and
  \<open>parse_value_fuel\<close> shows that this is enough for every text: no larger amount
  changes the result, so \<open>None\<close> always means that the text is not JSON.

  \<open>json_parse_text\<close> is the round trip: a document whose numbers print exactly
  and whose objects have distinct keys is read back from its text unchanged.
\<close>

section \<open>Printing\<close>

definition dquote :: char where
  "dquote = CHR 0x22"

definition backslash :: char where
  "backslash = CHR 0x5C"

definition hex_lower :: "nat \<Rightarrow> char" where
  "hex_lower d = ''0123456789abcdef'' ! d"

definition escape_char :: "char \<Rightarrow> string" where
  "escape_char c =
     (if c = dquote then [backslash, dquote]
      else if c = backslash then [backslash, backslash]
      else if c = CHR 0x08 then [backslash, CHR ''b'']
      else if c = CHR 0x0C then [backslash, CHR ''f'']
      else if c = CHR 0x0A then [backslash, CHR ''n'']
      else if c = CHR 0x0D then [backslash, CHR ''r'']
      else if c = CHR 0x09 then [backslash, CHR ''t'']
      else if (of_char c :: nat) < 32
        then [backslash, CHR ''u'', CHR ''0'', CHR ''0'',
              hex_lower (of_char c div 16), hex_lower (of_char c mod 16)]
      else [c])"

definition quote :: "string \<Rightarrow> string" where
  "quote s = dquote # concat (map escape_char s) @ [dquote]"

fun json_text :: "jsval \<Rightarrow> string" where
  "json_text JUndefined = ''null''"
| "json_text JNull = ''null''"
| "json_text (JBool b) = (if b then ''true'' else ''false'')"
| "json_text (JNum n) = (if is_finite n then number_to_string n else ''null'')"
| "json_text (JStr s) = quote s"
| "json_text (JArr xs) = ''['' @ intercalate '','' (map json_text xs) @ '']''"
| "json_text (JObj ps) =
     ''{'' @ intercalate '','' (map (\<lambda>p. quote (fst p) @ '':'' @ json_text (snd p)) ps) @ ''}''"

definition stringify :: "jsval \<Rightarrow> string option" where
  "stringify v = map_option json_text (json_value v)"

section \<open>Reading\<close>

definition is_json_ws :: "char \<Rightarrow> bool" where
  "is_json_ws c = (c \<in> set [CHR 0x20, CHR 0x09, CHR 0x0A, CHR 0x0D])"

definition skip_ws :: "string \<Rightarrow> string" where
  "skip_ws s = dropWhile is_json_ws s"

definition utf8 :: "nat \<Rightarrow> string" where
  "utf8 n =
     (if n < 0x80 then [char_of n]
      else if n < 0x800 then [char_of (0xC0 + n div 64), char_of (0x80 + n mod 64)]
      else if n < 0x10000
        then [char_of (0xE0 + n div 4096), char_of (0x80 + n div 64 mod 64),
              char_of (0x80 + n mod 64)]
      else [char_of (0xF0 + n div 262144), char_of (0x80 + n div 4096 mod 64),
            char_of (0x80 + n div 64 mod 64), char_of (0x80 + n mod 64)])"

definition hex4 :: "string \<Rightarrow> nat option" where
  "hex4 s = (if length s < 4 then None else radix_val 16 0 (take 4 s))"

definition unicode_escape :: "string \<Rightarrow> (string \<times> string) option" where
  "unicode_escape s =
     (case hex4 s of
        None \<Rightarrow> None
      | Some hi \<Rightarrow>
          (let r = drop 4 s
           in if 0xD800 \<le> hi \<and> hi < 0xDC00 \<and> take 2 r = [backslash, CHR ''u'']
              then (case hex4 (drop 2 r) of
                      None \<Rightarrow> Some (utf8 hi, r)
                    | Some lo \<Rightarrow>
                        if 0xDC00 \<le> lo \<and> lo < 0xE000
                        then Some (utf8 (0x10000 + (hi - 0xD800) * 0x400 + (lo - 0xDC00)),
                                   drop 6 r)
                        else Some (utf8 hi, r))
              else Some (utf8 hi, r)))"

definition simple_escape :: "char \<Rightarrow> char option" where
  "simple_escape e =
     (if e = dquote \<or> e = backslash \<or> e = CHR ''/'' then Some e
      else if e = CHR ''b'' then Some (CHR 0x08)
      else if e = CHR ''f'' then Some (CHR 0x0C)
      else if e = CHR ''n'' then Some (CHR 0x0A)
      else if e = CHR ''r'' then Some (CHR 0x0D)
      else if e = CHR ''t'' then Some (CHR 0x09)
      else None)"

definition read_char :: "string \<Rightarrow> (string \<times> string) option" where
  "read_char s =
     (case s of
        [] \<Rightarrow> None
      | c # cs \<Rightarrow>
          if c = backslash
          then (case cs of
                  [] \<Rightarrow> None
                | e # r \<Rightarrow>
                    if e = CHR ''u'' then unicode_escape r
                    else map_option (\<lambda>d. ([d], r)) (simple_escape e))
          else if (of_char c :: nat) < 32 then None
          else Some ([c], cs))"

lemma unicode_escape_shorter: "unicode_escape s = Some (d, r) \<Longrightarrow> length r \<le> length s"
  by (auto simp: unicode_escape_def Let_def split: option.splits if_splits)

lemma read_char_shorter: "read_char s = Some (d, r) \<Longrightarrow> length r < length s"
  by (auto simp: read_char_def split: list.splits if_splits dest!: unicode_escape_shorter)

function read_string :: "string \<Rightarrow> (string \<times> string) option" where
  "read_string s =
     (if s \<noteq> [] \<and> hd s = dquote then Some ([], tl s)
      else case read_char s of
             None \<Rightarrow> None
           | Some (d, r) \<Rightarrow> map_option (\<lambda>(t, r'). (d @ t, r')) (read_string r))"
  by pat_completeness auto

termination
  by (relation "measure length") (auto dest: read_char_shorter)

definition parse_string :: "string \<Rightarrow> (string \<times> string) option" where
  "parse_string s = (if s \<noteq> [] \<and> hd s = dquote then read_string (tl s) else None)"

definition is_number_char :: "char \<Rightarrow> bool" where
  "is_number_char c = (is_digit c \<or> c \<in> set ''+-.eE'')"

definition parse_number :: "string \<Rightarrow> (jsval \<times> string) option" where
  "parse_number s =
     (let tok = takeWhile is_number_char s
      in if json_number_ok tok then Some (JNum (js_Number tok), dropWhile is_number_char s)
         else None)"

definition parse_literal :: "string \<Rightarrow> (jsval \<times> string) option" where
  "parse_literal s =
     (if take 4 s = ''true'' then Some (JBool True, drop 4 s)
      else if take 5 s = ''false'' then Some (JBool False, drop 5 s)
      else if take 4 s = ''null'' then Some (JNull, drop 4 s)
      else parse_number s)"

fun parse_value :: "nat \<Rightarrow> string \<Rightarrow> (jsval \<times> string) option"
  and parse_elements :: "nat \<Rightarrow> jsval list \<Rightarrow> string \<Rightarrow> (jsval \<times> string) option"
  and parse_members :: "nat \<Rightarrow> jsobj \<Rightarrow> string \<Rightarrow> (jsval \<times> string) option" where
  "parse_value 0 s = None"
| "parse_value (Suc n) s =
     (case s of
        [] \<Rightarrow> None
      | c # cs \<Rightarrow>
          if c = CHR ''{''
          then (let t = skip_ws cs
                in if t \<noteq> [] \<and> hd t = CHR ''}'' then Some (JObj [], tl t)
                   else parse_members n [] t)
          else if c = CHR ''[''
          then (let t = skip_ws cs
                in if t \<noteq> [] \<and> hd t = CHR '']'' then Some (JArr [], tl t)
                   else parse_elements n [] t)
          else if c = dquote then map_option (\<lambda>(x, r). (JStr x, r)) (parse_string s)
          else parse_literal s)"
| "parse_elements 0 acc s = None"
| "parse_elements (Suc n) acc s =
     (case parse_value n s of
        None \<Rightarrow> None
      | Some (v, r) \<Rightarrow>
          (case skip_ws r of
             [] \<Rightarrow> None
           | c # cs \<Rightarrow>
               if c = CHR '','' then parse_elements n (acc @ [v]) (skip_ws cs)
               else if c = CHR '']'' then Some (JArr (acc @ [v]), cs)
               else None))"
| "parse_members 0 acc s = None"
| "parse_members (Suc n) acc s =
     (case parse_string s of
        None \<Rightarrow> None
      | Some (k, r) \<Rightarrow>
          (case skip_ws r of
             [] \<Rightarrow> None
           | c # cs \<Rightarrow>
               if c \<noteq> CHR '':'' then None
               else (case parse_value n (skip_ws cs) of
                       None \<Rightarrow> None
                     | Some (v, r') \<Rightarrow>
                         (case skip_ws r' of
                            [] \<Rightarrow> None
                          | d # ds \<Rightarrow>
                              if d = CHR '','' then parse_members n (obj_set k v acc) (skip_ws ds)
                              else if d = CHR ''}'' then Some (JObj (obj_set k v acc), ds)
                              else None))))"

definition json_parse :: "string \<Rightarrow> jsval option" where
  "json_parse s =
     (case parse_value (Suc (2 * length s)) (skip_ws s) of
        None \<Rightarrow> None
      | Some (v, r) \<Rightarrow> if skip_ws r = [] then Some v else None)"

fun printable :: "jsval \<Rightarrow> bool" where
  "printable JUndefined = False"
| "printable JNull = True"
| "printable (JBool b) = True"
| "printable (JNum n) = (is_finite n \<and> prints_exactly n)"
| "printable (JStr s) = True"
| "printable (JArr xs) = list_all printable xs"
| "printable (JObj ps) = (distinct (map fst ps) \<and> list_all (\<lambda>p. printable (snd p)) ps)"

lemmas json_text_defs [js_defs] =
  dquote_def backslash_def hex_lower_def escape_char_def quote_def stringify_def is_json_ws_def
  skip_ws_def utf8_def hex4_def unicode_escape_def simple_escape_def read_char_def
  parse_string_def is_number_char_def parse_number_def parse_literal_def json_parse_def

section \<open>Strings\<close>

declare read_string.simps [simp del]

lemma dquote_neq [simp]:
  "dquote \<noteq> CHR ''{''" "dquote \<noteq> CHR ''[''" "dquote \<noteq> CHR '']''" "dquote \<noteq> CHR ''}''"
  "dquote \<noteq> CHR '',''" "dquote \<noteq> CHR '':''" "\<not> is_json_ws dquote"
  by (simp_all add: dquote_def is_json_ws_def)

lemma escape_char_nonempty [simp]: "escape_char c \<noteq> []"
  by (simp add: escape_char_def)

lemma hd_escape_char [simp]: "hd (escape_char c) \<noteq> dquote"
  by (simp add: escape_char_def dquote_def backslash_def)

lemma radix_digit_hex_lower: "d < 16 \<Longrightarrow> radix_digit (hex_lower d) = Some d"
proof -
  have "\<forall>d \<in> set [0 ..< 16]. radix_digit (hex_lower d) = Some d"
    by (simp add: upt_rec numeral_eq_Suc radix_digit_def hex_lower_def is_digit_def digit_val_def)
  then show "d < 16 \<Longrightarrow> ?thesis" by simp
qed

lemma hex4_low:
  assumes "h < 16" "l < 16"
  shows "hex4 (CHR ''0'' # CHR ''0'' # hex_lower h # hex_lower l # rest) = Some (16 * h + l)"
proof -
  have "radix_digit CHR ''0'' = Some 0"
    by (simp add: radix_digit_def is_digit_def digit_val_def)
  with assms show ?thesis
    by (simp add: hex4_def radix_digit_hex_lower)
qed

lemma unicode_escape_low:
  assumes "h < 8" "l < 16"
  shows "unicode_escape (CHR ''0'' # CHR ''0'' # hex_lower h # hex_lower l # rest)
           = Some ([char_of (16 * h + l)], rest)"
proof -
  from assms have "16 * h + l < 0x80" by simp
  moreover from assms have "hex4 (CHR ''0'' # CHR ''0'' # hex_lower h # hex_lower l # rest)
      = Some (16 * h + l)"
    by (intro hex4_low) simp_all
  ultimately show ?thesis
    by (simp add: unicode_escape_def utf8_def)
qed

lemma read_char_escape: "read_char (escape_char c @ rest) = Some ([c], rest)"
proof (cases "(of_char c :: nat) < 32")
  case True
  then have "(of_char c :: nat) div 16 < 8" "(of_char c :: nat) mod 16 < 16" by simp_all
  from unicode_escape_low [OF this, of rest]
  have "unicode_escape (CHR ''0'' # CHR ''0'' # hex_lower (of_char c div 16) #
          hex_lower (of_char c mod 16) # rest) = Some ([c], rest)"
    by simp
  then show ?thesis
    by (simp add: escape_char_def read_char_def simple_escape_def dquote_def backslash_def)
next
  case False
  then show ?thesis
    by (simp add: escape_char_def read_char_def simple_escape_def dquote_def backslash_def)
qed

lemma read_string_escaped:
  "read_string (concat (map escape_char s) @ dquote # rest) = Some (s, rest)"
proof (induction s)
  case Nil
  show ?case by (subst read_string.simps) simp
next
  case (Cons c s)
  then show ?case by (subst read_string.simps) (simp add: read_char_escape)
qed

lemma parse_string_quote [simp]: "parse_string (quote s @ rest) = Some (s, rest)"
  by (simp add: parse_string_def quote_def read_string_escaped)

section \<open>Numbers and literals\<close>

definition delimited :: "string \<Rightarrow> bool" where
  "delimited rest = (rest = [] \<or> \<not> is_number_char (hd rest))"

lemma delimited_simps [simp]:
  "delimited []"
  "delimited (CHR '','' # s)" "delimited (CHR '']'' # s)" "delimited (CHR ''}'' # s)"
  "delimited (CHR '' '' # s)"
  by (simp_all add: delimited_def is_number_char_def is_digit_def)

lemma takeWhile_then:
  "list_all P xs \<Longrightarrow> t = [] \<or> \<not> P (hd t) \<Longrightarrow> takeWhile P (xs @ t) = xs"
  by (induction xs) (auto simp: takeWhile_eq_Nil_iff neq_Nil_conv)

lemma dropWhile_then:
  "list_all P xs \<Longrightarrow> t = [] \<or> \<not> P (hd t) \<Longrightarrow> dropWhile P (xs @ t) = t"
  by (induction xs) (auto simp: dropWhile_eq_self_iff neq_Nil_conv)

lemma rat_to_string_number_chars: "list_all is_number_char (rat_to_string r)"
  using rat_to_string_chars [of _ r] by (auto simp: list_all_iff is_number_char_def)

lemma hd_rat_to_string: "is_number_char (hd (rat_to_string r))"
  using rat_to_string_number_chars [of r] by (cases "rat_to_string r") simp_all

lemma parse_number_print:
  assumes "is_decimal r" "delimited rest"
  shows "parse_number (rat_to_string r @ rest) = Some (JNum (Fin r), rest)"
proof -
  from assms(2) have "rest = [] \<or> \<not> is_number_char (hd rest)" by (simp add: delimited_def)
  then have "takeWhile is_number_char (rat_to_string r @ rest) = rat_to_string r"
    "dropWhile is_number_char (rat_to_string r @ rest) = rest"
    by (simp_all add: takeWhile_then dropWhile_then rat_to_string_number_chars)
  with assms(1) show ?thesis
    by (simp add: parse_number_def json_number_ok_print js_Number_print)
qed

lemma not_literal:
  assumes "is_number_char (hd s)"
  shows "take 4 s \<noteq> ''true''" "take 5 s \<noteq> ''false''" "take 4 s \<noteq> ''null''"
proof -
  have "hd s \<notin> set ''tfn''" using assms by (auto simp: is_number_char_def is_digit_def)
  then show "take 4 s \<noteq> ''true''" "take 5 s \<noteq> ''false''" "take 4 s \<noteq> ''null''"
    by (cases s; auto)+
qed

lemma parse_literal_print:
  assumes "is_decimal r" "delimited rest"
  shows "parse_literal (rat_to_string r @ rest) = Some (JNum (Fin r), rest)"
proof -
  have "is_number_char (hd (rat_to_string r @ rest))" by (simp add: hd_rat_to_string)
  from not_literal [OF this] parse_number_print [OF assms] show ?thesis
    by (simp add: parse_literal_def)
qed

lemma parse_literal_words [simp]:
  "parse_literal (''true'' @ rest) = Some (JBool True, rest)"
  "parse_literal (''false'' @ rest) = Some (JBool False, rest)"
  "parse_literal (''null'' @ rest) = Some (JNull, rest)"
  by (simp_all add: parse_literal_def)

section \<open>Documents\<close>

lemma intercalate_simps [simp]:
  "intercalate sep [] = []"
  "intercalate sep [x] = x"
  "intercalate sep (x # y # ys) = x @ sep @ intercalate sep (y # ys)"
  by (simp_all add: intercalate_def)

lemma hd_json_text:
  "json_text v \<noteq> []"
  "hd (json_text v) \<notin> set [CHR 0x20, CHR 0x09, CHR 0x0A, CHR 0x0D, CHR '']'', CHR ''}'']"
proof -
  have num: "hd (rat_to_string r) \<notin> set [CHR 0x20, CHR 0x09, CHR 0x0A, CHR 0x0D, CHR '']'', CHR ''}'']"
    for r
    using hd_rat_to_string [of r] by (auto simp: is_number_char_def is_digit_def)
  show "json_text v \<noteq> []"
  proof (cases v)
    case (JNum n)
    then show ?thesis by (cases n) simp_all
  qed (simp_all add: quote_def)
  show "hd (json_text v) \<notin> set [CHR 0x20, CHR 0x09, CHR 0x0A, CHR 0x0D, CHR '']'', CHR ''}'']"
  proof (cases v)
    case (JNum n)
    then show ?thesis using num by (cases n) simp_all
  qed (simp_all add: quote_def dquote_def)
qed

lemma skip_ws_json_text [simp]: "skip_ws (json_text v @ rest) = json_text v @ rest"
  using hd_json_text [of v]
  by (cases "json_text v") (simp_all add: skip_ws_def is_json_ws_def)

lemma skip_ws_separator [simp]:
  "skip_ws (CHR '','' # s) = CHR '','' # s" "skip_ws (CHR '':'' # s) = CHR '':'' # s"
  "skip_ws (CHR '']'' # s) = CHR '']'' # s" "skip_ws (CHR ''}'' # s) = CHR ''}'' # s"
  "skip_ws (dquote # s) = dquote # s" "skip_ws [] = []"
  by (simp_all add: skip_ws_def is_json_ws_def dquote_def)

lemma skip_ws_elements [simp]:
  "skip_ws (intercalate sep (json_text y # ts) @ rest) = intercalate sep (json_text y # ts) @ rest"
  using skip_ws_json_text [of y "concat (map ((@) sep) ts) @ rest"]
  by (simp add: intercalate_def)

lemma hd_elements [simp]:
  "hd (intercalate sep (json_text y # ts) @ rest) \<noteq> CHR '']''"
  using hd_json_text [of y] by (cases "json_text y") (simp_all add: intercalate_def)

lemma obj_set_fresh: "k \<notin> fst ` set ps \<Longrightarrow> obj_set k v ps = ps @ [(k, v)]"
  by (induction ps) auto

text \<open>
  The elements of an array and the members of an object are read back one by
  one, given that each value is (the induction hypothesis of
  \<open>parse_value_text\<close>). The reader is called with at least two units of fuel
  more than the text is long: one for the list, one for the value.
\<close>

lemma parse_elements_text:
  assumes "\<And>x n rest. x \<in> set xs \<Longrightarrow> length (json_text x) < n \<Longrightarrow> delimited rest \<Longrightarrow>
             parse_value n (json_text x @ rest) = Some (x, rest)"
    and "xs \<noteq> []"
    and "Suc (length (intercalate '','' (map json_text xs))) < n"
  shows "parse_elements n acc (intercalate '','' (map json_text xs) @ CHR '']'' # rest)
           = Some (JArr (acc @ xs), rest)"
  using assms
proof (induction xs arbitrary: n acc)
  case Nil
  then show ?case by simp
next
  case (Cons x xs)
  then obtain m where n: "n = Suc m" by (cases n) auto
  have val: "parse_value m (json_text x @ r) = Some (x, r)"
    if "delimited r" "length (json_text x) < m" for r
    using that by (intro Cons.prems(1)) simp_all
  show ?case
  proof (cases xs)
    case Nil
    with Cons.prems(3) n have "length (json_text x) < m" by simp
    with Nil show ?thesis by (simp add: n val)
  next
    case (Cons y ys)
    with Cons.prems(3) n have len: "length (json_text x) < m"
      "Suc (length (intercalate '','' (map json_text xs))) < m"
      by simp_all
    have "parse_elements m (acc @ [x])
            (intercalate '','' (map json_text xs) @ CHR '']'' # rest)
          = Some (JArr ((acc @ [x]) @ xs), rest)"
      using Cons.prems(1) Cons len(2) by (intro Cons.IH) simp_all
    with Cons len(1) show ?thesis by (simp add: n val)
  qed
qed

definition member_text :: "string \<times> jsval \<Rightarrow> string" where
  "member_text p = quote (fst p) @ '':'' @ json_text (snd p)"

lemma member_text_pair:
  "member_text (k, v) @ rest = quote k @ CHR '':'' # json_text v @ rest"
  by (simp add: member_text_def)

lemma length_member_text:
  "length (member_text (k, v)) = Suc (length (quote k) + length (json_text v))"
  by (simp add: member_text_def)

lemma skip_ws_members [simp]:
  "skip_ws (intercalate sep (member_text p # ts) @ rest) = intercalate sep (member_text p # ts) @ rest"
  by (simp add: intercalate_def member_text_def quote_def)

lemma hd_members [simp]:
  "hd (intercalate sep (member_text p # ts) @ rest) \<noteq> CHR ''}''"
  by (simp add: intercalate_def member_text_def quote_def dquote_def)

lemma parse_members_text:
  assumes "\<And>p n rest. p \<in> set ps \<Longrightarrow> length (json_text (snd p)) < n \<Longrightarrow> delimited rest \<Longrightarrow>
             parse_value n (json_text (snd p) @ rest) = Some (snd p, rest)"
    and "ps \<noteq> []"
    and "distinct (map fst (acc @ ps))"
    and "Suc (length (intercalate '','' (map member_text ps))) < n"
  shows "parse_members n acc (intercalate '','' (map member_text ps) @ CHR ''}'' # rest)
           = Some (JObj (acc @ ps), rest)"
  using assms
proof (induction ps arbitrary: n acc)
  case Nil
  then show ?case by simp
next
  case (Cons p ps)
  then obtain m where n: "n = Suc m" by (cases n) auto
  obtain k v where p: "p = (k, v)" by (cases p)
  have val: "parse_value m (json_text v @ r) = Some (v, r)"
    if "delimited r" "length (json_text v) < m" for r
    using that Cons.prems(1) [of p m r] by (simp add: p)
  from Cons.prems(3) have fresh: "obj_set k v acc = acc @ [(k, v)]"
    by (intro obj_set_fresh) (auto simp: p)
  show ?case
  proof (cases ps)
    case Nil
    with Cons.prems(4) n have "length (json_text v) < m" by (simp add: p length_member_text)
    with Nil show ?thesis by (simp add: n p member_text_pair val fresh)
  next
    case (Cons q qs)
    with Cons.prems(4) n have len: "length (json_text v) < m"
      "Suc (length (intercalate '','' (map member_text ps))) < m"
      by (simp_all add: p length_member_text)
    have "parse_members m (acc @ [p])
            (intercalate '','' (map member_text ps) @ CHR ''}'' # rest)
          = Some (JObj ((acc @ [p]) @ ps), rest)"
      using Cons.prems(1,3) Cons len(2) by (intro Cons.IH) simp_all
    with Cons len(1) show ?thesis by (simp add: n p member_text_pair val fresh)
  qed
qed

lemma json_text_obj:
  "json_text (JObj ps) = ''{'' @ intercalate '','' (map member_text ps) @ ''}''"
  by (simp add: member_text_def [abs_def])

lemma parse_value_text:
  "printable v \<Longrightarrow> length (json_text v) < n \<Longrightarrow> delimited rest \<Longrightarrow>
     parse_value n (json_text v @ rest) = Some (v, rest)"
proof (induction v arbitrary: n rest rule: json_text.induct)
  case 1
  then show ?case by simp
next
  case 2
  then show ?case
    using parse_literal_words [of rest] by (cases n) (simp_all add: dquote_def)
next
  case (3 b)
  then show ?case
    using parse_literal_words [of rest] by (cases n) (simp_all add: dquote_def)
next
  case (4 x)
  then obtain m r where "n = Suc m" "x = Fin r" "is_decimal r"
    by (cases n; cases x) (auto simp: prints_exactly_def)
  with 4 show ?case
    using parse_literal_print [of r rest] hd_rat_to_string [of r]
    by (cases "rat_to_string r")
      (auto simp: is_number_char_def is_digit_def dquote_def)
next
  case (5 s)
  then obtain m where "n = Suc m" by (cases n) auto
  then show ?case
    using parse_string_quote [of s rest] by (simp add: quote_def)
next
  case (6 xs)
  then obtain m where n: "n = Suc m" by (cases n) auto
  show ?case
  proof (cases xs)
    case Nil
    then show ?thesis by (simp add: n)
  next
    case (Cons y ys)
    have "parse_elements m [] (intercalate '','' (map json_text xs) @ CHR '']'' # rest)
          = Some (JArr ([] @ xs), rest)"
    proof (rule parse_elements_text)
      show "parse_value k (json_text x @ r) = Some (x, r)"
        if "x \<in> set xs" "length (json_text x) < k" "delimited r" for x k r
        by (rule "6.IH") (use that "6.prems" in \<open>auto simp: list_all_iff\<close>)
    qed (use "6.prems" Cons n in simp_all)
    then show ?thesis by (simp add: n Cons del: intercalate_simps)
  qed
next
  case (7 ps)
  then obtain m where n: "n = Suc m" by (cases n) auto
  show ?case
  proof (cases ps)
    case Nil
    then show ?thesis by (simp add: n)
  next
    case (Cons q qs)
    have "parse_members m [] (intercalate '','' (map member_text ps) @ CHR ''}'' # rest)
          = Some (JObj ([] @ ps), rest)"
    proof (rule parse_members_text)
      show "parse_value k (json_text (snd p) @ r) = Some (snd p, r)"
        if "p \<in> set ps" "length (json_text (snd p)) < k" "delimited r" for p k r
        by (rule "7.IH") (use that "7.prems" in \<open>auto simp: list_all_iff\<close>)
    qed (use "7.prems" Cons n in \<open>simp_all add: json_text_obj del: json_text.simps\<close>)
    then show ?thesis
      by (simp add: n Cons json_text_obj del: json_text.simps intercalate_simps)
  qed
qed

lemma json_parse_text: "printable v \<Longrightarrow> json_parse (json_text v) = Some v"
  using parse_value_text [of v "Suc (2 * length (json_text v))" "[]"] skip_ws_json_text [of v "[]"]
  by (simp add: json_parse_def del: parse_value.simps)

section \<open>The reader consumes its input\<close>

lemma length_skip_ws: "length (skip_ws s) \<le> length s"
  by (simp add: skip_ws_def length_dropWhile_le)

lemma skip_ws_Cons_shorter: "skip_ws r = c # cs \<Longrightarrow> length cs < length r"
  using length_skip_ws [of r] by simp

lemma read_string_shorter: "read_string s = Some (x, r) \<Longrightarrow> length r < length s"
proof (induction s arbitrary: x r rule: read_string.induct)
  case (1 s)
  show ?case
  proof (cases "s \<noteq> [] \<and> hd s = dquote")
    case True
    with "1.prems" show ?thesis by (subst (asm) read_string.simps) auto
  next
    case False
    with "1.prems" obtain d r' t where c: "read_char s = Some (d, r')"
      and rs: "read_string r' = Some (t, r)"
      by (subst (asm) read_string.simps) (auto split: option.splits)
    from "1.IH" [OF False c refl rs] read_char_shorter [OF c] show ?thesis by simp
  qed
qed

lemma parse_string_shorter: "parse_string s = Some (x, r) \<Longrightarrow> length r < length s"
  by (cases s) (auto simp: parse_string_def split: if_splits dest!: read_string_shorter)

lemma json_number_ok_nonempty: "json_number_ok tok \<Longrightarrow> tok \<noteq> []"
  by (auto simp: json_number_ok_def json_int_ok_def Let_def)

lemma parse_literal_shorter:
  assumes "parse_literal s = Some (v, r)"
  shows "length r < length s"
proof -
  have drop: "length (dropWhile P s) < length s" if "takeWhile P s \<noteq> []" for P
    using that by (cases s) (auto simp: length_dropWhile_le le_imp_less_Suc split: if_splits)
  show ?thesis
  proof (cases "take 4 s = ''true'' \<or> take 5 s = ''false'' \<or> take 4 s = ''null''")
    case True
    then have "s \<noteq> []" by auto
    with True assms show ?thesis
      by (cases s) (auto simp: parse_literal_def split: if_splits)
  next
    case False
    with assms show ?thesis
      by (auto simp: parse_literal_def parse_number_def Let_def
          split: if_splits dest!: json_number_ok_nonempty intro!: drop)
  qed
qed

text \<open>
  One step of each of the three readers, given that the readers it calls
  return a shorter rest; \<open>parse_shorter\<close> closes the induction on the fuel.
\<close>

lemma parse_value_shorter_step:
  assumes pe: "\<And>acc t v r. parse_elements n acc t = Some (v, r) \<Longrightarrow> length r < length t"
    and pm: "\<And>acc t v r. parse_members n acc t = Some (v, r) \<Longrightarrow> length r < length t"
    and "parse_value (Suc n) s = Some (v, r)"
  shows "length r < length s"
proof (cases s)
  case Nil
  with assms(3) show ?thesis by simp
next
  case (Cons c cs)
  note sk = length_skip_ws [of cs]
  consider "c = CHR ''{''" | "c = CHR ''[''" | "c = dquote" "c \<noteq> CHR ''{''" "c \<noteq> CHR ''[''"
    | "c \<noteq> dquote" "c \<noteq> CHR ''{''" "c \<noteq> CHR ''[''"
    by blast
  then show ?thesis
  proof cases
    case 1
    with assms(3) Cons sk show ?thesis
      by (cases "skip_ws cs") (auto simp: Let_def split: if_splits dest!: pm)
  next
    case 2
    with assms(3) Cons sk show ?thesis
      by (cases "skip_ws cs") (auto simp: Let_def split: if_splits dest!: pe)
  next
    case 3
    with assms(3) Cons show ?thesis by (auto dest!: parse_string_shorter)
  next
    case 4
    with assms(3) Cons show ?thesis by (auto dest!: parse_literal_shorter)
  qed
qed

lemma parse_elements_shorter_step:
  assumes pv: "\<And>t v r. parse_value n t = Some (v, r) \<Longrightarrow> length r < length t"
    and pe: "\<And>acc t v r. parse_elements n acc t = Some (v, r) \<Longrightarrow> length r < length t"
    and "parse_elements (Suc n) acc s = Some (v, r)"
  shows "length r < length s"
proof -
  from assms(3) obtain x r1 c cs where v: "parse_value n s = Some (x, r1)"
    and sk: "skip_ws r1 = c # cs"
    and rest: "c = CHR '','' \<and> parse_elements n (acc @ [x]) (skip_ws cs) = Some (v, r)
               \<or> c = CHR '']'' \<and> r = cs"
    by (auto split: option.splits list.splits if_splits)
  from pv [OF v] skip_ws_Cons_shorter [OF sk] have "length cs < length s" by simp
  with rest length_skip_ws [of cs] show ?thesis by (auto dest!: pe)
qed

lemma parse_members_shorter_step:
  assumes pv: "\<And>t v r. parse_value n t = Some (v, r) \<Longrightarrow> length r < length t"
    and pm: "\<And>acc t v r. parse_members n acc t = Some (v, r) \<Longrightarrow> length r < length t"
    and "parse_members (Suc n) acc s = Some (v, r)"
  shows "length r < length s"
proof -
  from assms(3) obtain k r0 c cs x r1 d ds where key: "parse_string s = Some (k, r0)"
    and sk0: "skip_ws r0 = c # cs"
    and v: "parse_value n (skip_ws cs) = Some (x, r1)"
    and sk: "skip_ws r1 = d # ds"
    and rest: "d = CHR '','' \<and> parse_members n (obj_set k x acc) (skip_ws ds) = Some (v, r)
               \<or> d = CHR ''}'' \<and> r = ds"
    by (auto split: option.splits list.splits if_splits)
  from parse_string_shorter [OF key] skip_ws_Cons_shorter [OF sk0] length_skip_ws [of cs]
    pv [OF v] skip_ws_Cons_shorter [OF sk]
  have "length ds < length s" by simp
  with rest length_skip_ws [of ds] show ?thesis by (auto dest!: pm)
qed

lemma parse_shorter:
  "(\<forall>s v r. parse_value n s = Some (v, r) \<longrightarrow> length r < length s)
   \<and> (\<forall>acc s v r. parse_elements n acc s = Some (v, r) \<longrightarrow> length r < length s)
   \<and> (\<forall>acc s v r. parse_members n acc s = Some (v, r) \<longrightarrow> length r < length s)"
proof (induction n)
  case 0
  show ?case by simp
next
  case (Suc n)
  then have pv: "\<And>s v r. parse_value n s = Some (v, r) \<Longrightarrow> length r < length s"
    and pe: "\<And>acc s v r. parse_elements n acc s = Some (v, r) \<Longrightarrow> length r < length s"
    and pm: "\<And>acc s v r. parse_members n acc s = Some (v, r) \<Longrightarrow> length r < length s"
    by blast+
  show ?case
  proof (intro conjI allI impI)
    fix s v r
    assume "parse_value (Suc n) s = Some (v, r)"
    with pe pm show "length r < length s" by (rule parse_value_shorter_step)
  next
    fix acc s v r
    assume "parse_elements (Suc n) acc s = Some (v, r)"
    with pv pe show "length r < length s" by (rule parse_elements_shorter_step)
  next
    fix acc s v r
    assume "parse_members (Suc n) acc s = Some (v, r)"
    with pv pm show "length r < length s" by (rule parse_members_shorter_step)
  qed
qed

lemmas parse_value_shorter = parse_shorter [THEN conjunct1, rule_format]

section \<open>Fuel\<close>

text \<open>
  A reader called with at least twice the length of its input as fuel gives
  the result it gives with any larger amount. One step of each reader first,
  given the same of the readers it calls; \<open>parse_fuel\<close> closes the induction.
\<close>

lemma parse_value_fuel_step:
  assumes pe: "\<And>acc t. 2 * length t < n \<Longrightarrow> 2 * length t < m \<Longrightarrow>
                parse_elements n acc t = parse_elements m acc t"
    and pm: "\<And>acc t. 2 * length t < n \<Longrightarrow> 2 * length t < m \<Longrightarrow>
                parse_members n acc t = parse_members m acc t"
    and "2 * length s \<le> Suc n" "2 * length s \<le> Suc m"
  shows "parse_value (Suc n) s = parse_value (Suc m) s"
proof (cases s)
  case Nil
  then show ?thesis by simp
next
  case (Cons c cs)
  from assms(3,4) Cons length_skip_ws [of cs]
  have fuel: "2 * length (skip_ws cs) < n" "2 * length (skip_ws cs) < m" by simp_all
  have "parse_elements n [] (skip_ws cs) = parse_elements m [] (skip_ws cs)"
    "parse_members n [] (skip_ws cs) = parse_members m [] (skip_ws cs)"
    by (rule pe [OF fuel], rule pm [OF fuel])
  then show ?thesis by (auto simp: Cons Let_def)
qed

lemma parse_elements_fuel_step:
  assumes pv: "\<And>t. 2 * length t \<le> n \<Longrightarrow> 2 * length t \<le> m \<Longrightarrow>
                parse_value n t = parse_value m t"
    and pe: "\<And>acc t. 2 * length t < n \<Longrightarrow> 2 * length t < m \<Longrightarrow>
                parse_elements n acc t = parse_elements m acc t"
    and fuel: "2 * length s < Suc n" "2 * length s < Suc m"
  shows "parse_elements (Suc n) acc s = parse_elements (Suc m) acc s"
proof -
  from fuel have v: "parse_value n s = parse_value m s" by (intro pv) simp_all
  have "parse_elements n (acc @ [x]) (skip_ws cs) = parse_elements m (acc @ [x]) (skip_ws cs)"
    if "parse_value n s = Some (x, r)" "skip_ws r = c # cs" for x r c cs
  proof -
    from parse_value_shorter [OF that(1)] skip_ws_Cons_shorter [OF that(2)]
      length_skip_ws [of cs]
    have "length (skip_ws cs) + 2 \<le> length s" by simp
    with fuel show ?thesis by (intro pe) simp_all
  qed
  with v show ?thesis
    by (auto split: option.splits list.splits)
qed

lemma parse_members_fuel_step:
  assumes pv: "\<And>t. 2 * length t \<le> n \<Longrightarrow> 2 * length t \<le> m \<Longrightarrow>
                parse_value n t = parse_value m t"
    and pm: "\<And>acc t. 2 * length t < n \<Longrightarrow> 2 * length t < m \<Longrightarrow>
                parse_members n acc t = parse_members m acc t"
    and fuel: "2 * length s < Suc n" "2 * length s < Suc m"
  shows "parse_members (Suc n) acc s = parse_members (Suc m) acc s"
proof (cases "parse_string s")
  case None
  then show ?thesis by simp
next
  case (Some kr)
  obtain k r0 where kr: "kr = (k, r0)" by (cases kr)
  note key = Some [unfolded kr]
  show ?thesis
  proof (cases "skip_ws r0")
    case Nil
    with key show ?thesis by simp
  next
    case (Cons c cs)
    from parse_string_shorter [OF key] skip_ws_Cons_shorter [OF Cons] length_skip_ws [of cs]
    have len: "length (skip_ws cs) + 2 \<le> length s" by simp
    with fuel have v: "parse_value n (skip_ws cs) = parse_value m (skip_ws cs)"
      by (intro pv) simp_all
    have "parse_members n acc' (skip_ws ds) = parse_members m acc' (skip_ws ds)"
      if "parse_value n (skip_ws cs) = Some (x, r1)" "skip_ws r1 = d # ds" for x r1 d ds acc'
    proof -
      from len parse_value_shorter [OF that(1)] skip_ws_Cons_shorter [OF that(2)]
        length_skip_ws [of ds]
      have "length (skip_ws ds) + 2 \<le> length s" by simp
      with fuel show ?thesis by (intro pm) simp_all
    qed
    with key Cons v show ?thesis
      by (auto split: option.splits list.splits)
  qed
qed

lemma parse_fuel:
  "(\<forall>m s. 2 * length s \<le> n \<longrightarrow> 2 * length s \<le> m \<longrightarrow> parse_value n s = parse_value m s)
   \<and> (\<forall>m acc s. 2 * length s < n \<longrightarrow> 2 * length s < m \<longrightarrow>
          parse_elements n acc s = parse_elements m acc s)
   \<and> (\<forall>m acc s. 2 * length s < n \<longrightarrow> 2 * length s < m \<longrightarrow>
          parse_members n acc s = parse_members m acc s)"
proof (induction n)
  case 0
  have "parse_value 0 [] = parse_value m []" for m by (cases m) simp_all
  then show ?case by simp
next
  case (Suc n)
  then have pv: "\<And>m s. 2 * length s \<le> n \<Longrightarrow> 2 * length s \<le> m \<Longrightarrow>
        parse_value n s = parse_value m s"
    and pe: "\<And>m acc s. 2 * length s < n \<Longrightarrow> 2 * length s < m \<Longrightarrow>
        parse_elements n acc s = parse_elements m acc s"
    and pm: "\<And>m acc s. 2 * length s < n \<Longrightarrow> 2 * length s < m \<Longrightarrow>
        parse_members n acc s = parse_members m acc s"
    by blast+
  have "parse_value (Suc n) s = parse_value m s"
    if "2 * length s \<le> Suc n" "2 * length s \<le> m" for m s
  proof (cases m)
    case 0
    with that show ?thesis by simp
  next
    case (Suc m')
    from pe pm that show ?thesis unfolding Suc by (rule parse_value_fuel_step)
  qed
  moreover have "parse_elements (Suc n) acc s = parse_elements m acc s"
    if "2 * length s < Suc n" "2 * length s < m" for m acc s
  proof -
    from that obtain m' where m: "m = Suc m'" by (cases m) auto
    from pv pe that show ?thesis unfolding m by (rule parse_elements_fuel_step)
  qed
  moreover have "parse_members (Suc n) acc s = parse_members m acc s"
    if "2 * length s < Suc n" "2 * length s < m" for m acc s
  proof -
    from that obtain m' where m: "m = Suc m'" by (cases m) auto
    from pv pm that show ?thesis unfolding m by (rule parse_members_fuel_step)
  qed
  ultimately show ?case by blast
qed

lemma parse_value_fuel:
  "Suc (2 * length s) \<le> n \<Longrightarrow>
     parse_value n (skip_ws s) = parse_value (Suc (2 * length s)) (skip_ws s)"
  using parse_fuel [of n, THEN conjunct1, rule_format, of "skip_ws s" "Suc (2 * length s)"]
    length_skip_ws [of s]
  by simp

end
