(* ===== verification/Wire.thy ===== *)
theory Wire
  imports ApiClient JsonText
begin

text \<open>
  The client on the wire. \<open>ApiClient\<close> represents a body by the JSON document
  it carries; here the body is the text itself: \<open>on_wire\<close> is the request as
  \<^verbatim>\<open>fetch\<close> sends it, with the text \<^verbatim>\<open>JSON.stringify(payload)\<close> wrote, and
  \<open>received\<close> is the response as the client reads it, with \<^verbatim>\<open>response.json()\<close>
  applied to the text of the body. \<open>await_on_wire\<close> runs a promise against a
  server that sees and answers text.

  The theorems show that nothing is lost between the two levels: the server
  can read back the document the client meant, the client reads back the
  document the server meant, and a body that is not JSON (an empty body
  included) has the outcome \<open>ApiClient\<close> gives to \<open>rs_json = None\<close>.
\<close>

section \<open>Requests and responses as text\<close>

record wire_request =
  wq_url :: string
  wq_method :: string
  wq_headers :: "string obj"
  wq_body :: "string option"

record wire_response =
  ws_status :: nat
  ws_statusText :: string
  ws_body :: string

datatype wire_result = Unreachable | Answered wire_response

type_synonym server = "wire_request \<Rightarrow> wire_result"

definition on_wire :: "http_request \<Rightarrow> wire_request" where
  "on_wire r =
     \<lparr>wq_url = rq_url r, wq_method = rq_method r, wq_headers = rq_headers r,
      wq_body = map_option json_text (rq_body r)\<rparr>"

definition received :: "wire_response \<Rightarrow> http_response" where
  "received w =
     \<lparr>rs_status = ws_status w, rs_statusText = ws_statusText w,
      rs_json = json_parse (ws_body w)\<rparr>"

definition from_wire :: "wire_result \<Rightarrow> fetch_result" where
  "from_wire w = (case w of Unreachable \<Rightarrow> NetworkFailure | Answered r \<Rightarrow> Responded (received r))"

definition await_on_wire :: "server \<Rightarrow> 'a promise \<Rightarrow> 'a" where
  "await_on_wire srv p = snd p (from_wire (srv (on_wire (fst p))))"

definition body_read :: "wire_request \<Rightarrow> jsval option" where
  "body_read q = Option.bind (wq_body q) json_parse"

definition exact :: "number \<Rightarrow> bool" where
  "exact n = (is_finite n \<and> prints_exactly n)"

lemmas wire_defs [js_defs] =
  on_wire_def received_def from_wire_def await_on_wire_def body_read_def exact_def

section \<open>Lemmas\<close>

lemma await_on_wire_network: "await_on_wire srv p = await_with (from_wire \<circ> srv \<circ> on_wire) p"
  by (simp add: await_on_wire_def await_with_def)

lemma on_wire_json [simp]:
  "on_wire (build_request path (json_init m payload)) =
     \<lparr>wq_url = ''/api'' @ path, wq_method = m, wq_headers = default_headers,
      wq_body = stringify payload\<rparr>"
  by (simp add: on_wire_def stringify_def)

lemma on_wire_get [simp]:
  "on_wire (build_request path None) =
     \<lparr>wq_url = ''/api'' @ path, wq_method = ''GET'', wq_headers = default_headers,
      wq_body = None\<rparr>"
  by (simp add: on_wire_def)

lemma body_read_stringify:
  "json_value payload = Some d \<Longrightarrow> printable d \<Longrightarrow>
     body_read (on_wire (build_request path (json_init m payload))) = Some d"
  by (simp add: body_read_def on_wire_def json_parse_text)

lemma received_text [simp]:
  "printable d \<Longrightarrow>
     received \<lparr>ws_status = st, ws_statusText = txt, ws_body = json_text d\<rparr>
       = \<lparr>rs_status = st, rs_statusText = txt, rs_json = Some d\<rparr>"
  by (simp add: received_def json_parse_text)

lemma rs_ok_received [simp]: "rs_ok (received w) \<longleftrightarrow> 200 \<le> ws_status w \<and> ws_status w \<le> 299"
  by (simp add: rs_ok_def received_def)

lemma json_parse_empty [simp]: "json_parse [] = None"
  by (simp add: json_parse_def skip_ws_def)

lemma printable_is_json: "printable v \<Longrightarrow> is_json v"
  by (induction v rule: printable.induct) (auto simp: list_all_iff)

lemma stringify_printable: "printable v \<Longrightarrow> stringify v = Some (json_text v)"
  by (simp add: stringify_def json_value_id printable_is_json)

lemma printable_exact [simp]: "printable (JNum n) \<longleftrightarrow> exact n"
  by (simp add: exact_def)

lemma exact_Fin [simp]: "exact (Fin r) \<longleftrightarrow> is_decimal r"
  by (simp add: exact_def)

section \<open>Properties\<close>

text \<open>
  C11. Round trip of a request body: for each of the three writing operations,
  a server that parses the text of the body gets the JSON document of the
  payload, whenever the numbers of that document print exactly and its
  objects have distinct keys. Nothing the draft holds is lost or altered by
  \<^verbatim>\<open>JSON.stringify\<close>.
\<close>

theorem request_body_roundtrip:
  assumes "json_value payload = Some d" and "printable d"
  shows "body_read (on_wire (fst (logSession payload))) = Some d
       \<and> body_read (on_wire (fst (updateMetrics payload))) = Some d
       \<and> body_read (on_wire (fst (updateProfile payload))) = Some d"
  using assms
  by (simp add: logSession_def updateMetrics_def updateProfile_def request_def
      body_read_def on_wire_def json_parse_text)

theorem request_body_roundtrip_witness:
  "json_value (JObj [(''user_id'', JNum (Fin 1)), (''note'', JUndefined),
       (''load_kg'', JNum (Fin (145 / 2))), (''rir'', JNum NaN)])
     = Some (JObj [(''user_id'', JNum (Fin 1)), (''load_kg'', JNum (Fin (145 / 2))),
               (''rir'', JNull)])
   \<and> printable (JObj [(''user_id'', JNum (Fin 1)), (''load_kg'', JNum (Fin (145 / 2))),
               (''rir'', JNull)])
   \<and> wq_body (on_wire (fst (logSession (JObj [(''user_id'', JNum (Fin 1)),
       (''note'', JUndefined), (''load_kg'', JNum (Fin (145 / 2))), (''rir'', JNum NaN)]))))
     = Some (''{'' @ quote ''user_id'' @ '':1,'' @ quote ''load_kg'' @ '':72.5,'' @
             quote ''rir'' @ '':null}'')
   \<and> body_read (on_wire (fst (logSession (JObj [(''user_id'', JNum (Fin 1)),
       (''note'', JUndefined), (''load_kg'', JNum (Fin (145 / 2))), (''rir'', JNum NaN)]))))
     = Some (JObj [(''user_id'', JNum (Fin 1)), (''load_kg'', JNum (Fin (145 / 2))),
               (''rir'', JNull)])"
proof -
  let ?p = "JObj [(''user_id'', JNum (Fin 1)), (''note'', JUndefined),
       (''load_kg'', JNum (Fin (145 / 2))), (''rir'', JNum NaN)]"
  let ?d = "JObj [(''user_id'', JNum (Fin 1)), (''load_kg'', JNum (Fin (145 / 2))),
               (''rir'', JNull)]"
  have v: "json_value ?p = Some ?d" by simp
  have p: "printable ?d" by (simp add: is_decimal_iff)
  have t: "wq_body (on_wire (fst (logSession ?p)))
     = Some (''{'' @ quote ''user_id'' @ '':1,'' @ quote ''load_kg'' @ '':72.5,'' @
             quote ''rir'' @ '':null}'')"
  proof -
    have "rat_to_string 1 = ''1''" "rat_to_string (145 / 2) = ''72.5''" by code_simp+
    then show ?thesis by (simp add: logSession_def request_def on_wire_def)
  qed
  from request_body_roundtrip [OF v p] v p t show ?thesis by (intro conjI) simp_all
qed

text \<open>
  C13. Round trip of a response body: a response with a status from 200 to 299
  whose body is the text of a document resolves the client's promise to that
  document, for every printable document. Together with the readers of
  \<open>Schema\<close> this gives the typed value the server meant.
\<close>

theorem response_body_roundtrip:
  assumes "printable d" and "200 \<le> st" and "st \<le> 299"
  shows "settle (from_wire (Answered \<lparr>ws_status = st, ws_statusText = txt,
           ws_body = json_text d\<rparr>)) = Inr d"
  using assms by (simp add: from_wire_def rs_ok_def)

theorem response_body_roundtrip_witness:
  "printable (JObj [(''session_id'', JNum (Fin 42))]) \<and> (200 :: nat) \<le> 200 \<and> (200 :: nat) \<le> 299
   \<and> json_text (JObj [(''session_id'', JNum (Fin 42))]) = ''{'' @ quote ''session_id'' @ '':42}''
   \<and> settle (from_wire (Answered \<lparr>ws_status = 200, ws_statusText = ''OK'',
        ws_body = ''{'' @ quote ''session_id'' @ '':42}''\<rparr>))
      = Inr (JObj [(''session_id'', JNum (Fin 42))])"
proof -
  have p: "printable (JObj [(''session_id'', JNum (Fin 42))])" by simp
  have t: "json_text (JObj [(''session_id'', JNum (Fin 42))]) = ''{'' @ quote ''session_id'' @ '':42}''"
    by (simp add: rat_to_string_def digit_char_def)
  from response_body_roundtrip [OF p, of 200 "''OK''"] p t show ?thesis by simp
qed

text \<open>
  A body that cannot be read: when the text of the body is not JSON (an
  empty body, as in a reply without content, included), a response with a
  status from 200 to 299 rejects with the parser's \<^verbatim>\<open>SyntaxError\<close>, which is
  not an \<^verbatim>\<open>ApiError\<close>, and any other response rejects with an \<^verbatim>\<open>ApiError\<close>
  that carries the status and the status text.
\<close>

theorem unreadable_body_outcome:
  assumes "json_parse (ws_body w) = None"
  shows "settle (from_wire (Answered w)) =
           (if 200 \<le> ws_status w \<and> ws_status w \<le> 299 then Inl (Thrown SyntaxError)
            else Inl (ApiError (ws_status w) (ws_statusText w)))"
  using assms by (simp add: from_wire_def settle_def error_detail_def) (simp add: received_def)

theorem unreadable_body_outcome_witness:
  "json_parse (ws_body \<lparr>ws_status = 204, ws_statusText = ''No Content'', ws_body = []\<rparr>) = None
   \<and> settle (from_wire (Answered \<lparr>ws_status = 204, ws_statusText = ''No Content'',
        ws_body = []\<rparr>)) = Inl (Thrown SyntaxError)
   \<and> settle (from_wire (Answered \<lparr>ws_status = 502, ws_statusText = ''Bad Gateway'',
        ws_body = ''<html>''\<rparr>)) = Inl (ApiError 502 ''Bad Gateway'')"
proof -
  have html: "json_parse ''<html>'' = None"
    by code_simp
  from unreadable_body_outcome [of "\<lparr>ws_status = 204, ws_statusText = ''No Content'', ws_body = []\<rparr>"]
    unreadable_body_outcome [of "\<lparr>ws_status = 502, ws_statusText = ''Bad Gateway'',
        ws_body = ''<html>''\<rparr>"] html
  show ?thesis by simp
qed

end
