(* ===== verification/EndToEnd.thy ===== *)
theory EndToEnd
  imports Screen Wire
begin

text \<open>
  The pages over the wire: properties that need the page controllers, the
  client and the text of the bodies together.

  \<^item> The form: what an input of the generic metrics form displays for a
    value of the draft, typed back unchanged, leaves the draft as it is
    (\<open>displayed_value_roundtrip\<close>).
  \<^item> Writing: the text \<^verbatim>\<open>LogSessionPage\<close> sends on submit is read by the server
    as the \<open>SessionInput\<close> the draft holds (\<open>submitted_draft_reaches_server\<close>).
  \<^item> Reading: a server that answers the dashboard's request with the text of a
    \<open>DashboardResponse\<close> gets that response on the screen
    (\<open>dashboard_shows_what_the_server_sent\<close>).

  \<open>as_network\<close> turns a server that sees and answers text into the network of
  documents the page controllers are written against.
\<close>

section \<open>Definitions\<close>

definition as_network :: "server \<Rightarrow> network" where
  "as_network srv = from_wire \<circ> srv \<circ> on_wire"

definition exact_metrics :: "SessionMetrics \<Rightarrow> bool" where
  "exact_metrics m =
     list_all exact [sm_sleep_hours m, sm_resting_hr m, sm_hrv_rmssd m, sm_soreness m,
       sm_motivation m, sm_rpe_session m, sm_duration_min m]"

definition exact_prescription :: "TrainingPrescription \<Rightarrow> bool" where
  "exact_prescription t =
     (list_all exact [tp_sets t, tp_reps t, tp_load_kg t] \<and> printable (JObj (tp_rationale t)))"

definition exact_summary :: "SessionSummary \<Rightarrow> bool" where
  "exact_summary s = list_all exact [ss_exercise_count s, ss_tonnage s, ss_avg_rir s]"

definition exact_dashboard :: "DashboardResponse \<Rightarrow> bool" where
  "exact_dashboard d =
     (exact_prescription (dr_next_workout d) \<and> exact_metrics (dr_latest_metrics d) \<and>
      list_all exact_summary (dr_recent_sessions d))"

definition scenario_A_server :: server where
  "scenario_A_server q =
     (if wq_method q = ''GET'' \<and> wq_url q = ''/api/dashboard?user_id=1'' \<and> wq_body q = None
      then Answered \<lparr>ws_status = 200, ws_statusText = ''OK'',
             ws_body = json_text (DashboardResponse_to_js scenario_A)\<rparr>
      else Unreachable)"

lemmas end_to_end_defs [js_defs] =
  as_network_def exact_metrics_def exact_prescription_def exact_summary_def
  exact_dashboard_def scenario_A_server_def

section \<open>Lemmas\<close>

lemma await_on_wire_as_network: "await_on_wire srv p = await_with (as_network srv) p"
  by (simp add: await_on_wire_network as_network_def)

lemma printable_dashboard:
  "exact_dashboard d \<Longrightarrow> printable (DashboardResponse_to_js d)"
  by (simp add: exact_dashboard_def exact_prescription_def exact_metrics_def exact_summary_def
      to_js_defs list_all_iff)

lemma metric_value_displayed:
  assumes "SessionMetrics_of_js (JObj ps) = Some m" and "obj_get ps k = Some v"
    and "k \<in> set metric_keys" and "\<forall>n. v = JNum n \<longrightarrow> prints_exactly n"
  shows "metric_value k (js_to_string v) = v"
proof -
  note rd = assms(1) [unfolded SessionMetrics_of_js_iff]
  from assms(3) consider "k = ''date''" | "k \<noteq> ''date''" "k \<in> set metric_keys" by blast
  then show ?thesis
  proof cases
    case 1
    with rd assms(2) show ?thesis
      by (auto simp: metric_value_def dest!: str_at_SomeD)
  next
    case 2
    with rd assms(2) obtain n where "v = JNum n"
      by (auto simp: metric_keys_def dest!: num_at_SomeD)
    with 2 assms(4) show ?thesis
      by (simp add: metric_value_def number_roundtrip)
  qed
qed

section \<open>Properties\<close>

text \<open>
  C23. Display and coercion of the metrics form are inverse to each other: in
  a draft that conforms to \<open>SessionMetrics\<close>, the text an input shows for its
  value (the date as it is, a number as JavaScript prints it), handed to the
  input's \<^verbatim>\<open>onChange\<close> handler, gives back the same draft, for every number that
  prints exactly. Retyping what the form shows never changes what is sent.
\<close>

theorem displayed_value_roundtrip:
  assumes "metrics_ok ps" and "inp \<in> set (metric_inputs ps)"
    and "\<forall>n. in_value inp = JNum n \<longrightarrow> prints_exactly n"
  shows "setMetric (in_label inp) (js_to_string (in_value inp)) ps = ps"
proof -
  from assms(1) obtain m where m: "SessionMetrics_of_js (JObj ps) = Some m"
    and keys: "obj_keys ps = metric_keys"
    by (auto simp: metrics_ok_def)
  from keys have d: "distinct (obj_keys ps)" by (simp add: metric_keys_def)
  from assms(2) obtain k v where kv: "(k, v) \<in> set ps" "in_label inp = k" "in_value inp = v"
    by (auto simp: metric_inputs_def)
  from kv(1) d have get: "obj_get ps k = Some v"
    by (simp add: obj_get_def obj_keys_def)
  from kv(1) have "k \<in> set (obj_keys ps)"
    by (force simp: obj_keys_def)
  with keys have "k \<in> set metric_keys" by simp
  with m get assms(3) kv have "metric_value k (js_to_string v) = v"
    by (intro metric_value_displayed) auto
  with d get kv show ?thesis
    by (simp add: setMetric_plain obj_set_same)
qed

theorem displayed_value_roundtrip_witness:
  "metrics_ok (setMetric ''sleep_hours'' ''7.25'' (defaultMetrics ''2024-05-01''))
   \<and> \<lparr>in_label = ''sleep_hours'', in_type = ''number'', in_value = JNum (Fin (29 / 4))\<rparr>
       \<in> set (metric_inputs (setMetric ''sleep_hours'' ''7.25'' (defaultMetrics ''2024-05-01'')))
   \<and> js_to_string (JNum (Fin (29 / 4))) = ''7.25''
   \<and> setMetric ''sleep_hours'' ''7.25''
        (setMetric ''sleep_hours'' ''7.25'' (defaultMetrics ''2024-05-01''))
      = setMetric ''sleep_hours'' ''7.25'' (defaultMetrics ''2024-05-01'')"
proof -
  let ?ps = "setMetric ''sleep_hours'' ''7.25'' (defaultMetrics ''2024-05-01'')"
  let ?inp = "\<lparr>in_label = ''sleep_hours'', in_type = ''number'', in_value = JNum (Fin (29 / 4))\<rparr>"
  have ok: "metrics_ok ?ps"
    by (rule metrics_ok_setMetric) (simp_all add: metric_keys_def)
  have n: "js_Number ''7.25'' = Fin (29 / 4)" by code_simp
  have s: "js_to_string (JNum (Fin (29 / 4))) = ''7.25''" by code_simp
  have ps: "?ps = obj_set ''sleep_hours'' (JNum (Fin (29 / 4))) (defaultMetrics ''2024-05-01'')"
    by (simp add: setMetric_def metric_value_def n defaultMetrics_def)
  have inp: "?inp \<in> set (metric_inputs ?ps)"
    unfolding ps by (simp add: metric_inputs_def defaultMetrics_def)
  have ex: "\<forall>n. in_value ?inp = JNum n \<longrightarrow> prints_exactly n"
    by (simp add: is_decimal_iff)
  from displayed_value_roundtrip [OF ok inp ex] ok inp s show ?thesis by simp
qed

text \<open>
  C12. The submitted draft reaches the server: in every state the page can
  reach whose draft prints exactly, the text that \<^verbatim>\<open>Submit\<close> puts on the wire is
  read by the server as the JSON document of the draft, and that document
  read at the type \<^verbatim>\<open>SessionInput\<close> is the typed draft. The declared type of
  the payload is true of what a server receives.
\<close>

theorem submitted_draft_reaches_server:
  assumes "ls_reach today s" and "printable (session_payload s)"
  shows "body_read (on_wire (last (lsp_pending (ls_fire Submit s)))) = Some (session_payload s)
       \<and> (\<exists>i. Option.bind (body_read (on_wire (last (lsp_pending (ls_fire Submit s)))))
                SessionInput_of_js = Some i
             \<and> si_user_id i = Fin 1 \<and> length (si_exercises i) = length (lsp_exercises s))"
proof -
  from assms(2) have "json_value (session_payload s) = Some (session_payload s)"
    by (simp add: json_value_id printable_is_json)
  with assms(2) have body: "body_read (on_wire (last (lsp_pending (ls_fire Submit s))))
      = Some (session_payload s)"
    by (simp add: logSession_def request_def body_read_def on_wire_def json_parse_text)
  from assms(1) obtain i where i: "SessionInput_of_js (session_payload s) = Some i"
    using ls_inv_conforms ls_reach_inv by blast
  then have "si_user_id i = Fin 1"
    "those (map (ExerciseLog_of_js \<circ> JObj) (lsp_exercises s)) = Some (si_exercises i)"
    by (simp_all add: payload_reading)
  then have "si_user_id i = Fin 1 \<and> length (si_exercises i) = length (lsp_exercises s)"
    using those_eq_Some_length by fastforce
  with body i show ?thesis by simp
qed

theorem submitted_draft_reaches_server_witness:
  "ls_reach ''2024-05-01'' (ls_fire (EditMetric ''sleep_hours'' ''7.25'') (ls_init ''2024-05-01''))
   \<and> printable (session_payload
        (ls_fire (EditMetric ''sleep_hours'' ''7.25'') (ls_init ''2024-05-01'')))
   \<and> body_read (on_wire (last (lsp_pending (ls_fire Submit
        (ls_fire (EditMetric ''sleep_hours'' ''7.25'') (ls_init ''2024-05-01''))))))
      = Some (session_payload
          (ls_fire (EditMetric ''sleep_hours'' ''7.25'') (ls_init ''2024-05-01'')))"
proof -
  let ?s = "ls_fire (EditMetric ''sleep_hours'' ''7.25'') (ls_init ''2024-05-01'')"
  have r: "ls_reach ''2024-05-01'' ?s"
    by (rule ls_reach.ls_step [OF ls_reach.ls_start])
      (simp add: ls_init_def defaultMetrics_def obj_keys_def)
  have n: "js_Number ''7.25'' = Fin (29 / 4)" by code_simp
  have p: "printable (session_payload ?s)"
    by (simp add: session_payload_def ls_init_def defaultMetrics_def first_exercise_def
        USER_ID_def setMetric_def metric_value_def n is_decimal_iff)
  from submitted_draft_reaches_server [OF r p] r p show ?thesis by blast
qed

text \<open>
  The dashboard shows what the server sent: when the server answers the
  page's request with a status from 200 to 299 and, as body, the text of a
  \<^verbatim>\<open>DashboardResponse\<close> whose numbers print exactly, the page leaves the loading
  state and renders the view of exactly that response: text to document to
  typed value to screen, with nothing lost on the way.
\<close>

theorem dashboard_shows_what_the_server_sent:
  assumes "exact_dashboard d"
    and "list_all (\<lambda>q. is_str_or_num (snd q)) (tp_rationale (dr_next_workout d))"
    and "srv (on_wire (dp_pending dp_init ! 0))
           = Answered \<lparr>ws_status = 200, ws_statusText = txt,
               ws_body = json_text (DashboardResponse_to_js d)\<rparr>"
  shows "dp_render (dp_fire (DSettled 0 (as_network srv (dp_pending dp_init ! 0))) dp_init)
           = Inr (DLoaded (typed_dashboard_view d))"
proof -
  from assms(1) have "printable (DashboardResponse_to_js d)" by (rule printable_dashboard)
  with assms(3) have fr: "as_network srv (dp_pending dp_init ! 0)
      = Responded \<lparr>rs_status = 200, rs_statusText = txt,
          rs_json = Some (DashboardResponse_to_js d)\<rparr>"
    by (simp add: as_network_def from_wire_def)
  have "DashboardResponse_of_js (DashboardResponse_to_js d) = Some d"
    using assms(2) by (rule DashboardResponse_roundtrip)
  then show ?thesis
    unfolding fr
    by (rule dp_render_conforming)
      (simp_all add: dp_settled_def getDashboard_def request_def settle_def rs_ok_def
        dp_init_def dp_mount_def dp_initial_def)
qed

theorem dashboard_shows_what_the_server_sent_witness:
  "exact_dashboard scenario_A
   \<and> list_all (\<lambda>q. is_str_or_num (snd q)) (tp_rationale (dr_next_workout scenario_A))
   \<and> scenario_A_server (on_wire (dp_pending dp_init ! 0))
       = Answered \<lparr>ws_status = 200, ws_statusText = ''OK'',
           ws_body = json_text (DashboardResponse_to_js scenario_A)\<rparr>
   \<and> dp_render (dp_fire (DSettled 0 (as_network scenario_A_server (dp_pending dp_init ! 0)))
        dp_init)
       = Inr (DLoaded (typed_dashboard_view scenario_A))"
proof -
  have e: "exact_dashboard scenario_A"
    by (simp add: scenario_A_def exact_dashboard_def exact_prescription_def exact_metrics_def
        exact_summary_def is_decimal_iff)
  have r: "list_all (\<lambda>q. is_str_or_num (snd q)) (tp_rationale (dr_next_workout scenario_A))"
    by (simp add: scenario_A_def is_str_or_num_def)
  have a: "scenario_A_server (on_wire (dp_pending dp_init ! 0))
       = Answered \<lparr>ws_status = 200, ws_statusText = ''OK'',
           ws_body = json_text (DashboardResponse_to_js scenario_A)\<rparr>"
    by (simp add: scenario_A_server_def on_wire_def dp_init_def dp_mount_def dp_initial_def
        getDashboard_def request_def USER_ID_def digit_char_def)
  from dashboard_shows_what_the_server_sent [of scenario_A scenario_A_server "''OK''", OF e r a]
    e r a
  show ?thesis by (intro conjI)
qed

end
