(* ===== verification/Spec2Isabelle.thy ===== *)
theory Spec2Isabelle
  imports EndToEnd
begin

text \<open>
  \<^bold>\<open>Gymyo web front end: a verification development.\<close>

  The program (\<^verbatim>\<open>src/web/src\<close>, TypeScript and React) is the browser front end of
  a strength-training coach. It has four parts:

  \<^enum> the \<^emph>\<open>schema\<close> (\<^verbatim>\<open>api/types.ts\<close>): the shapes exchanged with the backend;
  \<^enum> the \<^emph>\<open>API client\<close> (\<^verbatim>\<open>api/client.ts\<close>): \<^verbatim>\<open>ApiError\<close>, \<^verbatim>\<open>request\<close> and the seven
    operations of \<^verbatim>\<open>api\<close>;
  \<^enum> five \<^emph>\<open>page controllers\<close> (\<^verbatim>\<open>pages/*.tsx\<close>): each owns its state, issues
    client calls on mount or on a user action, and renders from its state;
  \<^enum> the \<^emph>\<open>shell\<close> (\<^verbatim>\<open>App.tsx\<close>, \<^verbatim>\<open>components/Layout.tsx\<close>): routes and navigation.

  The backend, the network, the browser and React are outside the program.
  They enter the model as parameters (the result of a \<^verbatim>\<open>fetch\<close>, today's date,
  the text a user types) and as a small model of the JavaScript operators the
  source applies to its values.

  \<^bold>\<open>How the code is modelled.\<close>

  \<^item> \<^emph>\<open>Values.\<close> TypeScript types are erased at run time, so the state of a page
    holds run-time values (\<open>jsval\<close>): whatever the server sent is what the page
    stores. The types of \<^verbatim>\<open>types.ts\<close> are records, and \<open>T_of_js\<close> reads a run-time
    value at type \<open>T\<close>. A statement "the draft conforms to \<open>T\<close>" is
    \<open>T_of_js v \<noteq> None\<close>; a statement "the handler does what the typed code says"
    is a refinement between the handler on \<open>jsval\<close> and an update of the record.
  \<^item> \<^emph>\<open>Promises.\<close> A call of the client is a pair of the request it issues and
    the continuation applied to the result of \<^verbatim>\<open>fetch\<close> (\<open>'a promise\<close>); \<^verbatim>\<open>request\<close>
    is split at its \<^verbatim>\<open>await fetch\<close> into \<open>build_request\<close> and \<open>settle\<close>. An
    exception is a value: \<open>thrown + 'a\<close>.
  \<^item> \<^emph>\<open>Pages.\<close> A page is a record of its \<^verbatim>\<open>useState\<close> cells plus the list of
    requests in flight. Each handler is a definition; an \<^verbatim>\<open>async\<close> handler is two,
    the part before its \<^verbatim>\<open>await\<close> and the part after. \<open>x_fire\<close> dispatches an
    event, \<open>x_enabled\<close> says whether the rendered page offers it, \<open>x_run\<close> runs a
    sequence of events, and the inductive \<open>x_reach\<close> is the set of reachable
    states. Responses may arrive in any order: the event that settles a
    request names its position in the list.
  \<^item> \<^emph>\<open>Rendering.\<close> A render is a function from the state to a view, or to the
    error that a property read from \<^verbatim>\<open>undefined\<close> or an object as a React child
    throws. The screen is the view of the mounted page in the outlet of the
    layout; an error of the page is the result of the whole render.
  \<^item> \<^emph>\<open>Bodies.\<close> The client and the pages work on JSON documents. The text on
    the wire is a second level: \<open>on_wire\<close> prints the body of a request as
    \<^verbatim>\<open>JSON.stringify\<close> does, \<open>received\<close> reads the body of a response as
    \<^verbatim>\<open>response.json()\<close> does, and a server that sees and answers text is turned
    into a network of documents by \<open>as_network\<close>.

  \<^bold>\<open>Theories.\<close>

  \<^item> \<open>Prelude\<close>: lemma collections, \<open>mapi\<close> (\<^verbatim>\<open>Array.map\<close> with an index), objects
    as insertion-ordered association lists (\<open>obj_get\<close>, \<open>obj_set\<close>, \<open>obj_spread\<close>).
  \<^item> \<open>JsNumber\<close>: numbers as exact rationals or \<open>NaN\<close>/\<open>\<plusminus>Infinity\<close>; \<open>js_Number\<close>
    (\<^verbatim>\<open>Number(s)\<close>) and \<open>number_to_string\<close>, with the round trip on integers.
  \<^item> \<open>Decimal\<close>: the round trip of printing and reading for every number that
    prints exactly (\<open>is_decimal\<close>: at most 20 digits after the point), and the
    JSON number grammar (\<open>json_number_ok\<close>), which every print satisfies.
  \<^item> \<open>JsValue\<close>: run-time values \<open>jsval\<close>; truthiness, \<^verbatim>\<open>??\<close>, property reads that
    throw on \<^verbatim>\<open>null\<close>, string conversion, React's text of a child, and
    \<open>json_value\<close>, the JSON document \<^verbatim>\<open>JSON.stringify\<close> writes.
  \<^item> \<open>Schema\<close> (\<^verbatim>\<open>api/types.ts\<close>): one record per exported type; \<open>T_to_js\<close> and
    \<open>T_of_js\<close>; the round trip \<open>T_of_js (T_to_js x) = Some x\<close> for each type.
  \<^item> \<open>Uri\<close>: \<open>encodeURIComponent\<close> with its decoder.
  \<^item> \<open>ApiClient\<close> (\<^verbatim>\<open>api/client.ts\<close>): \<open>build_request\<close>, \<open>error_detail\<close>, \<open>settle\<close>,
    \<open>request\<close> and the operations \<open>getProfile\<close> to \<open>getDashboard\<close>.
  \<^item> \<open>PageKit\<close>: what the pages share: \<open>catch_message\<close> (the expression of every
    \<^verbatim>\<open>catch\<close>), the generic metrics form (\<open>metric_inputs\<close>, \<open>setMetric\<close>) of
    \<^verbatim>\<open>LogSessionPage.tsx\<close> and \<^verbatim>\<open>MetricsPage.tsx\<close>, and sequencing of reads that
    may throw.
  \<^item> \<open>LogSessionPage\<close>, \<open>MetricsPage\<close>, \<open>ProfilePage\<close>, \<open>DashboardPage\<close>,
    \<open>AnalyticsPage\<close>: one controller each, from the file of the same name under
    \<^verbatim>\<open>pages/\<close>: state, handlers, render, invariant, typed specification.
  \<^item> \<open>Shell\<close> (\<^verbatim>\<open>App.tsx\<close>, \<^verbatim>\<open>components/Layout.tsx\<close>): the route table, the
    redirect of unknown paths, the navigation links and the frame \<open>Layout\<close>.
  \<^item> \<open>App\<close>: the composition: a location and the controller mounted there,
    \<open>app_fire\<close>, and \<open>deliver\<close>, where a request in flight meets the network.
  \<^item> \<open>Screen\<close> (\<^verbatim>\<open>App.tsx\<close>, \<^verbatim>\<open>components/Layout.tsx\<close>): \<open>page_render\<close> and
    \<open>app_render\<close>, the render of the mounted page inside the layout.
  \<^item> \<open>JsonText\<close>: JSON as text: the printer \<open>json_text\<close>, the reader
    \<open>json_parse\<close>, their round trip, and the proof that the reader's fuel is
    enough for every text.
  \<^item> \<open>Wire\<close> (\<^verbatim>\<open>api/client.ts\<close>): requests and responses as text, \<open>on_wire\<close> and
    \<open>received\<close>, and the round trips of request and response bodies.
  \<^item> \<open>EndToEnd\<close>: the pages over the wire: what the form displays and reads
    back, what a server reads of a submitted draft, what the dashboard shows
    of the text a server sent.
  \<^item> this theory: the properties that span components.

  \<^bold>\<open>What the theorems show.\<close>

  \<^item> \<^emph>\<open>Client.\<close> A response outside 200--299 always becomes an \<open>ApiError\<close> with
    the response's status, whose message is the body's \<^verbatim>\<open>detail\<close> when there is
    one and the status text when the body is unusable; a response inside
    200--299 gives the decoded body unchanged; each operation issues the
    request of the interface table; an exercise name cannot break out of its
    query parameter; caller-supplied headers replace, rather than extend, the
    default content type.
  \<^item> \<^emph>\<open>Draft pages.\<close> In every reachable state the draft conforms to its type;
    each handler refines the typed update of one field or one row; editing
    row \<open>i\<close> leaves every other row untouched; a submission sends a snapshot of
    the draft; its outcome is characterised on every branch, network failures
    included; the message changes only when a response arrives. Submissions
    are not guarded, so the response that arrives last decides the message;
    the profile loaded on mount overwrites edits made before it arrived.
  \<^item> \<^emph>\<open>Read pages.\<close> A conforming response is rendered as the typed view says
    (Scenario A of the specification is the witness); the dashboard fetches
    exactly once; rendering can only throw on a body that is not of the
    declared type; an error with an empty message is not shown; an analytics
    error removes the Refresh button; analytics responses that arrive out of
    order leave data of an older filter on screen.
  \<^item> \<^emph>\<open>Shell and composition.\<close> Every location settles on a page after at most
    one redirect; links and routes agree; navigation discards the state of
    the page left; the page invariants hold in every reachable state of the
    application; scenarios B, C and D of the specification run end to end.
    The screen shows the page of the location with its link highlighted; a
    page whose render throws takes title and navigation with it.
  \<^item> \<^emph>\<open>Round trips.\<close> A server that parses the text of a request body gets the
    document of the payload, and the document read at \<open>SessionInput\<close> is the
    typed draft; a client that receives the text of a document resolves to
    that document; the text an input shows, typed back, leaves the draft as
    it is. These hold for numbers that print exactly and objects with
    distinct keys (\<open>printable\<close>).
  \<^item> \<^emph>\<open>Bounds and accounting.\<close> Exercise rows are only added, one per
    \<^verbatim>\<open>Add Exercise\<close>; the requests in flight are the submissions minus the
    responses; the analytics URL is between one and three times the length of
    the exercise name, after a prefix of 34 characters.
  \<^item> \<^emph>\<open>Charts.\<close> The data keys named in the markup of the two charts select
    the week and volume, and the date and estimate, of every point of a
    conforming response; the muscle is selected by neither.

  \<^bold>\<open>Bounds.\<close>

  \<^item> Numbers are exact: \<open>Fin q\<close> for a rational \<open>q\<close>, without binary64 rounding.
    \<open>number_to_string\<close> is exact on integers and prints at most 20 fraction
    digits otherwise, always in positional notation: JavaScript switches to
    exponent notation from \<open>10\<^sup>2\<^sup>1\<close> on and below \<open>10\<^sup>-\<^sup>6\<close>, magnitudes no
    quantity of the program (sets, kilograms, hours) comes near.
  \<^item> Strings are byte strings (the multiplication sign of the dashboard is its
    two UTF-8 bytes); \<open>encodeURIComponent\<close> escapes each byte. The JSON reader
    decodes \<^verbatim>\<open>\uXXXX\<close> to UTF-8 and an unpaired surrogate to its three-byte
    form; the printer passes every byte from \<^verbatim>\<open>0x20\<close> on through, so text that
    holds unpaired surrogates is outside the round trip.
  \<^item> \<open>printable\<close> documents are those whose numbers are finite decimals with at
    most 20 fraction digits and whose objects have distinct keys. A number
    with more digits is printed truncated by \<open>number_to_string\<close>, where
    JavaScript prints the shortest text that reads back; the round trips say
    nothing about such numbers.
  \<^item> \<open>settle_location\<close> is defined by \<^theory_text>\<open>partial_function (option)\<close> because the
    router follows redirects without a bound; \<open>every_location_settles\<close> proves
    that it returns for every path.
  \<^item> Fuel is used in two places. \<open>frac_digits\<close> prints at most 20 fraction
    digits. The JSON reader \<open>parse_value\<close> follows nesting with fuel, and
    \<open>json_parse\<close> starts it with twice the length of the text plus one:
    \<open>parse_fuel\<close> proves that every amount from twice the length of the input
    on gives the same result, so the reader never fails for lack of fuel.
    \<open>read_string\<close> is a \<^theory_text>\<open>function\<close> whose termination is proved from
    \<open>read_char_shorter\<close>. Every other recursive definition is a \<^theory_text>\<open>fun\<close>.
  \<^item> Routes are matched by exact path; the router library's tolerance for
    letter case and trailing slashes is not modelled.

  \<^bold>\<open>Not modelled.\<close> The backend (a server is any function from the request
  text to a response text or a failure); how the chart library draws (the
  model stops at the data and the keys handed to it); styling and markup
  that carries no data; React's scheduling (a state update and the render
  that follows it are one step) and its reconciliation by keys; binary64
  rounding of numbers; the entry point that mounts \<^verbatim>\<open>App\<close>, which is not among
  the sources.
\<close>

text \<open>
  C31. Navigation discards the page: in the composed application, following a
  link to another page replaces the mounted controller by a new one in its
  initial state, and coming back to the first page mounts that page anew:
  its draft, its message and its requests in flight are gone, and a page
  that fetches on mount fetches again.
\<close>

theorem navigation_discards_page_state:
  assumes "p \<noteq> page_of (app_page a)"
  shows "app_fire (Navigate (href_of p) today) a
           = Some \<lparr>app_location = href_of p, app_page = mount today p\<rparr>
    \<and> app_run [Navigate (href_of p) today, Navigate (href_of (page_of (app_page a))) today'] a
           = Some \<lparr>app_location = href_of (page_of (app_page a)),
                   app_page = mount today' (page_of (app_page a))\<rparr>"
  using assms by (simp add: navigate_to_page)

theorem navigation_discards_page_state_witness:
  "app_run [LogSessionEv (EditMetric ''soreness'' ''9''), LogSessionEv AddExercise,
            LogSessionEv Submit, Navigate ''/metrics'' ''2024-05-01'',
            Navigate ''/log-session'' ''2024-05-01'']
      \<lparr>app_location = ''/log-session'', app_page = SLogSession (ls_init ''2024-05-01'')\<rparr>
   = Some \<lparr>app_location = ''/log-session'', app_page = SLogSession (ls_init ''2024-05-01'')\<rparr>"
proof -
  let ?s = "ls_fire Submit (ls_fire AddExercise
      (ls_fire (EditMetric ''soreness'' ''9'') (ls_init ''2024-05-01'')))"
  have run: "app_run [LogSessionEv (EditMetric ''soreness'' ''9''), LogSessionEv AddExercise,
            LogSessionEv Submit]
      \<lparr>app_location = ''/log-session'', app_page = SLogSession (ls_init ''2024-05-01'')\<rparr>
     = Some \<lparr>app_location = ''/log-session'', app_page = SLogSession ?s\<rparr>"
    by (simp add: ls_init_def defaultMetrics_def)
  have "Metrics \<noteq> page_of (app_page \<lparr>app_location = ''/log-session'',
      app_page = SLogSession ?s\<rparr>)"
    by simp
  from navigation_discards_page_state [OF this, of "''2024-05-01''" "''2024-05-01''"]
  have "app_run [Navigate ''/metrics'' ''2024-05-01'', Navigate ''/log-session'' ''2024-05-01'']
      \<lparr>app_location = ''/log-session'', app_page = SLogSession ?s\<rparr>
    = Some \<lparr>app_location = ''/log-session'', app_page = SLogSession (ls_init ''2024-05-01'')\<rparr>"
    by (simp add: href_of_def mount_def navigate_def)
  with run show ?thesis by (simp add: ls_init_def defaultMetrics_def)
qed

text \<open>
  C18. The page invariants hold in the composed application: in every state
  the application can reach from any start URL by any navigation, user action
  and response, the location is the route of the mounted page, and the mounted
  controller satisfies its invariant: the drafts of the Log Session and
  Metrics pages conform to their types, the profile draft has its five
  fields, every analytics request is a well-formed read, and the dashboard
  has at most one request in flight.
\<close>

theorem app_invariant:
  assumes "app_reach a"
  shows "route (app_location a) = Show (page_of (app_page a)) \<and> page_inv (app_page a)"
  using app_reach_inv [OF assms] by (simp add: app_inv_def)

theorem app_invariant_witness:
  "\<exists>a. app_run [ProfileEv (PEdit PGoal ''strength''), Navigate ''/nowhere'' ''2024-05-01'']
          \<lparr>app_location = ''/profile'', app_page = SProfile pp_init\<rparr> = Some a
     \<and> app_location a = ''/'' \<and> page_of (app_page a) = Dashboard \<and> page_inv (app_page a)"
proof -
  have "route ''/nowhere'' = Redirect ''/''" by (simp add: route_def routes_def)
  from settle_unknown [OF this]
  have run: "app_run [ProfileEv (PEdit PGoal ''strength''), Navigate ''/nowhere'' ''2024-05-01'']
          \<lparr>app_location = ''/profile'', app_page = SProfile pp_init\<rparr>
     = Some \<lparr>app_location = ''/'', app_page = SDashboard dp_init\<rparr>"
    by (simp add: navigate_def mount_def)
  have "app_reach \<lparr>app_location = ''/profile'', app_page = SProfile pp_init\<rparr>"
    using app_reach.app_begin [of "''/profile''" "''2024-05-01''"]
    by (simp add: app_start_def mount_def)
  from app_invariant [OF app_run_reach [OF this run]] run show ?thesis by simp
qed



end
